theory Spec2Isabelle
  imports Complex_Main "HOL-Library.AList"
begin

section \<open>JavaScript values used by parseSVG.ts\<close>

text \<open>
  The converter in \<^verbatim>\<open>src/tool/parseSVG.ts\<close> works on JavaScript numbers and strings.
  A number is modelled as \<open>jsnum\<close>: \<open>NaN\<close>, the two infinities, or a finite value
  \<open>Num r\<close> with \<open>r\<close> a real. The idealisation is the usual one: a finite double is
  identified with the real it denotes, so rounding, overflow to an infinity and the sign
  of zero are not represented (zero is the positive zero). Strings are \<open>string\<close>
  (lists of characters); white space is the ASCII part of the JavaScript class \<open>\s\<close>.
\<close>

datatype jsnum = NaN | PInf | NInf | Num real

fun jneg :: "jsnum \<Rightarrow> jsnum" where
  "jneg NaN = NaN"
| "jneg PInf = NInf"
| "jneg NInf = PInf"
| "jneg (Num a) = Num (- a)"

fun jadd :: "jsnum \<Rightarrow> jsnum \<Rightarrow> jsnum" where
  "jadd NaN _ = NaN"
| "jadd _ NaN = NaN"
| "jadd PInf NInf = NaN"
| "jadd NInf PInf = NaN"
| "jadd PInf _ = PInf"
| "jadd NInf _ = NInf"
| "jadd _ PInf = PInf"
| "jadd _ NInf = NInf"
| "jadd (Num a) (Num b) = Num (a + b)"

definition jsub :: "jsnum \<Rightarrow> jsnum \<Rightarrow> jsnum" where
  "jsub a b = jadd a (jneg b)"

text \<open>The sign of a product or quotient with an infinite operand: \<open>True\<close> is negative.\<close>

fun negative :: "jsnum \<Rightarrow> bool" where
  "negative NInf = True"
| "negative (Num a) = (a < 0)"
| "negative _ = False"

definition signedInf :: "bool \<Rightarrow> jsnum" where
  "signedInf neg = (if neg then NInf else PInf)"

fun isInf :: "jsnum \<Rightarrow> bool" where
  "isInf PInf = True"
| "isInf NInf = True"
| "isInf _ = False"

fun jmul :: "jsnum \<Rightarrow> jsnum \<Rightarrow> jsnum" where
  "jmul NaN _ = NaN"
| "jmul _ NaN = NaN"
| "jmul (Num a) (Num b) = Num (a * b)"
| "jmul a b =
     (if a = Num 0 \<or> b = Num 0 then NaN else signedInf (negative a \<noteq> negative b))"

fun jdiv :: "jsnum \<Rightarrow> jsnum \<Rightarrow> jsnum" where
  "jdiv NaN _ = NaN"
| "jdiv _ NaN = NaN"
| "jdiv (Num a) (Num b) =
     (if b = 0 then (if a = 0 then NaN else signedInf (a < 0)) else Num (a / b))"
| "jdiv (Num a) _ = Num 0"
| "jdiv a (Num b) = signedInf (negative a \<noteq> (b < 0))"
| "jdiv _ _ = NaN"

text \<open>\<^verbatim>\<open>Math.min\<close> of two numbers, and the comparison \<^verbatim>\<open><\<close>.\<close>

fun jmin :: "jsnum \<Rightarrow> jsnum \<Rightarrow> jsnum" where
  "jmin NaN _ = NaN"
| "jmin _ NaN = NaN"
| "jmin NInf _ = NInf"
| "jmin _ NInf = NInf"
| "jmin PInf b = b"
| "jmin a PInf = a"
| "jmin (Num a) (Num b) = Num (min a b)"

fun jlt :: "jsnum \<Rightarrow> jsnum \<Rightarrow> bool" where
  "jlt NaN _ = False"
| "jlt _ NaN = False"
| "jlt (Num a) (Num b) = (a < b)"
| "jlt NInf b = (b \<noteq> NInf)"
| "jlt a PInf = (a \<noteq> PInf)"
| "jlt _ _ = False"

definition isNaN :: "jsnum \<Rightarrow> bool" where
  "isNaN n = (n = NaN)"

text \<open>A number is falsy when it is \<open>NaN\<close> or zero.\<close>

definition truthyNum :: "jsnum \<Rightarrow> bool" where
  "truthyNum n = (n \<noteq> NaN \<and> n \<noteq> Num 0)"

subsection \<open>Strings\<close>

definition isSpace :: "char \<Rightarrow> bool" where
  "isSpace c = (c \<in> set [CHR '' '', CHR 0x09, CHR 0x0A, CHR 0x0B, CHR 0x0C, CHR 0x0D])"

definition isLineTerminator :: "char \<Rightarrow> bool" where
  "isLineTerminator c = (c = CHR 0x0A \<or> c = CHR 0x0D)"

definition isDigit :: "char \<Rightarrow> bool" where
  "isDigit c = (c \<in> set ''0123456789'')"

definition digitVal :: "char \<Rightarrow> nat" where
  "digitVal c = of_char c - 48"

definition digitsToNat :: "string \<Rightarrow> nat" where
  "digitsToNat ds = foldl (\<lambda>a c. 10 * a + digitVal c) 0 ds"

text \<open>
  Modelled from the spec: \<^verbatim>\<open>trim\<close> is imported from \<^verbatim>\<open>core/util\<close>, which is not among
  the sources. It removes the white space at both ends of a string, as
  \<^verbatim>\<open>String.prototype.trim\<close> does; the mini-grammars of the spec split what is left on
  runs of white space and commas.
\<close>

definition trim :: "string \<Rightarrow> string" where
  "trim s = rev (dropWhile isSpace (rev (dropWhile isSpace s)))"

text \<open>\<^verbatim>\<open>String.prototype.toLowerCase\<close> on the letters \<^verbatim>\<open>A\<close> to \<^verbatim>\<open>Z\<close>.\<close>

definition toLowerCase :: "string \<Rightarrow> string" where
  "toLowerCase s =
     map (\<lambda>c. if 65 \<le> (of_char c :: nat) \<and> (of_char c :: nat) \<le> 90
               then char_of ((of_char c :: nat) + 32) else c) s"

text \<open>
  \<^verbatim>\<open>DILIMITER_REG = /[\s,]+/\<close> and \<^verbatim>\<open>str.split(DILIMITER_REG)\<close>: the fields between
  maximal runs of delimiters. A string that starts or ends with a delimiter has an empty
  first or last field, and the empty string splits into one empty field.
\<close>

definition isDelimiter :: "char \<Rightarrow> bool" where
  "isDelimiter c = (isSpace c \<or> c = CHR '','')"

function split :: "string \<Rightarrow> string list" where
  "split s =
     (let field = takeWhile (\<lambda>c. \<not> isDelimiter c) s;
          rest = dropWhile (\<lambda>c. \<not> isDelimiter c) s
      in if rest = [] then [field] else field # split (dropWhile isDelimiter rest))"
  by pat_completeness auto
termination
proof (relation "measure length")
  show "wf (measure length)" by simp
next
  fix s field rest
  assume r: "rest = dropWhile (\<lambda>c. \<not> isDelimiter c) s" and ne: "rest \<noteq> []"
  from ne obtain c cs where rc: "rest = c # cs" by (cases rest) auto
  have "dropWhile (\<lambda>c. \<not> isDelimiter c) s = c # cs" using r rc by simp
  then have d: "isDelimiter c" by (simp add: dropWhile_eq_Cons_conv)
  have "length (dropWhile isDelimiter rest) \<le> length cs"
    using d rc by (simp add: length_dropWhile_le)
  moreover have "length rest \<le> length s" using r by (simp add: length_dropWhile_le)
  ultimately show "(dropWhile isDelimiter rest, s) \<in> measure length" using rc by simp
qed

subsection \<open>Numeric conversions\<close>

text \<open>
  \<^verbatim>\<open>parseFloat\<close> skips leading white space and reads the longest prefix that is a
  decimal literal: an optional sign, then \<^verbatim>\<open>Infinity\<close> or digits with an optional
  fraction and an optional exponent (an exponent with no digit is not part of the
  literal). No such prefix gives \<open>NaN\<close>.
\<close>

definition signPart :: "string \<Rightarrow> bool \<times> string" where
  "signPart s =
     (case s of
        [] \<Rightarrow> (False, [])
      | c # r \<Rightarrow> if c = CHR ''-'' then (True, r) else if c = CHR ''+'' then (False, r) else (False, s))"

definition exponentPart :: "string \<Rightarrow> int \<times> string" where
  "exponentPart s =
     (case s of
        [] \<Rightarrow> (0, s)
      | c # r \<Rightarrow>
          if c = CHR ''e'' \<or> c = CHR ''E'' then
            (let (neg, r1) = signPart r; ds = takeWhile isDigit r1
             in if ds = [] then (0, s)
                else (if neg then - int (digitsToNat ds) else int (digitsToNat ds),
                      dropWhile isDigit r1))
          else (0, s))"

definition strDecimalLiteral :: "string \<Rightarrow> (jsnum \<times> string) option" where
  "strDecimalLiteral s =
     (let (neg, u) = signPart s
      in if take 8 u = ''Infinity'' then Some (signedInf neg, drop 8 u)
         else
           let ip = takeWhile isDigit u;
               u1 = dropWhile isDigit u;
               (fp, u2) =
                 (case u1 of
                    [] \<Rightarrow> ([], u1)
                  | c # r \<Rightarrow> if c = CHR ''.'' then (takeWhile isDigit r, dropWhile isDigit r)
                            else ([], u1))
           in if ip = [] \<and> fp = [] then None
              else
                let (ex, u3) = exponentPart u2;
                    m = real (digitsToNat (ip @ fp));
                    e = ex - int (length fp);
                    v = (if 0 \<le> e then m * 10 ^ nat e else m / 10 ^ nat (- e))
                in Some (Num (if neg then - v else v), u3))"

definition parseFloat :: "string \<Rightarrow> jsnum" where
  "parseFloat s =
     (case strDecimalLiteral (dropWhile isSpace s) of None \<Rightarrow> NaN | Some (v, _) \<Rightarrow> v)"

text \<open>\<^verbatim>\<open>parseFloat(undefined)\<close> is \<open>NaN\<close>: an absent string is \<open>None\<close>.\<close>

definition parseFloatOpt :: "string option \<Rightarrow> jsnum" where
  "parseFloatOpt s = (case s of None \<Rightarrow> NaN | Some t \<Rightarrow> parseFloat t)"

text \<open>\<^verbatim>\<open>parseInt(s, 10)\<close>: white space, an optional sign, then decimal digits.\<close>

definition parseInt :: "string \<Rightarrow> jsnum" where
  "parseInt s =
     (let (neg, u) = signPart (dropWhile isSpace s); ds = takeWhile isDigit u
      in if ds = [] then NaN
         else Num (if neg then - real (digitsToNat ds) else real (digitsToNat ds)))"

text \<open>
  The unary \<^verbatim>\<open>+\<close> on an attribute value (\<^verbatim>\<open>+xmlNode.getAttribute('x')\<close>): \<^verbatim>\<open>null\<close>
  and the blank string convert to 0, a string that is a decimal literal as a whole to
  its value, every other string to \<open>NaN\<close> (hexadecimal, octal and binary literals are
  not modelled).
\<close>

definition toNumber :: "string option \<Rightarrow> jsnum" where
  "toNumber a =
     (case a of
        None \<Rightarrow> Num 0
      | Some s \<Rightarrow>
          (let t = trim s
           in if t = [] then Num 0
              else (case strDecimalLiteral t of
                      Some (v, rest) \<Rightarrow> if rest = [] then v else NaN
                    | None \<Rightarrow> NaN)))"

text \<open>\<^verbatim>\<open>s[i]\<close>: the one-character string at index \<open>i\<close>, \<^verbatim>\<open>undefined\<close> out of range.\<close>

definition charAt :: "string \<Rightarrow> nat \<Rightarrow> string option" where
  "charAt s i = (if i < length s then Some [s ! i] else None)"

text \<open>\<^verbatim>\<open>s.indexOf(c)\<close>: the first index of the character, \<open>-1\<close> when absent.\<close>

fun indexOf :: "string \<Rightarrow> char \<Rightarrow> int" where
  "indexOf [] c = - 1"
| "indexOf (x # xs) c = (if x = c then 0 else (let i = indexOf xs c in if i < 0 then - 1 else i + 1))"

section \<open>Mini-grammars\<close>

subsection \<open>parsePoints\<close>

text \<open>
  \<^verbatim>\<open>for (var i = 0; i < list.length; i += 2)\<close> reads \<^verbatim>\<open>list[i]\<close> and
  \<^verbatim>\<open>list[i + 1]\<close>. On the last token of a list of odd length \<^verbatim>\<open>list[i + 1]\<close> is
  \<^verbatim>\<open>undefined\<close>, read by \<^verbatim>\<open>parseFloat\<close> as \<open>NaN\<close>.
\<close>

fun parsePointsLoop :: "string list \<Rightarrow> (jsnum \<times> jsnum) list" where
  "parsePointsLoop [] = []"
| "parsePointsLoop [a] = [(parseFloat a, parseFloatOpt None)]"
| "parsePointsLoop (a # b # rest) = (parseFloat a, parseFloat b) # parsePointsLoop rest"

definition parsePoints :: "string \<Rightarrow> (jsnum \<times> jsnum) list" where
  "parsePoints pointsString = parsePointsLoop (split (trim pointsString))"


section \<open>Documents, dictionaries and scene values\<close>

subsection \<open>The document\<close>

text \<open>
  A node below the root element is an element (\<open>nodeType\<close> 1), a text node (3), a
  CDATA section (4) or a comment (8); processing instructions are not modelled. Beside
  the root element a document can hold a document type node (\<open>nodeType\<close> 10, whose
  \<open>nodeName\<close> is the declared name) and processing instructions (7).
  \<^verbatim>\<open>getAttribute\<close> gives \<^verbatim>\<open>null\<close> (\<open>None\<close>) for an attribute the element does not
  have.
\<close>

datatype xml =
    Element string "(string \<times> string) list" "xml list"
  | Text string
  | CDATASection string
  | Comment string

fun nodeType :: "xml \<Rightarrow> nat" where
  "nodeType (Element _ _ _) = 1"
| "nodeType (Text _) = 3"
| "nodeType (CDATASection _) = 4"
| "nodeType (Comment _) = 8"

fun nodeName :: "xml \<Rightarrow> string" where
  "nodeName (Element name _ _) = name"
| "nodeName (Text _) = ''#text''"
| "nodeName (CDATASection _) = ''#cdata-section''"
| "nodeName (Comment _) = ''#comment''"

fun attributes :: "xml \<Rightarrow> (string \<times> string) list" where
  "attributes (Element _ as _) = as"
| "attributes _ = []"

fun childNodes :: "xml \<Rightarrow> xml list" where
  "childNodes (Element _ _ cs) = cs"
| "childNodes _ = []"

definition getAttribute :: "xml \<Rightarrow> string \<Rightarrow> string option" where
  "getAttribute n a = map_of (attributes n) a"

text \<open>\<^verbatim>\<open>textContent\<close>: the data of a character node, the text below an element.\<close>

fun textContent :: "xml \<Rightarrow> string" where
  "textContent (Element _ _ cs) = concat (map textContent [c \<leftarrow> cs. nodeType c \<noteq> 8])"
| "textContent (Text d) = d"
| "textContent (CDATASection d) = d"
| "textContent (Comment d) = d"

text \<open>\<^verbatim>\<open>a || b\<close> on an attribute value: the empty string is falsy, like \<^verbatim>\<open>null\<close>.\<close>

definition orElse :: "string option \<Rightarrow> string \<Rightarrow> string" where
  "orElse a d = (case a of None \<Rightarrow> d | Some s \<Rightarrow> if s = [] then d else s)"

datatype topnode = Top xml | DocumentType string | ProcessingInstruction string

fun topType :: "topnode \<Rightarrow> nat" where
  "topType (Top n) = nodeType n"
| "topType (DocumentType _) = 10"
| "topType (ProcessingInstruction _) = 7"

fun topName :: "topnode \<Rightarrow> string" where
  "topName (Top n) = nodeName n"
| "topName (DocumentType name) = name"
| "topName (ProcessingInstruction target) = target"

text \<open>
  The argument of \<^verbatim>\<open>parseXML\<close>: a document (\<open>nodeType\<close> 9) with its children, or
  another node together with its following siblings. A string argument is first turned
  into a document by the platform's \<^verbatim>\<open>DOMParser\<close>, which is outside this file.
\<close>

datatype source = Document "topnode list" | NodeWithSiblings topnode "topnode list"

datatype error = Error string | TypeError

subsection \<open>Dictionaries\<close>

text \<open>
  A style record (\<^verbatim>\<open>zrStyle\<close>, \<^verbatim>\<open>__inheritedStyle\<close>, \<^verbatim>\<open>styleList\<close> and the result of
  \<^verbatim>\<open>parseStyleAttribute\<close>) is a plain object with string values. It is the list of
  its own properties in insertion order, and an assignment \<^verbatim>\<open>d[k] = v\<close> is
  \<open>AList.update k v d\<close>. These records are read under the fixed names of
  \<^verbatim>\<open>attributesMap\<close> only, and no object inherits a property of such a name: a name
  that was never assigned reads as \<^verbatim>\<open>undefined\<close>. (\<^verbatim>\<open>styleList\<close> is written under the
  names found in a \<^verbatim>\<open>style\<close> attribute. The assignment of a string to \<^verbatim>\<open>__proto__\<close>
  has no effect in JavaScript; the entry that it leaves in the list is never read.) The
  objects that are read under a name taken from the document are modelled with what
  they inherit, see below.
\<close>

type_synonym dict = "(string \<times> string) list"

text \<open>
  Modelled from the spec: \<^verbatim>\<open>extend\<close> and \<^verbatim>\<open>defaults\<close> are imported from
  \<^verbatim>\<open>core/util\<close>, which is not among the sources. The spec has the style record of a
  node merged from layers, the values inherited from the parent filling only what the
  node does not set itself: \<open>util_extend\<close> assigns every property of the source to the
  target, \<open>util_defaults\<close> only those that the target does not have.
\<close>

definition util_extend :: "('k \<times> 'v) list \<Rightarrow> ('k \<times> 'v) list \<Rightarrow> ('k \<times> 'v) list" where
  "util_extend target source = foldl (\<lambda>t (k, v). AList.update k v t) target source"

definition util_defaults :: "('k \<times> 'v) list \<Rightarrow> ('k \<times> 'v) list \<Rightarrow> ('k \<times> 'v) list" where
  "util_defaults target source =
     foldl (\<lambda>t (k, v). if map_of t k = None then AList.update k v t else t) target source"

subsection \<open>Paints and style values\<close>

text \<open>
  A \<^verbatim>\<open>LinearGradient\<close> object: its end points and its colour stops
  (\<^verbatim>\<open>{offset, color}\<close>).
\<close>

record gradient =
  grad_x1 :: jsnum
  grad_y1 :: jsnum
  grad_x2 :: jsnum
  grad_y2 :: jsnum
  colorStops :: "(jsnum \<times> string) list"

text \<open>
  The JavaScript values the converter stores in a style, in the registry of definitions
  or in the text cursor. \<open>JConcat a b\<close> is the string \<^verbatim>\<open>a + b\<close> where one operand is a
  string: the concatenation of the operands' string forms, kept symbolic because the
  decimal form of a number is not modelled. \<open>JNode n\<close> is a node of the document taken
  as a value, and \<open>JBuiltin name\<close> is the built-in function or object of the language
  that has this name.
\<close>

datatype jsval =
    Undefined
  | Null
  | JNum jsnum
  | JStr string
  | JConcat jsval jsval
  | JGradient gradient
  | JList "jsnum list"
  | JBool bool
  | JNode xml
  | JBuiltin string

subsection \<open>Plain objects and what they inherit\<close>

text \<open>
  \<^verbatim>\<open>nodeParsers\<close>, \<^verbatim>\<open>defineParsers\<close> and the registry \<^verbatim>\<open>_defs\<close> are plain objects that
  are read with a name taken from the document. A property that is not the object's own
  is looked up in its prototype, and the prototype of an object literal is
  \<^verbatim>\<open>Object.prototype\<close>. These are its properties: \<^verbatim>\<open>constructor\<close> is the function
  \<^verbatim>\<open>Object\<close>, reading \<^verbatim>\<open>__proto__\<close> gives the prototype itself, and the others are
  its methods.
\<close>

definition Object_prototype :: "(string \<times> jsval) list" where
  "Object_prototype =
     [(''constructor'', JBuiltin ''Object''),
      (''__defineGetter__'', JBuiltin ''Object.prototype.__defineGetter__''),
      (''__defineSetter__'', JBuiltin ''Object.prototype.__defineSetter__''),
      (''hasOwnProperty'', JBuiltin ''Object.prototype.hasOwnProperty''),
      (''__lookupGetter__'', JBuiltin ''Object.prototype.__lookupGetter__''),
      (''__lookupSetter__'', JBuiltin ''Object.prototype.__lookupSetter__''),
      (''isPrototypeOf'', JBuiltin ''Object.prototype.isPrototypeOf''),
      (''propertyIsEnumerable'', JBuiltin ''Object.prototype.propertyIsEnumerable''),
      (''toString'', JBuiltin ''Object.prototype.toString''),
      (''valueOf'', JBuiltin ''Object.prototype.valueOf''),
      (''__proto__'', JBuiltin ''Object.prototype''),
      (''toLocaleString'', JBuiltin ''Object.prototype.toLocaleString'')]"

text \<open>
  What an assignment \<^verbatim>\<open>obj[name] = value\<close> does when \<open>name\<close> is not an own property of
  \<open>obj\<close>. It is decided by the prototype chain: the object gets a new own property
  (nothing is inherited under the name, or a writable data property); the accessor
  \<^verbatim>\<open>__proto__\<close> replaces the prototype of the object; a property that cannot be
  written, or a setter that refuses the object, throws a \<^verbatim>\<open>TypeError\<close> (the file is a
  module, so it runs in strict mode); or a setter returns without an effect.
\<close>

datatype assignment = OwnProperty | SetPrototype | Throws | NoEffect

text \<open>
  \<^verbatim>\<open>DefsMap\<close>, the type of the registry: its own properties in insertion order, what it
  inherits under a name, and what an assignment of an inherited name does.
  \<open>emptyObject\<close> is \<^verbatim>\<open>{}\<close>. \<open>defsGet\<close> is the read \<^verbatim>\<open>defs[name]\<close>.
\<close>

record DefsMap =
  defs_own :: "(string \<times> jsval) list"
  defs_inherited :: "string \<Rightarrow> jsval"
  defs_assign :: "string \<Rightarrow> assignment"

definition emptyObject :: DefsMap where
  "emptyObject =
     \<lparr>defs_own = [],
      defs_inherited =
        (\<lambda>name. case map_of Object_prototype name of None \<Rightarrow> Undefined | Some member \<Rightarrow> member),
      defs_assign = (\<lambda>name. if name = ''__proto__'' then SetPrototype else OwnProperty)\<rparr>"

definition defsGet :: "DefsMap \<Rightarrow> string \<Rightarrow> jsval" where
  "defsGet defs name =
     (case map_of (defs_own defs) name of
        Some def \<Rightarrow> def
      | None \<Rightarrow> defs_inherited defs name)"

section \<open>Paint resolution\<close>

text \<open>
  \<^verbatim>\<open>urlRegex = /url\(\s*#(.*?)\)/\<close>. \<open>urlAt s\<close> matches the expression at the start of
  \<open>s\<close> and gives its group: after \<^verbatim>\<open>url(\<close> and white space comes \<^verbatim>\<open>#\<close>, and the
  lazy group runs to the first \<^verbatim>\<open>)\<close>, which no line terminator may precede.
  \<open>urlMatch\<close> is \<^verbatim>\<open>str.match(urlRegex)\<close>: the leftmost match.
\<close>

definition urlAt :: "string \<Rightarrow> string option" where
  "urlAt s =
     (if take 4 s = ''url('' then
        (case dropWhile isSpace (drop 4 s) of
           [] \<Rightarrow> None
         | c # r \<Rightarrow>
             if c = CHR ''#'' then
               (case dropWhile (\<lambda>x. x \<noteq> CHR '')'' \<and> \<not> isLineTerminator x) r of
                  [] \<Rightarrow> None
                | d # _ \<Rightarrow>
                    if d = CHR '')''
                    then Some (takeWhile (\<lambda>x. x \<noteq> CHR '')'' \<and> \<not> isLineTerminator x) r)
                    else None)
             else None)
      else None)"

fun urlMatch :: "string \<Rightarrow> string option" where
  "urlMatch [] = None"
| "urlMatch (c # cs) = (case urlAt (c # cs) of Some g \<Rightarrow> Some g | None \<Rightarrow> urlMatch cs)"

text \<open>
  \<^verbatim>\<open>getPaint(str, defs)\<close>. The root element is resolved with \<^verbatim>\<open>defs = null\<close>
  (\<open>None\<close>), which like the empty string makes \<^verbatim>\<open>defs && str && str.match(urlRegex)\<close>
  falsy. \<^verbatim>\<open>defs[url]\<close> is a read of a plain object: for an id that is not registered
  it gives what the registry inherits under that name.
\<close>

definition getPaint :: "string \<Rightarrow> DefsMap option \<Rightarrow> jsval" where
  "getPaint str defs =
     (case defs of
        None \<Rightarrow> JStr str
      | Some d \<Rightarrow>
          if str = [] then JStr str
          else (case urlMatch str of
                  Some g \<Rightarrow> defsGet d (trim g)
                | None \<Rightarrow> JStr str))"

section \<open>Transforms\<close>

subsection \<open>The matrix primitives\<close>

text \<open>
  Modelled from the spec: \<^verbatim>\<open>core/matrix\<close> is imported by parseSVG.ts and is not among
  the sources. The spec calls it the low-level affine-matrix library whose primitives
  compose a function with the matrix built so far, the new function outermost. A matrix
  is the six numbers \<open>[a, b, c, d, tx, ty]\<close> of the map
  \<open>(x, y) \<mapsto> (a x + c y + tx, b x + d y + ty)\<close>; \<open>matrix_create\<close> is the identity,
  and \<open>matrix_translate\<close>, \<open>matrix_scale\<close> and \<open>matrix_rotate\<close> give the matrix of
  the argument followed by the translation, scaling or rotation.
\<close>

datatype matrix = Matrix jsnum jsnum jsnum jsnum jsnum jsnum

definition matrix_create :: matrix where
  "matrix_create = Matrix (Num 1) (Num 0) (Num 0) (Num 1) (Num 0) (Num 0)"

fun matrix_translate :: "matrix \<Rightarrow> jsnum \<times> jsnum \<Rightarrow> matrix" where
  "matrix_translate (Matrix a b c d tx ty) (vx, vy) = Matrix a b c d (jadd tx vx) (jadd ty vy)"

fun matrix_scale :: "matrix \<Rightarrow> jsnum \<times> jsnum \<Rightarrow> matrix" where
  "matrix_scale (Matrix a b c d tx ty) (vx, vy) =
     Matrix (jmul a vx) (jmul b vy) (jmul c vx) (jmul d vy) (jmul tx vx) (jmul ty vy)"

fun jsin :: "jsnum \<Rightarrow> jsnum" where
  "jsin (Num a) = Num (sin a)"
| "jsin _ = NaN"

fun jcos :: "jsnum \<Rightarrow> jsnum" where
  "jcos (Num a) = Num (cos a)"
| "jcos _ = NaN"

fun matrix_rotate :: "matrix \<Rightarrow> jsnum \<Rightarrow> matrix" where
  "matrix_rotate (Matrix a b c d tx ty) rad =
     (let st = jsin rad; ct = jcos rad
      in Matrix (jadd (jmul a ct) (jmul b st)) (jadd (jmul (jneg a) st) (jmul b ct))
                (jadd (jmul c ct) (jmul d st)) (jadd (jmul (jneg c) st) (jmul ct d))
                (jadd (jmul ct tx) (jmul st ty)) (jsub (jmul ct ty) (jmul st tx)))"

subsection \<open>The transform attribute\<close>

text \<open>
  \<^verbatim>\<open>transformRegex = /(translate|scale|rotate|skewX|skewY|matrix)\(([\-\s0-9\.e,]*)\)/g\<close>.
  \<open>transformAt s\<close> matches it at the start of \<open>s\<close> and gives the two groups and the
  length of the match; \<open>transformOps\<close> collects the groups of all matches from left to
  right, as the callback passed to \<^verbatim>\<open>transform.replace\<close> pushes them (type and value
  are kept as a pair).
\<close>

definition transformNames :: "string list" where
  "transformNames = [''translate'', ''scale'', ''rotate'', ''skewX'', ''skewY'', ''matrix'']"

definition isTransformArg :: "char \<Rightarrow> bool" where
  "isTransformArg c =
     (c = CHR ''-'' \<or> isSpace c \<or> isDigit c \<or> c = CHR ''.'' \<or> c = CHR ''e'' \<or> c = CHR '','')"

definition transformAt :: "string \<Rightarrow> (string \<times> string \<times> nat) option" where
  "transformAt s =
     (case find (\<lambda>n. take (length n) s = n) transformNames of
        None \<Rightarrow> None
      | Some n \<Rightarrow>
          (case drop (length n) s of
             [] \<Rightarrow> None
           | c # r \<Rightarrow>
               if c = CHR ''('' then
                 (let v = takeWhile isTransformArg r
                  in case dropWhile isTransformArg r of
                       [] \<Rightarrow> None
                     | d # _ \<Rightarrow>
                         if d = CHR '')'' then Some (n, v, length n + length v + 2) else None)
               else None))"

fun transformOps :: "string \<Rightarrow> (string \<times> string) list" where
  "transformOps [] = []"
| "transformOps (c # cs) =
     (case transformAt (c # cs) of
        Some (type, v, len) \<Rightarrow> (type, v) # transformOps (drop (len - 1) cs)
      | None \<Rightarrow> transformOps cs)"

text \<open>
  One round of the loop over \<^verbatim>\<open>transformOps\<close>: \<^verbatim>\<open>m = m || matrix.create()\<close>, then the
  \<^verbatim>\<open>switch (type)\<close>. The cases read \<^verbatim>\<open>value[0]\<close>, \<^verbatim>\<open>value[1]\<close>, ..., which index the
  string \<^verbatim>\<open>value\<close>; \<^verbatim>\<open>valueArr\<close> is assigned and not read. The second component is the
  console: \<^verbatim>\<open>console.warn\<close> appends its message.
\<close>

definition transformStep ::
  "string \<times> string \<Rightarrow> matrix option \<times> string list \<Rightarrow> matrix option \<times> string list" where
  "transformStep op st =
     (let (type, v) = op;
          (m0, console) = st;
          m = (case m0 of None \<Rightarrow> matrix_create | Some a \<Rightarrow> a)
      in if type = ''translate'' then
           (Some (matrix_translate m
              (parseFloatOpt (charAt v 0),
               parseFloat (case charAt v 1 of None \<Rightarrow> ''0'' | Some c \<Rightarrow> c))), console)
         else if type = ''scale'' then
           (Some (matrix_scale m
              (parseFloatOpt (charAt v 0),
               parseFloatOpt (case charAt v 1 of None \<Rightarrow> charAt v 0 | Some c \<Rightarrow> Some c))), console)
         else if type = ''rotate'' then
           (Some (matrix_rotate m (parseFloatOpt (charAt v 0))), console)
         else if type = ''skew'' then
           (Some m, console @ [''Skew transform is not supported yet''])
         else if type = ''matrix'' then
           (Some (Matrix (parseFloatOpt (charAt v 0)) (parseFloatOpt (charAt v 1))
                         (parseFloatOpt (charAt v 2)) (parseFloatOpt (charAt v 3))
                         (parseFloatOpt (charAt v 4)) (parseFloatOpt (charAt v 5))), console)
         else (Some m, console))"

text \<open>
  \<^verbatim>\<open>for (var i = transformOps.length - 1; i > 0; i -= 2)\<close>: the rounds run from the
  last function of the attribute to the first.
\<close>

definition transformLoop ::
  "(string \<times> string) list \<Rightarrow> string list \<Rightarrow> matrix option \<times> string list" where
  "transformLoop ops console = foldr transformStep ops (None, console)"

text \<open>
  The matrix \<^verbatim>\<open>parseTransformAttribute\<close> passes to \<^verbatim>\<open>node.setLocalTransform\<close> for a
  non-empty attribute value, with the console after it: commas become blanks first.
\<close>

definition transformOf :: "string \<Rightarrow> string list \<Rightarrow> matrix option \<times> string list" where
  "transformOf transform console =
     transformLoop (transformOps (map (\<lambda>c. if c = CHR '','' then CHR '' '' else c) transform)) console"

section \<open>The viewBox\<close>

datatype RectLike = RectLike jsnum jsnum jsnum jsnum

record ViewBoxTransform =
  vb_scale :: "jsnum \<times> jsnum"
  vb_position :: "jsnum \<times> jsnum"

fun makeViewBoxTransform :: "RectLike \<Rightarrow> jsnum \<Rightarrow> jsnum \<Rightarrow> ViewBoxTransform" where
  "makeViewBoxTransform (RectLike x y w h) width height =
     (let scaleX = jdiv width w;
          scaleY = jdiv height h;
          scale = jmin scaleX scaleY
      in \<lparr>vb_scale = (scale, scale),
          vb_position =
            (jadd (jmul (jneg (jadd x (jdiv w (Num 2)))) scale) (jdiv width (Num 2)),
             jadd (jmul (jneg (jadd y (jdiv h (Num 2)))) scale) (jdiv height (Num 2)))\<rparr>)"

section \<open>Gradients\<close>

text \<open>
  \<^verbatim>\<open>_parseGradientColorStops\<close> walks the children of the gradient element. For a child
  element it calls \<^verbatim>\<open>offsetStr.indexOf('%')\<close> on the value of \<^verbatim>\<open>getAttribute('offset')\<close>:
  on \<^verbatim>\<open>null\<close> that call throws a \<^verbatim>\<open>TypeError\<close>.
\<close>

definition stopOffset :: "string \<Rightarrow> jsnum" where
  "stopOffset offsetStr =
     (if indexOf offsetStr (CHR ''%'') > 0 then jdiv (parseInt offsetStr) (Num 100)
      else if offsetStr \<noteq> [] then parseFloat offsetStr
      else Num 0)"

fun parseGradientColorStops ::
  "xml list \<Rightarrow> (jsnum \<times> string) list \<Rightarrow> error + (jsnum \<times> string) list" where
  "parseGradientColorStops [] stops = Inr stops"
| "parseGradientColorStops (stop # rest) stops =
     (if nodeType stop = 1 then
        (case getAttribute stop ''offset'' of
           None \<Rightarrow> Inl TypeError
         | Some offsetStr \<Rightarrow>
             parseGradientColorStops rest
               (stops @ [(stopOffset offsetStr, orElse (getAttribute stop ''stop-color'') ''#000000'')]))
      else parseGradientColorStops rest stops)"

text \<open>\<^verbatim>\<open>defineParsers['lineargradient']\<close>.\<close>

definition lineargradient :: "xml \<Rightarrow> error + gradient" where
  "lineargradient xmlNode =
     (let x1 = parseInt (orElse (getAttribute xmlNode ''x1'') ''0'');
          y1 = parseInt (orElse (getAttribute xmlNode ''y1'') ''0'');
          x2 = parseInt (orElse (getAttribute xmlNode ''x2'') ''10'');
          y2 = parseInt (orElse (getAttribute xmlNode ''y2'') ''0'')
      in case parseGradientColorStops (childNodes xmlNode) [] of
           Inl e \<Rightarrow> Inl e
         | Inr stops \<Rightarrow>
             Inr \<lparr>grad_x1 = x1, grad_y1 = y1, grad_x2 = x2, grad_y2 = y2, colorStops = stops\<rparr>)"

section \<open>Scene elements\<close>

text \<open>
  Modelled from the spec: the scene classes (\<^verbatim>\<open>Group\<close>, the shapes, \<^verbatim>\<open>Text\<close>,
  \<^verbatim>\<open>ZImage\<close>, \<^verbatim>\<open>Style\<close>) are imported and not among the sources. The spec calls them
  the external scene nodes, polymorphic over groups, shape kinds, text and image, which
  the converter creates and owns until it returns. An element is modelled by what
  parseSVG.ts writes to it. \<open>el_style\<close> holds the style properties that were set, in the order they were
  set; a property that was not set reads as \<^verbatim>\<open>null\<close>. \<open>el_inheritedStyle\<close> is the
  hidden field \<^verbatim>\<open>__inheritedStyle\<close>, \<open>el_transform\<close> the argument of
  \<^verbatim>\<open>setLocalTransform\<close>, and \<open>el_stroke\<close>, \<open>el_textStroke\<close> the properties
  \<^verbatim>\<open>stroke\<close>, \<^verbatim>\<open>textStroke\<close> that \<^verbatim>\<open>parseAttributes\<close> sets to \<^verbatim>\<open>true\<close> on the element.
  A path keeps the string handed to \<^verbatim>\<open>createFromString\<close>. The kind \<open>DomNode\<close> with the
  shape \<open>NodeRef n\<close> is not a scene class: it stands for the node \<open>n\<close> of the document
  where the walker holds it in the place of a scene element; none of its other fields
  is ever written, and it has neither \<^verbatim>\<open>__inheritedStyle\<close> nor a method \<^verbatim>\<open>add\<close>.
\<close>

datatype el_kind =
  Group | Rect | Circle | Line | Ellipse | Polygon | Polyline | ZImage | ZText | Path | DomNode

datatype shape =
    NoShape
  | RectShape jsnum jsnum jsnum jsnum
  | CircleShape jsnum jsnum jsnum
  | LineShape jsnum jsnum jsnum jsnum
  | EllipseShape jsnum jsnum jsnum jsnum
  | PointsShape "(jsnum \<times> jsnum) list"
  | PathData string
  | NodeRef xml

record props =
  el_kind :: el_kind
  el_shape :: shape
  el_style :: "(string \<times> jsval) list"
  el_inheritedStyle :: "dict option"
  el_transform :: "matrix option"
  el_scale :: "(jsnum \<times> jsnum) option"
  el_position :: "(jsval \<times> jsval) option"
  el_stroke :: bool
  el_textStroke :: bool

text \<open>An element with its children (of a group) and its clip path.\<close>

datatype el = El props "el list" "el option"

definition newEl :: "el_kind \<Rightarrow> props" where
  "newEl k =
     \<lparr>el_kind = k, el_shape = NoShape, el_style = [], el_inheritedStyle = None,
      el_transform = None, el_scale = None, el_position = None,
      el_stroke = False, el_textStroke = False\<rparr>"

fun propsOf :: "el \<Rightarrow> props" where
  "propsOf (El p _ _) = p"

fun childrenOf :: "el \<Rightarrow> el list" where
  "childrenOf (El _ cs _) = cs"

text \<open>
  The state outside the parser object: \<^verbatim>\<open>styleRegex.lastIndex\<close> of the module and the
  messages written by \<^verbatim>\<open>console.warn\<close>.
\<close>

record world =
  styleRegex_lastIndex :: nat
  console_warn :: "string list"

subsection \<open>inheritStyle\<close>

definition inheritStyle :: "el option \<Rightarrow> props \<Rightarrow> props" where
  "inheritStyle parent child =
     (case parent of
        None \<Rightarrow> child
      | Some pe \<Rightarrow>
          (case el_inheritedStyle (propsOf pe) of
             None \<Rightarrow> child
           | Some parentStyle \<Rightarrow>
               child\<lparr>el_inheritedStyle :=
                 Some (util_defaults (case el_inheritedStyle child of None \<Rightarrow> [] | Some c \<Rightarrow> c)
                         parentStyle)\<rparr>))"

section \<open>Attributes and styles\<close>

definition attributesMap :: "(string \<times> string) list" where
  "attributesMap =
     [(''fill'', ''fill''),
      (''stroke'', ''stroke''),
      (''stroke-width'', ''lineWidth''),
      (''opacity'', ''opacity''),
      (''fill-opacity'', ''fillOpacity''),
      (''stroke-opacity'', ''strokeOpacity''),
      (''stroke-dasharray'', ''lineDash''),
      (''stroke-dashoffset'', ''lineDashOffset''),
      (''stroke-linecap'', ''lineCap''),
      (''stroke-linejoin'', ''lineJoin''),
      (''stroke-miterlimit'', ''miterLimit''),
      (''font-family'', ''fontFamily''),
      (''font-size'', ''fontSize''),
      (''font-style'', ''fontStyle''),
      (''font-weight'', ''fontWeight''),
      (''text-align'', ''textAlign''),
      (''alignment-baseline'', ''textBaseline'')]"

subsection \<open>The inline style\<close>

text \<open>
  \<^verbatim>\<open>styleRegex = /([^\s:;]+)\s*:\s*([^:;]+)/g\<close>. \<open>styleAt s\<close> matches it at the start
  of \<open>s\<close> and gives the two groups and the length of the match. The key is the longest
  run of key characters; white space, a colon and white space follow; the value is the
  longest run of characters other than \<^verbatim>\<open>:\<close> and \<^verbatim>\<open>;\<close>. When nothing is left for the
  value after the white space, the expression gives its last white space character to
  the value.
\<close>

definition isStyleKey :: "char \<Rightarrow> bool" where
  "isStyleKey c = (\<not> isSpace c \<and> c \<noteq> CHR '':'' \<and> c \<noteq> CHR '';'')"

definition isStyleValue :: "char \<Rightarrow> bool" where
  "isStyleValue c = (c \<noteq> CHR '':'' \<and> c \<noteq> CHR '';'')"

definition styleAt :: "string \<Rightarrow> (string \<times> string \<times> nat) option" where
  "styleAt s =
     (let key = takeWhile isStyleKey s;
          r1 = dropWhile isStyleKey s;
          ws1 = takeWhile isSpace r1
      in if key = [] then None
         else (case dropWhile isSpace r1 of
                 [] \<Rightarrow> None
               | c # r2 \<Rightarrow>
                   if c = CHR '':'' then
                     (let ws2 = takeWhile isSpace r2;
                          v = takeWhile isStyleValue (dropWhile isSpace r2);
                          n = length key + length ws1 + 1 + length ws2
                      in if v \<noteq> [] then Some (key, v, n + length v)
                         else if ws2 \<noteq> [] then Some (key, [last ws2], n)
                         else None)
                   else None))"

text \<open>The leftmost match in \<open>s\<close>, with the number of characters before it.\<close>

fun styleFind :: "string \<Rightarrow> ((string \<times> string \<times> nat) \<times> nat) option" where
  "styleFind [] = None"
| "styleFind (c # cs) =
     (case styleAt (c # cs) of
        Some m \<Rightarrow> Some (m, 0)
      | None \<Rightarrow> (case styleFind cs of None \<Rightarrow> None | Some (m, off) \<Rightarrow> Some (m, Suc off)))"

text \<open>
  \<^verbatim>\<open>styleRegex.exec(style)\<close> for the global expression: the search starts at
  \<^verbatim>\<open>lastIndex\<close>; a match sets \<^verbatim>\<open>lastIndex\<close> to its end, a failure sets it to 0. The
  result is the pair of groups (or \<^verbatim>\<open>null\<close>) and the new \<^verbatim>\<open>lastIndex\<close>.
\<close>

definition styleRegex_exec :: "string \<Rightarrow> nat \<Rightarrow> (string \<times> string) option \<times> nat" where
  "styleRegex_exec style lastIndex =
     (if length style < lastIndex then (None, 0)
      else (case styleFind (drop lastIndex style) of
              None \<Rightarrow> (None, 0)
            | Some ((k, v, len), off) \<Rightarrow> (Some (k, v), lastIndex + off + len)))"

text \<open>
  \<^verbatim>\<open>while ((styleRegResult = styleRegex.exec(style)) != null)\<close>: every match assigns
  \<^verbatim>\<open>styleList[key] = value\<close>. The loop ends because each match moves \<^verbatim>\<open>lastIndex\<close>
  forward.
\<close>

function styleLoop :: "string \<Rightarrow> nat \<Rightarrow> dict \<Rightarrow> dict \<times> nat" where
  "styleLoop style lastIndex styleList =
     (case styleRegex_exec style lastIndex of
        (None, li) \<Rightarrow> (styleList, li)
      | (Some (k, v), li) \<Rightarrow> styleLoop style li (AList.update k v styleList))"
  by pat_completeness auto
termination
proof -
  have parts: "length (takeWhile P xs) + length (dropWhile P xs) = length xs"
    for P and xs :: string
    by (metis length_append takeWhile_dropWhile_id)
  have at_len: "0 < len \<and> len \<le> length s" if m: "styleAt s = Some (k, v, len)"
    for s k v len
  proof -
    let ?r1 = "dropWhile isStyleKey s"
    from m obtain c r2 where r: "dropWhile isSpace ?r1 = c # r2"
      by (auto simp: styleAt_def Let_def split: if_splits list.splits)
    have a: "length (takeWhile isStyleKey s) + length ?r1 = length s"
      by (rule parts)
    have b: "length (takeWhile isSpace ?r1) + Suc (length r2) = length ?r1"
      using parts [of isSpace ?r1] r by simp
    have c: "length (takeWhile isSpace r2) + length (dropWhile isSpace r2) = length r2"
      by (rule parts)
    have d: "length (takeWhile isStyleValue (dropWhile isSpace r2)) \<le> length (dropWhile isSpace r2)"
      by (rule length_takeWhile_le)
    from m r have
      "len = length (takeWhile isStyleKey s) + length (takeWhile isSpace ?r1) + 1
              + length (takeWhile isSpace r2)
              + length (takeWhile isStyleValue (dropWhile isSpace r2))
       \<or> len = length (takeWhile isStyleKey s) + length (takeWhile isSpace ?r1) + 1
              + length (takeWhile isSpace r2)"
      by (auto simp: styleAt_def Let_def split: if_splits)
    with a b c d show ?thesis by arith
  qed
  have bound: "0 < len \<and> off + len \<le> length s" if "styleFind s = Some ((k, v, len), off)"
    for s k v len off
    using that
  proof (induction s arbitrary: off)
    case Nil
    then show ?case by simp
  next
    case (Cons c cs)
    show ?case
    proof (cases "styleAt (c # cs)")
      case (Some m)
      with Cons.prems have "styleAt (c # cs) = Some (k, v, len)" and "off = 0" by auto
      with at_len [of "c # cs" k v len] show ?thesis by simp
    next
      case None
      with Cons.prems obtain off' where "styleFind cs = Some ((k, v, len), off')" and "off = Suc off'"
        by (auto split: option.splits)
      with Cons.IH [of off'] show ?thesis by simp
    qed
  qed
  have advances: "lastIndex < li \<and> li \<le> length style"
    if "styleRegex_exec style lastIndex = (Some kv, li)" for style lastIndex kv li
    using that
    by (auto simp: styleRegex_exec_def split: if_splits option.splits dest!: bound)
  show ?thesis
    by (relation "measure (\<lambda>(style, lastIndex, styleList). length style - lastIndex)")
       (auto dest!: advances [OF sym])
qed

text \<open>
  \<^verbatim>\<open>parseStyleAttribute\<close>: no work for a missing or empty \<^verbatim>\<open>style\<close>; otherwise
  \<^verbatim>\<open>styleRegex.lastIndex = 0\<close>, the loop, and the copy of the listed properties under
  their style names.
\<close>

definition parseStyleAttribute :: "xml \<Rightarrow> world \<Rightarrow> dict \<times> world" where
  "parseStyleAttribute xmlNode w =
     (case getAttribute xmlNode ''style'' of
        None \<Rightarrow> ([], w)
      | Some style \<Rightarrow>
          if style = [] then ([], w)
          else
            (let (styleList, li) = styleLoop style 0 []
             in (foldl (\<lambda>result (svgAttrName, prop).
                          case map_of styleList svgAttrName of
                            None \<Rightarrow> result
                          | Some v \<Rightarrow> AList.update prop v result) [] attributesMap,
                 w\<lparr>styleRegex_lastIndex := li\<rparr>)))"

subsection \<open>parseTransformAttribute\<close>

definition parseTransformAttribute :: "xml \<Rightarrow> props \<Rightarrow> world \<Rightarrow> props \<times> world" where
  "parseTransformAttribute xmlNode node w =
     (case getAttribute xmlNode ''transform'' of
        None \<Rightarrow> (node, w)
      | Some transform \<Rightarrow>
          if transform = [] then (node, w)
          else (let (m, c) = transformOf transform (console_warn w)
                in (node\<lparr>el_transform := m\<rparr>, w\<lparr>console_warn := c\<rparr>)))"

subsection \<open>Truthiness and addition of values\<close>

fun emptyString :: "jsval \<Rightarrow> bool" where
  "emptyString (JStr s) = (s = [])"
| "emptyString (JConcat a b) = (emptyString a \<and> emptyString b)"
| "emptyString _ = False"

fun truthy :: "jsval \<Rightarrow> bool" where
  "truthy Undefined = False"
| "truthy Null = False"
| "truthy (JNum n) = truthyNum n"
| "truthy (JStr s) = (s \<noteq> [])"
| "truthy (JConcat a b) = (\<not> (emptyString a \<and> emptyString b))"
| "truthy (JGradient _) = True"
| "truthy (JList _) = True"
| "truthy (JBool b) = b"
| "truthy (JNode _) = True"
| "truthy (JBuiltin _) = True"

text \<open>
  \<^verbatim>\<open>a + b\<close>: a concatenation when an operand is a string (or an object), the sum of
  the operands as numbers otherwise; \<^verbatim>\<open>undefined\<close> is \<open>NaN\<close> as a number.
\<close>

fun isStringy :: "jsval \<Rightarrow> bool" where
  "isStringy (JStr _) = True"
| "isStringy (JConcat _ _) = True"
| "isStringy (JGradient _) = True"
| "isStringy (JList _) = True"
| "isStringy (JNode _) = True"
| "isStringy (JBuiltin _) = True"
| "isStringy _ = False"

fun toNum :: "jsval \<Rightarrow> jsnum" where
  "toNum (JNum n) = n"
| "toNum Null = Num 0"
| "toNum (JBool b) = Num (if b then 1 else 0)"
| "toNum _ = NaN"

definition jsplus :: "jsval \<Rightarrow> jsval \<Rightarrow> jsval" where
  "jsplus a b = (if isStringy a \<or> isStringy b then JConcat a b else JNum (jadd (toNum a) (toNum b)))"

text \<open>\<^verbatim>\<open>v || 0\<close>.\<close>

definition orZero :: "jsval \<Rightarrow> jsval" where
  "orZero v = (if truthy v then v else JNum (Num 0))"

subsection \<open>parseAttributes\<close>

text \<open>
  The loop over \<^verbatim>\<open>attributesMap\<close> that assigns every presentation attribute the
  element has to \<^verbatim>\<open>zrStyle\<close>.
\<close>

definition attributeStyle :: "xml \<Rightarrow> dict \<Rightarrow> dict" where
  "attributeStyle xmlNode zrStyle =
     foldl (\<lambda>z (svgAttrName, prop).
              case getAttribute xmlNode svgAttrName of
                None \<Rightarrow> z
              | Some attrValue \<Rightarrow> AList.update prop attrValue z) zrStyle attributesMap"

text \<open>The two \<^verbatim>\<open>each\<close> loops that copy numbers and strings into the element's style.\<close>

definition setNumbers :: "bool \<Rightarrow> dict \<Rightarrow> (string \<times> jsval) list \<Rightarrow> (string \<times> jsval) list" where
  "setNumbers isTextEl zrStyle elStyle =
     foldl (\<lambda>s propName.
              let elPropName =
                    (if propName = ''lineWidth'' \<and> isTextEl then ''textStrokeWidth'' else propName)
              in case map_of zrStyle propName of
                   None \<Rightarrow> s
                 | Some v \<Rightarrow> AList.update elPropName (JNum (parseFloat v)) s)
       elStyle
       [''lineWidth'', ''opacity'', ''fillOpacity'', ''strokeOpacity'', ''miterLimit'', ''fontSize'']"

definition setStrings :: "dict \<Rightarrow> (string \<times> jsval) list \<Rightarrow> (string \<times> jsval) list" where
  "setStrings zrStyle elStyle =
     foldl (\<lambda>s propName.
              case map_of zrStyle propName of
                None \<Rightarrow> s
              | Some v \<Rightarrow> AList.update propName (JStr v) s)
       elStyle
       [''lineDashOffset'', ''lineCap'', ''lineJoin'', ''fontWeight'', ''fontFamily'',
        ''fontStyle'', ''textAlign'', ''textBaseline'']"

text \<open>The four tests on \<^verbatim>\<open>zrStyle.textBaseline\<close> and \<^verbatim>\<open>zrStyle.textAlign\<close>.\<close>

definition normalizeText :: "dict \<Rightarrow> dict" where
  "normalizeText zrStyle =
     (let z1 = (if map_of zrStyle ''textBaseline'' = None
                   \<or> map_of zrStyle ''textBaseline'' = Some []
                   \<or> map_of zrStyle ''textBaseline'' = Some ''auto''
                then AList.update ''textBaseline'' ''alphabetic'' zrStyle else zrStyle);
          z2 = (if map_of z1 ''textBaseline'' = Some ''alphabetic''
                then AList.update ''textBaseline'' ''bottom'' z1 else z1);
          z3 = (if map_of z2 ''textAlign'' = Some ''start''
                then AList.update ''textAlign'' ''left'' z2 else z2)
      in if map_of z3 ''textAlign'' = Some ''end''
         then AList.update ''textAlign'' ''right'' z3 else z3)"

definition parseAttributes ::
  "xml \<Rightarrow> props \<Rightarrow> DefsMap option \<Rightarrow> bool \<Rightarrow> world \<Rightarrow> props \<times> world" where
  "parseAttributes xmlNode el defs onlyInlineStyle w =
     (let zrStyle0 = (case el_inheritedStyle el of None \<Rightarrow> [] | Some d \<Rightarrow> d);
          isTextEl = (el_kind el = ZText);
          (el1, zrStyle1, w1) =
            (if nodeType xmlNode = 1 then
               (let (e, wa) = parseTransformAttribute xmlNode el w;
                    (inline, wb) = parseStyleAttribute xmlNode wa;
                    z = util_extend zrStyle0 inline
                in (e, if \<not> onlyInlineStyle then attributeStyle xmlNode z else z, wb))
             else (el, zrStyle0, w));
          elFillProp = (if isTextEl then ''textFill'' else ''fill'');
          elStrokeProp = (if isTextEl then ''textStroke'' else ''stroke'');
          s1 = (case map_of zrStyle1 ''fill'' of
                  None \<Rightarrow> el_style el1
                | Some v \<Rightarrow> AList.update elFillProp (getPaint v defs) (el_style el1));
          s2 = (case map_of zrStyle1 ''stroke'' of
                  None \<Rightarrow> s1
                | Some v \<Rightarrow> AList.update elStrokeProp (getPaint v defs) s1);
          s3 = setNumbers isTextEl zrStyle1 s2;
          zrStyle2 = normalizeText zrStyle1;
          s4 = setStrings zrStyle2 s3;
          s5 = (case map_of zrStyle2 ''lineDash'' of
                  None \<Rightarrow> s4
                | Some v \<Rightarrow>
                    if v = [] then s4
                    else AList.update ''lineDash'' (JList (map parseFloat (split (trim v)))) s4);
          hasStroke = (case map_of s5 elStrokeProp of
                         None \<Rightarrow> False
                       | Some v \<Rightarrow> truthy v \<and> v \<noteq> JStr ''none'')
      in (el1\<lparr>el_style := s5,
              el_stroke := (el_stroke el1 \<or> (hasStroke \<and> \<not> isTextEl)),
              el_textStroke := (el_textStroke el1 \<or> (hasStroke \<and> isTextEl)),
              el_inheritedStyle := Some zrStyle2\<rparr>,
          w1))"

section \<open>The parser\<close>

text \<open>
  The fields of an \<^verbatim>\<open>SVGParser\<close> object that are read: \<^verbatim>\<open>_defs\<close>, \<^verbatim>\<open>_isDefine\<close>,
  \<^verbatim>\<open>_isText\<close>, \<^verbatim>\<open>_textX\<close> and \<^verbatim>\<open>_textY\<close> (\<^verbatim>\<open>_root\<close> is written once and never
  read). A new object has no definitions, both flags off, and a text cursor that is
  \<^verbatim>\<open>undefined\<close>.
\<close>

record parser =
  this_defs :: DefsMap
  this_isDefine :: bool
  this_isText :: bool
  this_textX :: jsval
  this_textY :: jsval

definition SVGParser_new :: parser where
  "SVGParser_new =
     \<lparr>this_defs = emptyObject, this_isDefine = False, this_isText = False,
      this_textX = Undefined, this_textY = Undefined\<rparr>"

subsection \<open>What the host provides\<close>

text \<open>
  Modelled from the spec: what the converter gets from code that is not among the
  sources is the parameter \<open>host\<close> of the walker. \<open>textWidth\<close> is the width of
  \<^verbatim>\<open>text.getBoundingRect()\<close>, measured by the external class \<^verbatim>\<open>Text\<close>; the spec calls it
  the measured rendered width of the run: a finite number that depends on the text
  element. \<open>getMember\<close> and \<open>putMember\<close> describe an object \<open>obj\<close> of the host, a gradient
  of the external class \<^verbatim>\<open>LinearGradient\<close> or a node of the platform's document, as the
  prototype of another object: \<open>getMember obj name\<close> is what that object inherits under
  \<open>name\<close>, and \<open>putMember obj name\<close> is what an assignment of \<open>name\<close> does on it when
  \<open>name\<close> is not its own. They are used in one case only: a definition with the id
  \<^verbatim>\<open>__proto__\<close>, which \<^verbatim>\<open>this._defs[id] = def\<close> makes the prototype of the registry.
\<close>

record host =
  textWidth :: "props \<Rightarrow> real"
  getMember :: "jsval \<Rightarrow> string \<Rightarrow> jsval"
  putMember :: "jsval \<Rightarrow> string \<Rightarrow> assignment"

text \<open>
  \<^verbatim>\<open>this._defs[id] = def\<close>. An own property is overwritten. Otherwise the prototype
  chain decides: on \<^verbatim>\<open>{}\<close> every name but \<^verbatim>\<open>__proto__\<close> becomes an own property, and
  \<^verbatim>\<open>__proto__\<close> makes \<open>def\<close> the prototype of the registry: from then on the registry
  inherits what \<open>def\<close> has. (The accessor ignores a value that is neither an object nor
  \<^verbatim>\<open>null\<close>, and an object without a prototype inherits nothing; a definition is always
  an object.)
\<close>

fun isObject :: "jsval \<Rightarrow> bool" where
  "isObject (JGradient _) = True"
| "isObject (JList _) = True"
| "isObject (JNode _) = True"
| "isObject (JBuiltin _) = True"
| "isObject _ = False"

definition defsPut :: "host \<Rightarrow> DefsMap \<Rightarrow> string \<Rightarrow> jsval \<Rightarrow> error + DefsMap" where
  "defsPut host defs name def =
     (if map_of (defs_own defs) name \<noteq> None
      then Inr (defs\<lparr>defs_own := AList.update name def (defs_own defs)\<rparr>)
      else (case defs_assign defs name of
              OwnProperty \<Rightarrow> Inr (defs\<lparr>defs_own := AList.update name def (defs_own defs)\<rparr>)
            | SetPrototype \<Rightarrow>
                if isObject def
                then Inr (defs\<lparr>defs_inherited := getMember host def,
                               defs_assign := putMember host def\<rparr>)
                else if def = Null
                then Inr (defs\<lparr>defs_inherited := (\<lambda>name. Undefined),
                               defs_assign := (\<lambda>name. OwnProperty)\<rparr>)
                else Inr defs
            | Throws \<Rightarrow> Inl TypeError
            | NoEffect \<Rightarrow> Inr defs))"

subsection \<open>nodeParsers\<close>

text \<open>
  A node parser gets the element, the parent group, the parser object and the world,
  and gives the new scene element with the parser object and the world after it.
\<close>

type_synonym nodeParser = "xml \<Rightarrow> el option \<Rightarrow> parser \<Rightarrow> world \<Rightarrow> props \<times> parser \<times> world"

definition attrFloat :: "xml \<Rightarrow> string \<Rightarrow> jsnum" where
  "attrFloat xmlNode a = parseFloat (orElse (getAttribute xmlNode a) ''0'')"

definition nodeParsers_g :: nodeParser where
  "nodeParsers_g xmlNode parentGroup p w =
     (let (g, w1) = parseAttributes xmlNode (inheritStyle parentGroup (newEl Group))
                      (Some (this_defs p)) False w
      in (g, p, w1))"

definition nodeParsers_rect :: nodeParser where
  "nodeParsers_rect xmlNode parentGroup p w =
     (let (rect, w1) = parseAttributes xmlNode (inheritStyle parentGroup (newEl Rect))
                         (Some (this_defs p)) False w
      in (rect\<lparr>el_shape := RectShape (attrFloat xmlNode ''x'') (attrFloat xmlNode ''y'')
                                     (attrFloat xmlNode ''width'') (attrFloat xmlNode ''height'')\<rparr>,
          p, w1))"

definition nodeParsers_circle :: nodeParser where
  "nodeParsers_circle xmlNode parentGroup p w =
     (let (circle, w1) = parseAttributes xmlNode (inheritStyle parentGroup (newEl Circle))
                           (Some (this_defs p)) False w
      in (circle\<lparr>el_shape := CircleShape (attrFloat xmlNode ''cx'') (attrFloat xmlNode ''cy'')
                                         (attrFloat xmlNode ''r'')\<rparr>,
          p, w1))"

definition nodeParsers_line :: nodeParser where
  "nodeParsers_line xmlNode parentGroup p w =
     (let (line, w1) = parseAttributes xmlNode (inheritStyle parentGroup (newEl Line))
                         (Some (this_defs p)) False w
      in (line\<lparr>el_shape := LineShape (attrFloat xmlNode ''x1'') (attrFloat xmlNode ''y1'')
                                     (attrFloat xmlNode ''x2'') (attrFloat xmlNode ''y2'')\<rparr>,
          p, w1))"

definition nodeParsers_ellipse :: nodeParser where
  "nodeParsers_ellipse xmlNode parentGroup p w =
     (let (ellipse, w1) = parseAttributes xmlNode (inheritStyle parentGroup (newEl Ellipse))
                            (Some (this_defs p)) False w
      in (ellipse\<lparr>el_shape := EllipseShape (attrFloat xmlNode ''cx'') (attrFloat xmlNode ''cy'')
                                           (attrFloat xmlNode ''rx'') (attrFloat xmlNode ''ry'')\<rparr>,
          p, w1))"

text \<open>\<^verbatim>\<open>pointsArr || []\<close> for the \<^verbatim>\<open>points\<close> attribute, parsed only when it is not empty.\<close>

definition pointsOf :: "xml \<Rightarrow> (jsnum \<times> jsnum) list" where
  "pointsOf xmlNode =
     (case getAttribute xmlNode ''points'' of
        None \<Rightarrow> []
      | Some pointsStr \<Rightarrow> if pointsStr = [] then [] else parsePoints pointsStr)"

definition nodeParsers_polygon :: nodeParser where
  "nodeParsers_polygon xmlNode parentGroup p w =
     (let polygon = (newEl Polygon)\<lparr>el_shape := PointsShape (pointsOf xmlNode)\<rparr>;
          (polygon1, w1) = parseAttributes xmlNode (inheritStyle parentGroup polygon)
                             (Some (this_defs p)) False w
      in (polygon1, p, w1))"

text \<open>
  For \<^verbatim>\<open>polyline\<close> the style is inherited and parsed on a \<^verbatim>\<open>new Path()\<close>, and the
  element returned is a \<^verbatim>\<open>new Polyline\<close> that holds the points only.
\<close>

definition nodeParsers_polyline :: nodeParser where
  "nodeParsers_polyline xmlNode parentGroup p w =
     (let (path, w1) = parseAttributes xmlNode (inheritStyle parentGroup (newEl Path))
                         (Some (this_defs p)) False w;
          polyline = (newEl Polyline)\<lparr>el_shape := PointsShape (pointsOf xmlNode)\<rparr>
      in (polyline, p, w1))"

definition nodeParsers_image :: nodeParser where
  "nodeParsers_image xmlNode parentGroup p w =
     (let (img, w1) = parseAttributes xmlNode (inheritStyle parentGroup (newEl ZImage))
                        (Some (this_defs p)) False w
      in (img\<lparr>el_style :=
                util_extend (el_style img)
                  [(''image'', case getAttribute xmlNode ''xlink:href'' of
                                 None \<Rightarrow> Null | Some href \<Rightarrow> JStr href),
                   (''x'', JNum (toNumber (getAttribute xmlNode ''x''))),
                   (''y'', JNum (toNumber (getAttribute xmlNode ''y''))),
                   (''width'', JNum (toNumber (getAttribute xmlNode ''width''))),
                   (''height'', JNum (toNumber (getAttribute xmlNode ''height'')))]\<rparr>,
          p, w1))"

definition nodeParsers_text :: nodeParser where
  "nodeParsers_text xmlNode parentGroup p w =
     (let p1 = p\<lparr>this_textX := JNum (jadd (attrFloat xmlNode ''x'') (attrFloat xmlNode ''dx'')),
                 this_textY := JNum (jadd (attrFloat xmlNode ''y'') (attrFloat xmlNode ''dy''))\<rparr>;
          (g, w1) = parseAttributes xmlNode (inheritStyle parentGroup (newEl Group))
                      (Some (this_defs p1)) False w
      in (g, p1, w1))"

text \<open>
  \<^verbatim>\<open>var dx = xmlNode.getAttribute('dx') || 0\<close> is the number 0 or a non-empty string,
  and \<^verbatim>\<open>this._textX += dx\<close> adds it as it is.
\<close>

definition attrOrZero :: "xml \<Rightarrow> string \<Rightarrow> jsval" where
  "attrOrZero xmlNode a =
     (case getAttribute xmlNode a of
        None \<Rightarrow> JNum (Num 0)
      | Some s \<Rightarrow> if s = [] then JNum (Num 0) else JStr s)"

definition nodeParsers_tspan :: nodeParser where
  "nodeParsers_tspan xmlNode parentGroup p w =
     (let p1 = (case getAttribute xmlNode ''x'' of
                  None \<Rightarrow> p | Some x \<Rightarrow> p\<lparr>this_textX := JNum (parseFloat x)\<rparr>);
          p2 = (case getAttribute xmlNode ''y'' of
                  None \<Rightarrow> p1 | Some y \<Rightarrow> p1\<lparr>this_textY := JNum (parseFloat y)\<rparr>);
          dx = attrOrZero xmlNode ''dx'';
          dy = attrOrZero xmlNode ''dy'';
          (g, w1) = parseAttributes xmlNode (inheritStyle parentGroup (newEl Group))
                      (Some (this_defs p2)) False w
      in (g, p2\<lparr>this_textX := jsplus (this_textX p2) dx, this_textY := jsplus (this_textY p2) dy\<rparr>, w1))"

definition nodeParsers_path :: nodeParser where
  "nodeParsers_path xmlNode parentGroup p w =
     (let path = (newEl Path)\<lparr>el_shape := PathData (orElse (getAttribute xmlNode ''d'') [])\<rparr>;
          (path1, w1) = parseAttributes xmlNode (inheritStyle parentGroup path)
                          (Some (this_defs p)) False w
      in (path1, p, w1))"

definition nodeParsers :: "string \<Rightarrow> nodeParser option" where
  "nodeParsers =
     map_of
       [(''g'', nodeParsers_g),
        (''rect'', nodeParsers_rect),
        (''circle'', nodeParsers_circle),
        (''line'', nodeParsers_line),
        (''ellipse'', nodeParsers_ellipse),
        (''polygon'', nodeParsers_polygon),
        (''polyline'', nodeParsers_polyline),
        (''image'', nodeParsers_image),
        (''text'', nodeParsers_text),
        (''tspan'', nodeParsers_tspan),
        (''path'', nodeParsers_path)]"

definition defineParsers :: "string \<Rightarrow> (xml \<Rightarrow> error + gradient) option" where
  "defineParsers = map_of [(''lineargradient'', lineargradient)]"

text \<open>
  \<open>nodeParsers\<close> and \<open>defineParsers\<close> are the own properties of the two objects. The walker
  reads them with the lower-case name of the node, so of the names that every object
  inherits it can meet the two without a capital letter. \<^verbatim>\<open>constructor\<close> is the function
  \<^verbatim>\<open>Object\<close>, and \<^verbatim>\<open>Object.call(this, xmlNode, parentGroup)\<close> returns its first argument,
  the node. \<^verbatim>\<open>__proto__\<close> is \<^verbatim>\<open>Object.prototype\<close>, an object that passes the test
  \<^verbatim>\<open>if (parser)\<close> and has no method \<^verbatim>\<open>call\<close>: \<^verbatim>\<open>parser.call(...)\<close> throws a
  \<^verbatim>\<open>TypeError\<close>.
\<close>

datatype 'f property = Own 'f | Object_constructor | Object_prototype_itself | Missing

definition lookupParser :: "(string \<Rightarrow> 'f option) \<Rightarrow> string \<Rightarrow> 'f property" where
  "lookupParser parsers name =
     (case parsers name of
        Some parser \<Rightarrow> Own parser
      | None \<Rightarrow>
          if name = ''constructor'' then Object_constructor
          else if name = ''__proto__'' then Object_prototype_itself
          else Missing)"

subsection \<open>The walk over the document\<close>

text \<open>
  Modelled from the spec: \<^verbatim>\<open>add\<close> is a method of the external class \<^verbatim>\<open>Group\<close>; the
  walker of the spec attaches each node to its parent group in document order.
  \<^verbatim>\<open>parentGroup.add(el)\<close> appends the element to the children of a group. On
  \<^verbatim>\<open>undefined\<close> and on an element that is not a group (it has no method \<^verbatim>\<open>add\<close>) the
  call throws a \<^verbatim>\<open>TypeError\<close>.
\<close>

definition add :: "el option \<Rightarrow> el \<Rightarrow> error + el option" where
  "add parentGroup child =
     (case parentGroup of
        None \<Rightarrow> Inl TypeError
      | Some (El pp cs clip) \<Rightarrow>
          if el_kind pp = Group then Inr (Some (El pp (cs @ [child]) clip)) else Inl TypeError)"

text \<open>
  \<^verbatim>\<open>_parseText\<close>. The width of \<^verbatim>\<open>text.getBoundingRect()\<close> is \<open>textWidth host\<close> of the
  text element.
\<close>

definition clampFontSize :: "props \<Rightarrow> props" where
  "clampFontSize text =
     (case map_of (el_style text) ''fontSize'' of
        Some (JNum fontSize) \<Rightarrow>
          if truthyNum fontSize \<and> jlt fontSize (Num 9) then
            (let (sx, sy) = (case el_scale text of None \<Rightarrow> (Num 1, Num 1) | Some s \<Rightarrow> s)
             in text\<lparr>el_style := AList.update ''fontSize'' (JNum (Num 9)) (el_style text),
                     el_scale := Some (jmul sx (jdiv fontSize (Num 9)),
                                       jmul sy (jdiv fontSize (Num 9)))\<rparr>)
          else text
      | _ \<Rightarrow> text)"

definition parseText ::
  "host \<Rightarrow> xml \<Rightarrow> el option \<Rightarrow> parser \<times> world \<Rightarrow> (error + el option) \<times> parser \<times> world" where
  "parseText host xmlNode parentGroup st =
     (let (p, w) = st;
          p1 = (if nodeType xmlNode = 1
                then p\<lparr>this_textX := jsplus (this_textX p) (JNum (attrFloat xmlNode ''dx'')),
                       this_textY := jsplus (this_textY p) (JNum (attrFloat xmlNode ''dy''))\<rparr>
                else p);
          text = (newEl ZText)
                   \<lparr>el_style := [(''text'', JStr (textContent xmlNode)), (''transformText'', JBool True)],
                    el_position := Some (orZero (this_textX p1), orZero (this_textY p1))\<rparr>;
          (text1, w1) = parseAttributes xmlNode (inheritStyle parentGroup text)
                          (Some (this_defs p1)) False w;
          text2 = clampFontSize text1;
          p2 = p1\<lparr>this_textX := jsplus (this_textX p1) (JNum (Num (textWidth host text2)))\<rparr>
      in (add parentGroup (El text2 [] None), p2, w1))"

text \<open>
  \<^verbatim>\<open>_parseNode\<close> has three parts. \<open>enterNode\<close> is the part before the loop over the
  children: the flags are set, and the define parser (in define mode) or the node parser
  of the name runs; a definition with a non-empty \<^verbatim>\<open>id\<close> is registered (\<open>register\<close>), a
  new element is added to the parent group (\<open>attach\<close>). Its result is \<^verbatim>\<open>el\<close>, \<open>None\<close>
  when no element was made.
\<close>

definition register ::
  "host \<Rightarrow> xml \<Rightarrow> jsval \<Rightarrow> parser \<times> world \<Rightarrow> (error + el option) \<times> parser \<times> world" where
  "register host xmlNode def st =
     (let (p, w) = st
      in case getAttribute xmlNode ''id'' of
           None \<Rightarrow> (Inr None, p, w)
         | Some ident \<Rightarrow>
             if ident = [] then (Inr None, p, w)
             else (case defsPut host (this_defs p) ident def of
                     Inl e \<Rightarrow> (Inl e, p, w)
                   | Inr defs \<Rightarrow> (Inr None, p\<lparr>this_defs := defs\<rparr>, w)))"

definition attach ::
  "el option \<Rightarrow> props \<Rightarrow> parser \<times> world \<Rightarrow> (error + el option) \<times> parser \<times> world" where
  "attach parentGroup el st =
     (case add parentGroup (El el [] None) of
        Inl e \<Rightarrow> (Inl e, st)
      | Inr _ \<Rightarrow> (Inr (Some (El el [] None)), st))"

definition enterNode ::
  "host \<Rightarrow> xml \<Rightarrow> el option \<Rightarrow> parser \<times> world \<Rightarrow> (error + el option) \<times> parser \<times> world" where
  "enterNode host xmlNode parentGroup st =
     (let (p, w) = st;
          name = toLowerCase (nodeName xmlNode);
          p1 = (if name = ''defs'' then p\<lparr>this_isDefine := True\<rparr>
                else if name = ''text'' then p\<lparr>this_isText := True\<rparr>
                else p)
      in if this_isDefine p1 then
           (case lookupParser defineParsers name of
              Missing \<Rightarrow> (Inr None, p1, w)
            | Own parser \<Rightarrow>
                (case parser xmlNode of
                   Inl e \<Rightarrow> (Inl e, p1, w)
                 | Inr gradient \<Rightarrow> register host xmlNode (JGradient gradient) (p1, w))
            | Object_constructor \<Rightarrow> register host xmlNode (JNode xmlNode) (p1, w)
            | Object_prototype_itself \<Rightarrow> (Inl TypeError, p1, w))
         else
           (case lookupParser nodeParsers name of
              Missing \<Rightarrow> (Inr None, p1, w)
            | Own parser \<Rightarrow>
                (let (el, pa, wa) = parser xmlNode parentGroup p1 w
                 in attach parentGroup el (pa, wa))
            | Object_constructor \<Rightarrow>
                attach parentGroup ((newEl DomNode)\<lparr>el_shape := NodeRef xmlNode\<rparr>) (p1, w)
            | Object_prototype_itself \<Rightarrow> (Inl TypeError, p1, w)))"

text \<open>
  \<open>leaveNode\<close> is the part after the loop: the flag of the name is cleared. The scene
  objects are mutable: \<^verbatim>\<open>el\<close> was added to the parent before its children were added
  to it, and the parent holds \<^verbatim>\<open>el\<close> with these children. The result is the parent
  group as it is after the call.
\<close>

definition leaveNode ::
  "xml \<Rightarrow> el option \<Rightarrow> el option \<Rightarrow> parser \<times> world \<Rightarrow> (error + el option) \<times> parser \<times> world" where
  "leaveNode xmlNode parentGroup el st =
     (let (p, w) = st;
          name = toLowerCase (nodeName xmlNode);
          p1 = (if name = ''defs'' then p\<lparr>this_isDefine := False\<rparr>
                else if name = ''text'' then p\<lparr>this_isText := False\<rparr>
                else p)
      in case el of
           None \<Rightarrow> (Inr parentGroup, p1, w)
         | Some e \<Rightarrow> (add parentGroup e, p1, w))"

text \<open>
  The loop visits the children in document order: an element child is parsed with
  \<^verbatim>\<open>el\<close> as its parent group, a text child is parsed by \<^verbatim>\<open>_parseText\<close> while
  \<^verbatim>\<open>_isText\<close> is set.
\<close>

function parseNode ::
    "host \<Rightarrow> xml \<Rightarrow> el option \<Rightarrow> parser \<times> world \<Rightarrow> (error + el option) \<times> parser \<times> world"
  and parseChildren ::
    "host \<Rightarrow> xml list \<Rightarrow> el option \<Rightarrow> parser \<times> world \<Rightarrow> (error + el option) \<times> parser \<times> world"
where
  "parseNode host xmlNode parentGroup st =
     (case enterNode host xmlNode parentGroup st of
        (Inl e, st1) \<Rightarrow> (Inl e, st1)
      | (Inr el, st1) \<Rightarrow>
          (case parseChildren host (childNodes xmlNode) el st1 of
             (Inl e, st2) \<Rightarrow> (Inl e, st2)
           | (Inr el2, st2) \<Rightarrow> leaveNode xmlNode parentGroup el2 st2))"
| "parseChildren host [] el st = (Inr el, st)"
| "parseChildren host (child # rest) el st =
     (case (if nodeType child = 1 then parseNode host child el st else (Inr el, st)) of
        (Inl e, st1) \<Rightarrow> (Inl e, st1)
      | (Inr el1, st1) \<Rightarrow>
          (case (if nodeType child = 3 \<and> this_isText (fst st1)
                 then parseText host child el1 st1 else (Inr el1, st1)) of
             (Inl e, st2) \<Rightarrow> (Inl e, st2)
           | (Inr el2, st2) \<Rightarrow> parseChildren host rest el2 st2))"
  by pat_completeness auto
termination
proof -
  have children: "size_list size (childNodes n) \<le> size n" for n
    by (cases n) simp_all
  show ?thesis
  proof (relation "measure (\<lambda>x. case x of
                     Inl (host, n, pg, st) \<Rightarrow> 2 * size n + 2
                   | Inr (host, ns, el, st) \<Rightarrow> 2 * size_list size ns + 1)")
    show "wf (measure (\<lambda>x. case x of
                     Inl (host, n, pg, st) \<Rightarrow> 2 * size n + 2
                   | Inr (host, ns, el, st) \<Rightarrow> 2 * size_list size ns + 1))"
      by simp
  qed (use children in \<open>auto simp: le_imp_less_Suc\<close>)
qed

text \<open>
  For the statements about text: the \<^verbatim>\<open>Text\<close> elements below an element in document
  order, the first component of the position of one, and the runs of the group that a
  call of \<open>parseNode\<close> gives.
\<close>

fun textRuns :: "el \<Rightarrow> props list" where
  "textRuns (El p cs clip) = (if el_kind p = ZText then [p] else []) @ concat (map textRuns cs)"

definition runX :: "props \<Rightarrow> jsval" where
  "runX p = (case el_position p of None \<Rightarrow> Undefined | Some (x, y) \<Rightarrow> x)"

definition runsOfResult :: "(error + el option) \<times> parser \<times> world \<Rightarrow> props list" where
  "runsOfResult r = (case fst r of Inr (Some e) \<Rightarrow> textRuns e | _ \<Rightarrow> [])"

subsection \<open>parseXML\<close>

text \<open>
  \<^verbatim>\<open>parseXML\<close> starts at the first child of a document, or at the node it was given,
  and follows \<^verbatim>\<open>nextSibling\<close> while the node is not an element named \<^verbatim>\<open>svg\<close>. The
  loop test reads \<^verbatim>\<open>svgNode.nodeName\<close>: when the siblings are used up \<^verbatim>\<open>svgNode\<close> is
  \<^verbatim>\<open>null\<close> and the test throws a \<^verbatim>\<open>TypeError\<close>. A document type node or a
  processing instruction has a \<open>nodeType\<close> other than 1 and is passed over. The result
  is the node found; \<open>None\<close> would be \<^verbatim>\<open>null\<close>.
\<close>

text \<open>The node the scan looks for.\<close>

fun isSvgElement :: "topnode \<Rightarrow> bool" where
  "isSvgElement (Top n) = (toLowerCase (nodeName n) = ''svg'' \<and> nodeType n = 1)"
| "isSvgElement _ = False"

fun scanSiblings :: "topnode list \<Rightarrow> error + xml option" where
  "scanSiblings [] = Inl TypeError"
| "scanSiblings (Top n # rest) =
     (if toLowerCase (nodeName n) \<noteq> ''svg'' \<or> nodeType n \<noteq> 1 then scanSiblings rest
      else Inr (Some n))"
| "scanSiblings (_ # rest) = scanSiblings rest"

fun parseXML :: "source \<Rightarrow> error + xml option" where
  "parseXML (Document children) = scanSiblings children"
| "parseXML (NodeWithSiblings n siblings) = scanSiblings (n # siblings)"

subsection \<open>parse\<close>

text \<open>
  The options: \<^verbatim>\<open>width\<close> and \<^verbatim>\<open>height\<close> are numbers when given, and a flag that is
  not given is falsy.
\<close>

record SVGParserOption =
  opt_width :: "jsnum option"
  opt_height :: "jsnum option"
  ignoreViewBox :: bool
  ignoreRootClip :: bool

record SVGParserResult =
  res_root :: el
  res_width :: "jsnum option"
  res_height :: "jsnum option"
  viewBoxRect :: "RectLike option"
  viewBoxTransform :: "ViewBoxTransform option"

text \<open>
  \<^verbatim>\<open>parseFloat((svg.getAttribute('width') || opt.width) as string)\<close>, then \<^verbatim>\<open>null\<close>
  (\<open>None\<close>) for \<open>NaN\<close>. \<^verbatim>\<open>parseFloat\<close> of a number gives the number and of
  \<^verbatim>\<open>undefined\<close> gives \<open>NaN\<close>.
\<close>

definition viewportSize :: "string option \<Rightarrow> jsnum option \<Rightarrow> jsnum option" where
  "viewportSize attr fallback =
     (let n = (case attr of
                 None \<Rightarrow> (case fallback of None \<Rightarrow> NaN | Some v \<Rightarrow> v)
               | Some s \<Rightarrow>
                   if s = [] then (case fallback of None \<Rightarrow> NaN | Some v \<Rightarrow> v)
                   else parseFloat s)
      in if isNaN n then None else Some n)"

text \<open>The \<^verbatim>\<open>viewBox\<close> attribute: four or more fields give the rectangle.\<close>

definition parseViewBox :: "string \<Rightarrow> RectLike option" where
  "parseViewBox viewBox =
     (if viewBox = [] then None
      else (let viewBoxArr = split (trim viewBox)
            in if 4 \<le> length viewBoxArr then
                 Some (RectLike
                   (parseFloat (if viewBoxArr ! 0 = [] then ''0'' else viewBoxArr ! 0))
                   (parseFloat (if viewBoxArr ! 1 = [] then ''0'' else viewBoxArr ! 1))
                   (parseFloat (viewBoxArr ! 2))
                   (parseFloat (viewBoxArr ! 3)))
               else None))"

text \<open>The loop of \<^verbatim>\<open>parse\<close> over all children of the root element.\<close>

fun parseEach ::
  "host \<Rightarrow> xml list \<Rightarrow> el option \<Rightarrow> parser \<times> world \<Rightarrow> (error + el option) \<times> parser \<times> world" where
  "parseEach host [] rootEl st = (Inr rootEl, st)"
| "parseEach host (child # rest) rootEl st =
     (case parseNode host child rootEl st of
        (Inl e, st1) \<Rightarrow> (Inl e, st1)
      | (Inr root1, st1) \<Rightarrow> parseEach host rest root1 st1)"

text \<open>
  The end of \<^verbatim>\<open>parse\<close>: the viewBox transform, the outer group that carries it, and the
  clip path.
\<close>

definition finish :: "SVGParserOption \<Rightarrow> el \<Rightarrow> string \<Rightarrow> jsnum option \<Rightarrow> jsnum option \<Rightarrow> SVGParserResult" where
  "finish opt rootEl viewBox width height =
     (let rect = parseViewBox viewBox;
          transform =
            (case (rect, width, height) of
               (Some r, Some wd, Some ht) \<Rightarrow> Some (makeViewBoxTransform r wd ht)
             | _ \<Rightarrow> None);
          root1 =
            (case transform of
               None \<Rightarrow> rootEl
             | Some t \<Rightarrow>
                 if ignoreViewBox opt then rootEl
                 else (case rootEl of
                         El rp cs clip \<Rightarrow>
                           El (newEl Group)
                             [El (rp\<lparr>el_scale := Some (vb_scale t),
                                     el_position := Some (JNum (fst (vb_position t)),
                                                          JNum (snd (vb_position t)))\<rparr>) cs clip]
                             None));
          root2 =
            (case (ignoreRootClip opt, width, height) of
               (False, Some wd, Some ht) \<Rightarrow>
                 (case root1 of
                    El rp cs clip \<Rightarrow>
                      El rp cs (Some (El ((newEl Rect)\<lparr>el_shape := RectShape (Num 0) (Num 0) wd ht\<rparr>)
                                        [] None)))
             | _ \<Rightarrow> root1)
      in \<lparr>res_root = root2, res_width = width, res_height = height,
          viewBoxRect = rect, viewBoxTransform = transform\<rparr>)"

definition noOption :: SVGParserOption where
  "noOption = \<lparr>opt_width = None, opt_height = None, ignoreViewBox = False, ignoreRootClip = False\<rparr>"

text \<open>
  \<^verbatim>\<open>SVGParser.parse\<close>, a method of the parser object \<open>p\<close>. The test \<^verbatim>\<open>if (!svg)\<close> with
  its \<^verbatim>\<open>throw new Error('Illegal svg')\<close> is the case \<open>Inr None\<close>.
\<close>

definition parse ::
  "host \<Rightarrow> source \<Rightarrow> SVGParserOption option \<Rightarrow> parser \<times> world \<Rightarrow>
     (error + SVGParserResult) \<times> parser \<times> world" where
  "parse host xml opt0 st =
     (let (p, w) = st;
          opt = (case opt0 of None \<Rightarrow> noOption | Some opt \<Rightarrow> opt)
      in case parseXML xml of
           Inl e \<Rightarrow> (Inl e, p, w)
         | Inr None \<Rightarrow> (Inl (Error ''Illegal svg''), p, w)
         | Inr (Some svg) \<Rightarrow>
             (let viewBox = orElse (getAttribute svg ''viewBox'') [];
                  width = viewportSize (getAttribute svg ''width'') (opt_width opt);
                  height = viewportSize (getAttribute svg ''height'') (opt_height opt);
                  (rootEl, w1) = parseAttributes svg (newEl Group) None True w
              in case parseEach host (childNodes svg) (Some (El rootEl [] None)) (p, w1) of
                   (Inl e, st2) \<Rightarrow> (Inl e, st2)
                 | (Inr r, st2) \<Rightarrow>
                     (Inr (finish opt (case r of None \<Rightarrow> El rootEl [] None | Some root2 \<Rightarrow> root2)
                             viewBox width height), st2)))"

text \<open>
  \<^verbatim>\<open>parseSVG\<close> makes a new parser object for every call; the object is dropped when
  the call returns, and what stays is the world.
\<close>

definition parseSVG ::
  "host \<Rightarrow> source \<Rightarrow> SVGParserOption option \<Rightarrow> world \<Rightarrow> (error + SVGParserResult) \<times> world" where
  "parseSVG host xml opt w =
     (let (r, p, w1) = parse host xml opt (SVGParser_new, w) in (r, w1))"


text \<open>A result of the walk without the world.\<close>

definition noWorld :: "'a \<times> 'b \<times> world \<Rightarrow> 'a \<times> 'b" where
  "noWorld r = (fst r, fst (snd r))"


section \<open>Properties\<close>

declare split.simps [simp del]

declare styleLoop.simps [simp del]

lemmas eval_defs =
  isSpace_def isDigit_def isDelimiter_def isLineTerminator_def digitVal_def digitsToNat_def
  trim_def signPart_def exponentPart_def strDecimalLiteral_def parseFloat_def
  parseFloatOpt_def parseInt_def signedInf_def charAt_def orElse_def getAttribute_def
  Let_def

subsection \<open>parsePoints\<close>

lemma parsePointsLoop_length: "length (parsePointsLoop ts) = (length ts + 1) div 2"
  by (induction ts rule: parsePointsLoop.induct) simp_all

lemma parsePointsLoop_nth:
  "2 * i + 1 < length ts \<Longrightarrow>
   parsePointsLoop ts ! i = (parseFloat (ts ! (2 * i)), parseFloat (ts ! (2 * i + 1)))"
proof (induction ts arbitrary: i rule: parsePointsLoop.induct)
  case (3 a b rest)
  show ?case
  proof (cases i)
    case 0
    then show ?thesis by simp
  next
    case (Suc j)
    with "3.prems" have "2 * j + 1 < length rest" by simp
    from "3.IH" [OF this] Suc show ?thesis by simp
  qed
qed simp_all

lemma parsePointsLoop_last:
  "odd (length ts) \<Longrightarrow> last (parsePointsLoop ts) = (parseFloat (last ts), NaN)"
proof (induction ts rule: parsePointsLoop.induct)
  case (3 a b rest)
  then have "rest \<noteq> []" by auto
  moreover from this have "parsePointsLoop rest \<noteq> []"
    by (cases rest rule: parsePointsLoop.cases) simp_all
  ultimately show ?case using 3 by simp
qed (simp_all add: parseFloatOpt_def)

text \<open>
  C8 (as the code has it). A points string whose token list has odd length gives one
  pair more than half the number of tokens: the pairs before the last are built from
  two adjacent tokens each, and the last pair holds the trailing token with \<open>NaN\<close> as
  its second coordinate. The trailing token is kept, not dropped.
\<close>

theorem parsePoints_odd_keeps_trailing:
  "odd (length (split (trim s))) \<longrightarrow>
     length (parsePoints s) = length (split (trim s)) div 2 + 1 \<and>
     (\<forall>i < length (split (trim s)) div 2.
        parsePoints s ! i =
          (parseFloat (split (trim s) ! (2 * i)), parseFloat (split (trim s) ! (2 * i + 1)))) \<and>
     last (parsePoints s) = (parseFloat (last (split (trim s))), NaN)"
proof (intro impI conjI allI)
  assume o: "odd (length (split (trim s)))"
  then show "length (parsePoints s) = length (split (trim s)) div 2 + 1"
    by (simp add: parsePoints_def parsePointsLoop_length)
  show "last (parsePoints s) = (parseFloat (last (split (trim s))), NaN)"
    using o by (simp add: parsePoints_def parsePointsLoop_last)
  fix i
  assume "i < length (split (trim s)) div 2"
  then have "2 * i + 1 < length (split (trim s))" by presburger
  then show "parsePoints s ! i =
      (parseFloat (split (trim s) ! (2 * i)), parseFloat (split (trim s) ! (2 * i + 1)))"
    by (simp add: parsePoints_def parsePointsLoop_nth)
qed

lemma trim_1_2_3: "trim ''1,2,3'' = ''1,2,3''"
  by (simp add: eval_defs)

lemma split_1_2_3: "split ''1,2,3'' = [''1'', ''2'', ''3'']"
  by (simp add: split.simps eval_defs)

theorem parsePoints_odd_keeps_trailing_witness:
  "odd (length (split (trim ''1,2,3''))) \<and>
   length (parsePoints ''1,2,3'') = 2 \<and>
   parsePoints ''1,2,3'' ! 0 = (Num 1, Num 2) \<and>
   last (parsePoints ''1,2,3'') = (Num 3, NaN)"
  using parsePoints_odd_keeps_trailing [of "''1,2,3''"]
  by (simp add: trim_1_2_3 split_1_2_3 parsePoints_def parseFloat_def parseFloatOpt_def
        strDecimalLiteral_def signPart_def exponentPart_def isSpace_def isDigit_def
        digitsToNat_def digitVal_def Let_def)

text \<open>
  The claim as written fails: three tokens give two pairs, not \<open>3 div 2 = 1\<close>.
\<close>

theorem parsePoints_odd_counterexample:
  "length (split (trim ''1,2,3'')) = 3 \<and>
   parsePoints ''1,2,3'' = [(Num 1, Num 2), (Num 3, NaN)] \<and>
   length (parsePoints ''1,2,3'') \<noteq> length (split (trim ''1,2,3'')) div 2"
  by (simp add: trim_1_2_3 split_1_2_3 parsePoints_def parseFloat_def parseFloatOpt_def
        strDecimalLiteral_def signPart_def exponentPart_def isSpace_def isDigit_def
        digitsToNat_def digitVal_def Let_def)

subsection \<open>Paint resolution\<close>

lemma urlMatch_no_paren: "CHR ''('' \<notin> set str \<Longrightarrow> urlMatch str = None"
proof (induction str)
  case (Cons c cs)
  have "take 4 (c # cs) \<noteq> ''url(''"
  proof
    assume "take 4 (c # cs) = ''url(''"
    then have "CHR ''('' \<in> set (take 4 (c # cs))" by simp
    then have "CHR ''('' \<in> set (c # cs)" by (rule in_set_takeD)
    with Cons.prems show False by simp
  qed
  then have "urlAt (c # cs) = None" unfolding urlAt_def by (simp only: if_False)
  with Cons show ?case by simp
qed simp

lemma urlAt_exact:
  assumes "\<forall>c \<in> set ident. c \<noteq> CHR '')'' \<and> \<not> isLineTerminator c"
  shows "urlAt (''url(#'' @ ident @ '')'' @ rest) = Some ident"
proof -
  let ?P = "\<lambda>x. x \<noteq> CHR '')'' \<and> \<not> isLineTerminator x"
  have d: "dropWhile ?P (ident @ CHR '')'' # rest) = CHR '')'' # rest"
    using assms by (simp add: dropWhile_append3)
  have t: "takeWhile ?P (ident @ CHR '')'' # rest) = ident"
    using assms by (simp add: takeWhile_append2)
  show ?thesis using d t by (simp add: urlAt_def isSpace_def)
qed

text \<open>
  C6 (as the code has it). With a defs registry, a value in which the expression
  \<^verbatim>\<open>url(#id)\<close> is found resolves to the property of the registry named by the trimmed
  id: the paint registered under that id when there is one, and otherwise what the
  registry inherits under that name. In a registry that was created as \<^verbatim>\<open>{}\<close> an id
  that is not registered gives \<^verbatim>\<open>undefined\<close> (a value, not an error) unless it names a
  property of \<^verbatim>\<open>Object.prototype\<close>, and then it gives that member. A value in which the
  expression is not found comes back unchanged. A value of the exact form
  \<^verbatim>\<open>url(#id)\<close> is such a match, and a value with no parenthesis (a colour name, a hex
  colour, \<^verbatim>\<open>none\<close>) is not.
\<close>

theorem getPaint_resolves:
  "(urlMatch str = Some g \<longrightarrow>
      getPaint str (Some defs) =
        (case map_of (defs_own defs) (trim g) of
           Some paint \<Rightarrow> paint
         | None \<Rightarrow> defs_inherited defs (trim g))) \<and>
   (urlMatch str = Some g \<and> defs_inherited defs = defs_inherited emptyObject \<longrightarrow>
      getPaint str (Some defs) =
        (case map_of (defs_own defs) (trim g) of
           Some paint \<Rightarrow> paint
         | None \<Rightarrow>
             (case map_of Object_prototype (trim g) of
                Some member \<Rightarrow> member
              | None \<Rightarrow> Undefined))) \<and>
   (urlMatch str = None \<longrightarrow> getPaint str (Some defs) = JStr str) \<and>
   ((\<forall>c \<in> set ident. c \<noteq> CHR '')'' \<and> \<not> isLineTerminator c) \<longrightarrow>
      urlMatch (''url(#'' @ ident @ '')'') = Some ident) \<and>
   (CHR ''('' \<notin> set str \<longrightarrow> urlMatch str = None)"
proof (intro conjI impI)
  assume "urlMatch str = Some g"
  moreover from this have "str \<noteq> []" by auto
  ultimately show "getPaint str (Some defs) =
      (case map_of (defs_own defs) (trim g) of
         Some paint \<Rightarrow> paint
       | None \<Rightarrow> defs_inherited defs (trim g))"
    by (simp add: getPaint_def defsGet_def)
next
  assume a: "urlMatch str = Some g \<and> defs_inherited defs = defs_inherited emptyObject"
  then have "str \<noteq> []" by auto
  with a show "getPaint str (Some defs) =
      (case map_of (defs_own defs) (trim g) of
         Some paint \<Rightarrow> paint
       | None \<Rightarrow>
           (case map_of Object_prototype (trim g) of
              Some member \<Rightarrow> member
            | None \<Rightarrow> Undefined))"
    by (simp add: getPaint_def defsGet_def emptyObject_def split: option.splits)
next
  assume "urlMatch str = None"
  then show "getPaint str (Some defs) = JStr str" by (simp add: getPaint_def)
next
  assume "\<forall>c \<in> set ident. c \<noteq> CHR '')'' \<and> \<not> isLineTerminator c"
  from urlAt_exact [OF this, of "[]"]
  show "urlMatch (''url(#'' @ ident @ '')'') = Some ident" by simp
next
  assume "CHR ''('' \<notin> set str"
  then show "urlMatch str = None" by (rule urlMatch_no_paren)
qed

lemma urlMatch_examples:
  "urlMatch ''url(#g1)'' = Some ''g1''"
  "urlMatch ''url(#g2)'' = Some ''g2''"
  "urlMatch ''url(#toString)'' = Some ''toString''"
  "urlMatch ''none'' = None"
  "trim ''g1'' = ''g1''" "trim ''g2'' = ''g2''" "trim ''toString'' = ''toString''"
  by (simp_all add: urlAt_def eval_defs)

theorem getPaint_resolves_witness:
  "urlMatch ''url(#g1)'' = Some ''g1'' \<and>
   urlMatch ''url(#g2)'' = Some ''g2'' \<and>
   urlMatch ''none'' = None \<and>
   getPaint ''url(#g1)''
     (Some (emptyObject\<lparr>defs_own :=
        [(''g1'', JGradient \<lparr>grad_x1 = Num 0, grad_y1 = Num 0, grad_x2 = Num 10, grad_y2 = Num 0,
                             colorStops = [(Num 0, ''red'')]\<rparr>)]\<rparr>)) =
     JGradient \<lparr>grad_x1 = Num 0, grad_y1 = Num 0, grad_x2 = Num 10, grad_y2 = Num 0,
                colorStops = [(Num 0, ''red'')]\<rparr> \<and>
   getPaint ''url(#g2)''
     (Some (emptyObject\<lparr>defs_own :=
        [(''g1'', JGradient \<lparr>grad_x1 = Num 0, grad_y1 = Num 0, grad_x2 = Num 10, grad_y2 = Num 0,
                             colorStops = [(Num 0, ''red'')]\<rparr>)]\<rparr>)) = Undefined \<and>
   getPaint ''none''
     (Some (emptyObject\<lparr>defs_own :=
        [(''g1'', JGradient \<lparr>grad_x1 = Num 0, grad_y1 = Num 0, grad_x2 = Num 10, grad_y2 = Num 0,
                             colorStops = [(Num 0, ''red'')]\<rparr>)]\<rparr>)) = JStr ''none''"
  using
    getPaint_resolves [of "''url(#g1)''" "''g1''"
      "emptyObject\<lparr>defs_own :=
        [(''g1'', JGradient \<lparr>grad_x1 = Num 0, grad_y1 = Num 0, grad_x2 = Num 10, grad_y2 = Num 0,
                             colorStops = [(Num 0, ''red'')]\<rparr>)]\<rparr>" "''g1''"]
    getPaint_resolves [of "''url(#g2)''" "''g2''"
      "emptyObject\<lparr>defs_own :=
        [(''g1'', JGradient \<lparr>grad_x1 = Num 0, grad_y1 = Num 0, grad_x2 = Num 10, grad_y2 = Num 0,
                             colorStops = [(Num 0, ''red'')]\<rparr>)]\<rparr>" "''g1''"]
    getPaint_resolves [of "''none''" "''g1''"
      "emptyObject\<lparr>defs_own :=
        [(''g1'', JGradient \<lparr>grad_x1 = Num 0, grad_y1 = Num 0, grad_x2 = Num 10, grad_y2 = Num 0,
                             colorStops = [(Num 0, ''red'')]\<rparr>)]\<rparr>" "''g1''"]
  by (simp add: urlMatch_examples emptyObject_def Object_prototype_def del: urlMatch.simps)

text \<open>
  The claim as written fails: no definition is registered under \<^verbatim>\<open>toString\<close> in an
  empty registry, and \<^verbatim>\<open>url(#toString)\<close> resolves to the function that every object
  inherits under that name, not to \<^verbatim>\<open>undefined\<close>.
\<close>

lemma emptyObject_toString:
  "map_of (defs_own emptyObject) ''toString'' = None"
  "defsGet emptyObject ''toString'' = JBuiltin ''Object.prototype.toString''"
  by (simp_all add: defsGet_def emptyObject_def Object_prototype_def)

theorem getPaint_resolves_counterexample:
  "map_of (defs_own emptyObject) ''toString'' = None \<and>
   getPaint ''url(#toString)'' (Some emptyObject) = JBuiltin ''Object.prototype.toString'' \<and>
   getPaint ''url(#toString)'' (Some emptyObject) \<noteq> Undefined"
  by (simp add: getPaint_def urlMatch_examples emptyObject_toString del: urlMatch.simps)

subsection \<open>The viewBox\<close>

text \<open>
  C4. The viewBox \<open>(0, 0, 100, 50)\<close> in a viewport of 200 by 200 gives the scale 2 on
  both axes and the translation \<open>(0, 50)\<close>. In general both components of the scale
  are \<^verbatim>\<open>Math.min(width / viewBox.width, height / viewBox.height)\<close>, and for finite
  numbers with a viewBox of non-zero width and height the translation puts the scaled
  centre of the viewBox at the centre of the viewport.
\<close>

theorem makeViewBoxTransform_meet:
  "makeViewBoxTransform (RectLike (Num 0) (Num 0) (Num 100) (Num 50)) (Num 200) (Num 200) =
     \<lparr>vb_scale = (Num 2, Num 2), vb_position = (Num 0, Num 50)\<rparr> \<and>
   vb_scale (makeViewBoxTransform (RectLike bx by bw bh) width height) =
     (jmin (jdiv width bw) (jdiv height bh), jmin (jdiv width bw) (jdiv height bh)) \<and>
   (w \<noteq> 0 \<and> h \<noteq> 0 \<longrightarrow>
      (let s = min (vw / w) (vh / h);
           t = makeViewBoxTransform (RectLike (Num x) (Num y) (Num w) (Num h)) (Num vw) (Num vh)
       in vb_scale t = (Num s, Num s) \<and>
          vb_position t = (Num (vw / 2 - (x + w / 2) * s), Num (vh / 2 - (y + h / 2) * s))))"
  by (simp add: Let_def algebra_simps)

theorem makeViewBoxTransform_meet_witness:
  "(100::real) \<noteq> 0 \<and> (50::real) \<noteq> 0 \<and>
   vb_scale (makeViewBoxTransform (RectLike (Num 10) (Num 20) (Num 100) (Num 50)) (Num 400) (Num 100)) =
     (Num 2, Num 2) \<and>
   vb_position (makeViewBoxTransform (RectLike (Num 10) (Num 20) (Num 100) (Num 50)) (Num 400) (Num 100)) =
     (Num 80, Num (- 40))"
  using makeViewBoxTransform_meet [of "Num 10" "Num 20" "Num 100" "Num 50" "Num 400" "Num 100"
      100 50 400 100 10 20]
  by (simp add: Let_def)

subsection \<open>Transforms\<close>

lemma transformLoop_Cons:
  "transformLoop (op # ops) console = transformStep op (transformLoop ops console)"
  by (simp add: transformLoop_def)

lemma find_in_set: "find P xs = Some x \<Longrightarrow> x \<in> set xs"
  by (induction xs) (auto split: if_splits)

lemma transformAt_type:
  "transformAt s = Some (type, v, len) \<Longrightarrow> type \<in> set transformNames"
  unfolding transformAt_def
  by (auto simp: Let_def split: option.splits list.splits if_splits dest: find_in_set)

lemma transformOps_types: "(type, v) \<in> set (transformOps s) \<Longrightarrow> type \<in> set transformNames"
proof (induction s rule: transformOps.induct)
  case (2 c cs)
  then show ?case
    by (auto split: option.splits dest: transformAt_type)
qed simp

text \<open>
  The console is never written: the groups of \<^verbatim>\<open>transformRegex\<close> are names of the
  expression, and \<^verbatim>\<open>'skew'\<close>, the one case that warns, is not among them.
\<close>

lemma transformStep_console:
  "type \<in> set transformNames \<Longrightarrow> snd (transformStep (type, v) (m, console)) = console"
  by (auto simp: transformStep_def transformNames_def Let_def)

lemma transformLoop_console:
  "\<forall>(type, v) \<in> set ops. type \<in> set transformNames \<Longrightarrow> snd (transformLoop ops console) = console"
proof (induction ops)
  case Nil
  then show ?case by (simp add: transformLoop_def)
next
  case (Cons op ops)
  obtain type v where op: "op = (type, v)" by (cases op)
  obtain m c where r: "transformLoop ops console = (m, c)" by (cases "transformLoop ops console")
  from Cons have "c = console" using r by auto
  moreover from Cons.prems op have "type \<in> set transformNames" by auto
  ultimately show ?case
    using transformStep_console [of type v m console] op r by (simp add: transformLoop_Cons)
qed

lemma transformOf_console: "snd (transformOf transform console) = console"
  unfolding transformOf_def
  by (rule transformLoop_console) (auto dest: transformOps_types)

lemmas transform_defs =
  transformOf_def transformLoop_def transformAt_def transformNames_def isTransformArg_def
  transformStep_def matrix_create_def

text \<open>
  C2 (the code at the claim's example). For \<^verbatim>\<open>translate(10,0) scale(2)\<close> the rounds
  run scale first and translate last, but the translation is read from the first two
  characters of the argument string \<^verbatim>\<open>10 0\<close>, that is \<open>(1, 0)\<close>: the matrix is
  \<open>[2, 0, 0, 2, 1, 0]\<close> and not \<open>[2, 0, 0, 2, 10, 0]\<close>.
\<close>

theorem transform_translate_scale_reads_characters:
  "transformOps ''translate(10 0) scale(2)'' = [(''translate'', ''10 0''), (''scale'', ''2'')] \<and>
   transformOf ''translate(10,0) scale(2)'' [] =
     (Some (Matrix (Num 2) (Num 0) (Num 0) (Num 2) (Num 1) (Num 0)), []) \<and>
   matrix_translate (matrix_scale matrix_create (Num 2, Num 2)) (Num 10, Num 0) =
     Matrix (Num 2) (Num 0) (Num 0) (Num 2) (Num 10) (Num 0)"
  by (simp add: transform_defs eval_defs)

text \<open>
  C7 (the code at a skew function). \<^verbatim>\<open>skewX(30)\<close> and \<^verbatim>\<open>skewY(30)\<close> are matched, the
  matrix stays the identity and parsing goes on, but no diagnostic is written: the
  console is as it was.
\<close>

theorem transform_skew_no_diagnostic:
  "transformOps ''skewX(30)'' = [(''skewX'', ''30'')] \<and>
   transformOf ''skewX(30)'' [] = (Some matrix_create, []) \<and>
   transformOf ''skewY(30)'' [] = (Some matrix_create, [])"
  by (simp add: transform_defs eval_defs)

subsection \<open>Gradient stops\<close>

text \<open>
  C9 (the code at a stop with no offset). A gradient whose stop element has no
  \<^verbatim>\<open>offset\<close> attribute is not built: the parser stops with a \<^verbatim>\<open>TypeError\<close>. A stop
  with an empty offset gets 0, and a missing \<^verbatim>\<open>stop-color\<close> gets black.
\<close>

theorem gradient_stop_without_offset_throws:
  "lineargradient (Element ''linearGradient'' [(''id'', ''g'')]
      [Element ''stop'' [(''stop-color'', ''red'')] []]) = Inl TypeError \<and>
   lineargradient (Element ''linearGradient'' [(''id'', ''g'')]
      [Element ''stop'' [(''offset'', '''')] [], Element ''stop'' [(''offset'', ''50%'')] []]) =
     Inr \<lparr>grad_x1 = Num 0, grad_y1 = Num 0, grad_x2 = Num 10, grad_y2 = Num 0,
          colorStops = [(Num 0, ''#000000''), (Num (1 / 2), ''#000000'')]\<rparr>"
  by (simp add: lineargradient_def stopOffset_def eval_defs)

subsection \<open>The names that every object inherits\<close>

text \<open>
  The walker reads \<^verbatim>\<open>nodeParsers\<close> and \<^verbatim>\<open>defineParsers\<close> with a lower-case name. Such a
  name has no capital letter, and of the properties of \<^verbatim>\<open>Object.prototype\<close> only
  \<^verbatim>\<open>constructor\<close> and \<^verbatim>\<open>__proto__\<close> have none.
\<close>

lemma toLowerCase_no_capital:
  "c \<in> set (toLowerCase s) \<Longrightarrow> \<not> (65 \<le> (of_char c :: nat) \<and> (of_char c :: nat) \<le> 90)"
proof -
  assume "c \<in> set (toLowerCase s)"
  then obtain d where d: "d \<in> set s"
    and c: "c = (if 65 \<le> (of_char d :: nat) \<and> (of_char d :: nat) \<le> 90
                 then char_of ((of_char d :: nat) + 32) else d)"
    by (auto simp: toLowerCase_def)
  show ?thesis
  proof (cases "65 \<le> (of_char d :: nat) \<and> (of_char d :: nat) \<le> 90")
    case True
    then have "(of_char (char_of ((of_char d :: nat) + 32) :: char) :: nat) = of_char d + 32"
      by (simp add: of_char_of)
    with True c show ?thesis by simp
  next
    case False
    with c show ?thesis by simp
  qed
qed

lemma lookupParser_inherited:
  "map_of Object_prototype (toLowerCase s) \<noteq> None \<Longrightarrow>
   toLowerCase s = ''constructor'' \<or> toLowerCase s = ''__proto__''"
proof -
  assume "map_of Object_prototype (toLowerCase s) \<noteq> None"
  then have "toLowerCase s \<in> fst ` set Object_prototype"
    by (simp add: map_of_eq_None_iff)
  then consider "toLowerCase s = ''constructor''" | "toLowerCase s = ''__proto__''"
    | "CHR ''G'' \<in> set (toLowerCase s)" | "CHR ''S'' \<in> set (toLowerCase s)"
    | "CHR ''O'' \<in> set (toLowerCase s)" | "CHR ''P'' \<in> set (toLowerCase s)"
    | "CHR ''E'' \<in> set (toLowerCase s)"
    by (auto simp: Object_prototype_def)
  then show ?thesis
  proof cases
    case 3 from toLowerCase_no_capital [OF this] show ?thesis by simp
  next
    case 4 from toLowerCase_no_capital [OF this] show ?thesis by simp
  next
    case 5 from toLowerCase_no_capital [OF this] show ?thesis by simp
  next
    case 6 from toLowerCase_no_capital [OF this] show ?thesis by simp
  next
    case 7 from toLowerCase_no_capital [OF this] show ?thesis by simp
  qed auto
qed

text \<open>
  For a lower-case name \<open>lookupParser\<close> is the read of a plain object: the own property,
  else the property of \<^verbatim>\<open>Object.prototype\<close>.
\<close>

lemma lookupParser_plain_object:
  "lookupParser parsers (toLowerCase s) =
     (case parsers (toLowerCase s) of
        Some parser \<Rightarrow> Own parser
      | None \<Rightarrow>
          (case map_of Object_prototype (toLowerCase s) of
             None \<Rightarrow> Missing
           | Some member \<Rightarrow>
               if member = JBuiltin ''Object'' then Object_constructor
               else Object_prototype_itself))"
proof (cases "map_of Object_prototype (toLowerCase s)")
  case None
  then have "toLowerCase s \<noteq> ''constructor''" "toLowerCase s \<noteq> ''__proto__''"
    by (auto simp: Object_prototype_def)
  with None show ?thesis by (simp add: lookupParser_def split: option.splits)
next
  case (Some member)
  then have "toLowerCase s = ''constructor'' \<or> toLowerCase s = ''__proto__''"
    by (intro lookupParser_inherited) simp
  then show ?thesis
  proof
    assume "toLowerCase s = ''constructor''"
    then show ?thesis by (simp add: lookupParser_def Object_prototype_def split: option.splits)
  next
    assume "toLowerCase s = ''__proto__''"
    then show ?thesis by (simp add: lookupParser_def Object_prototype_def split: option.splits)
  qed
qed

subsection \<open>The root element\<close>

declare parseNode.simps [simp del]

lemma scanSiblings_not_null: "scanSiblings ns \<noteq> Inr None"
  by (induction ns rule: scanSiblings.induct) simp_all

text \<open>\<^verbatim>\<open>parseXML\<close> never returns \<^verbatim>\<open>null\<close>: the test \<^verbatim>\<open>if (!svg)\<close> of \<^verbatim>\<open>parse\<close> is never true.\<close>

lemma parseXML_not_null: "parseXML src \<noteq> Inr None"
  by (cases src) (simp_all add: scanSiblings_not_null)

lemma scanSiblings_no_svg:
  "list_all (\<lambda>n. \<not> isSvgElement n) ns \<Longrightarrow> scanSiblings ns = Inl TypeError"
  by (induction ns rule: scanSiblings.induct) auto

text \<open>
  Without an element named \<^verbatim>\<open>svg\<close> among the siblings the call ends with the
  \<^verbatim>\<open>TypeError\<close> of \<^verbatim>\<open>parseXML\<close>, no result is returned, and the parser object and the
  world are as before.
\<close>

lemma parse_no_svg:
  "list_all (\<lambda>n. \<not> isSvgElement n) ns \<Longrightarrow>
   parse host (Document ns) opt st = (Inl TypeError, st)"
  by (simp add: parse_def scanSiblings_no_svg split: prod.splits)

text \<open>
  C3 (the code at a document with no svg element). A document that holds a document
  type node and an element \<^verbatim>\<open>g\<close>, and the empty document, make \<^verbatim>\<open>parseSVG\<close> fail
  and return nothing. The error is the \<^verbatim>\<open>TypeError\<close> raised when the sibling scan
  reads \<^verbatim>\<open>nodeName\<close> of \<^verbatim>\<open>null\<close>, not the error \<^verbatim>\<open>Illegal svg\<close> of \<^verbatim>\<open>parse\<close>.
\<close>

theorem parseSVG_without_svg_throws_TypeError:
  "parseSVG host (Document [DocumentType ''svg'', Top (Element ''g'' [] [])]) opt w = (Inl TypeError, w) \<and>
   parseSVG host (Document []) opt w = (Inl TypeError, w) \<and>
   fst (parseSVG host (Document []) opt w) \<noteq> Inl (Error ''Illegal svg'')"
  by (simp add: parseSVG_def parse_def toLowerCase_def)

subsection \<open>Style precedence\<close>

lemma foldl_update_other:
  "prop \<notin> snd ` set m \<Longrightarrow>
   map_of (foldl (\<lambda>z (k, p). case f k of None \<Rightarrow> z | Some v \<Rightarrow> AList.update p v z) z0 m) prop
     = map_of z0 prop"
  by (induction m arbitrary: z0) (auto simp: update_conv' split: option.splits)

lemma foldl_update_lookup:
  "distinct (map snd m) \<Longrightarrow> (a, prop) \<in> set m \<Longrightarrow>
   map_of (foldl (\<lambda>z (k, p). case f k of None \<Rightarrow> z | Some v \<Rightarrow> AList.update p v z) z0 m) prop
     = (case f a of Some v \<Rightarrow> Some v | None \<Rightarrow> map_of z0 prop)"
proof (induction m arbitrary: z0)
  case Nil
  then show ?case by simp
next
  case (Cons x m)
  obtain k p where x: "x = (k, p)" by (cases x)
  show ?case
  proof (cases "(a, prop) = (k, p)")
    case True
    with Cons.prems x have "prop \<notin> snd ` set m" by auto
    from foldl_update_other [OF this] True x show ?thesis
      by (auto simp: update_conv' split: option.splits)
  next
    case False
    with Cons.prems x have in_m: "(a, prop) \<in> set m" and d: "distinct (map snd m)" by auto
    from Cons.prems x in_m have "p \<noteq> prop" by (auto simp: image_iff)
    with Cons.IH [OF d in_m] x show ?thesis
      by (auto simp: update_conv' split: option.splits)
  qed
qed

lemma attributesMap_distinct: "distinct (map snd attributesMap)"
  by (simp add: attributesMap_def)

lemma attributesMap_distinct_fst: "distinct (map fst attributesMap)"
  by (simp add: attributesMap_def)

lemma attributeStyle_lookup:
  "(a, prop) \<in> set attributesMap \<Longrightarrow>
   map_of (attributeStyle xmlNode z) prop =
     (case getAttribute xmlNode a of Some v \<Rightarrow> Some v | None \<Rightarrow> map_of z prop)"
  unfolding attributeStyle_def
  by (rule foldl_update_lookup [OF attributesMap_distinct])

lemma util_extend_lookup:
  "map_of (util_extend t s) k = (case map_of (rev s) k of Some v \<Rightarrow> Some v | None \<Rightarrow> map_of t k)"
  unfolding util_extend_def
  by (induction s arbitrary: t) (auto simp: update_conv' map_add_def split: option.splits)


lemma foldl_update_distinct:
  "distinct (map fst z0) \<Longrightarrow>
   distinct (map fst (foldl (\<lambda>z (k, p). case f k of None \<Rightarrow> z | Some v \<Rightarrow> AList.update p v z) z0 m))"
  by (induction m arbitrary: z0) (auto simp: distinct_update split: option.splits)

lemma map_of_rev_distinct: "distinct (map fst xs) \<Longrightarrow> map_of (rev xs) = map_of xs"
proof (induction xs)
  case Nil
  then show ?case by simp
next
  case (Cons x xs)
  obtain k v where x: "x = (k, v)" by (cases x)
  from Cons.prems x have k: "k \<notin> fst ` set xs" by simp
  then have "map_of xs k = None" by (simp add: map_of_eq_None_iff)
  with Cons x show ?case
    by (auto simp: map_add_def fun_eq_iff split: option.splits)
qed

lemma parseStyleAttribute_distinct: "distinct (map fst (fst (parseStyleAttribute xmlNode w)))"
  by (auto simp: parseStyleAttribute_def Let_def foldl_update_distinct
      split: option.splits prod.splits)

lemma parseStyleAttribute_indep:
  "fst (parseStyleAttribute xmlNode w) = fst (parseStyleAttribute xmlNode w')"
  by (auto simp: parseStyleAttribute_def Let_def split: option.splits prod.splits)

lemma normalizeText_other:
  assumes "prop \<noteq> ''textBaseline''" and "prop \<noteq> ''textAlign''"
  shows "map_of (normalizeText z) prop = map_of z prop"
proof -
  have u: "\<And>k v c z. prop \<noteq> k \<Longrightarrow>
      map_of (if c then AList.update k v z else z) prop = map_of z (prop::string)"
    by (simp add: update_conv')
  show ?thesis
    unfolding normalizeText_def Let_def
    by (simp only: u [OF assms(1)] u [OF assms(2)])
qed

lemma foldl_update_keys_other:
  "k \<notin> g ` set names \<Longrightarrow>
   map_of (foldl (\<lambda>s n. case h n of None \<Rightarrow> s | Some v \<Rightarrow> AList.update (g n) (c v) s) s0 names) k
     = map_of s0 k"
  by (induction names arbitrary: s0) (auto simp: update_conv' split: option.splits)

lemma setNumbers_other:
  "k \<notin> set [''lineWidth'', ''textStrokeWidth'', ''opacity'', ''fillOpacity'', ''strokeOpacity'',
              ''miterLimit'', ''fontSize''] \<Longrightarrow>
   map_of (setNumbers b z s) k = map_of s k"
  unfolding setNumbers_def Let_def
  by (rule foldl_update_keys_other) auto

lemma setStrings_other:
  "k \<notin> set [''lineDashOffset'', ''lineCap'', ''lineJoin'', ''fontWeight'', ''fontFamily'',
        ''fontStyle'', ''textAlign'', ''textBaseline''] \<Longrightarrow>
   map_of (setStrings z s) k = map_of s k"
  unfolding setStrings_def
  by (rule foldl_update_keys_other [where g = "\<lambda>n. n"]) auto

lemma parseTransformAttribute_frame:
  "el_style (fst (parseTransformAttribute n e w)) = el_style e \<and>
   el_kind (fst (parseTransformAttribute n e w)) = el_kind e \<and>
   el_inheritedStyle (fst (parseTransformAttribute n e w)) = el_inheritedStyle e \<and>
   el_position (fst (parseTransformAttribute n e w)) = el_position e \<and>
   el_scale (fst (parseTransformAttribute n e w)) = el_scale e \<and>
   el_shape (fst (parseTransformAttribute n e w)) = el_shape e"
  by (simp add: parseTransformAttribute_def Let_def split_beta split: option.splits)

lemma inline_lookup:
  "(a, prop) \<in> set attributesMap \<Longrightarrow> distinct (map fst inline) \<Longrightarrow>
   map_of (attributeStyle xmlNode (util_extend inherited inline)) prop =
     (case getAttribute xmlNode a of
        Some v \<Rightarrow> Some v
      | None \<Rightarrow> (case map_of inline prop of Some v \<Rightarrow> Some v | None \<Rightarrow> map_of inherited prop))"
  by (simp add: attributeStyle_lookup util_extend_lookup map_of_rev_distinct split: option.splits)

lemma foldl_update_keys_lookup:
  "distinct (map g names) \<Longrightarrow> n \<in> set names \<Longrightarrow>
   map_of (foldl (\<lambda>s n. case h n of None \<Rightarrow> s | Some v \<Rightarrow> AList.update (g n) (c v) s) s0 names) (g n)
     = (case h n of Some v \<Rightarrow> Some (c v) | None \<Rightarrow> map_of s0 (g n))"
proof (induction names arbitrary: s0)
  case Nil
  then show ?case by simp
next
  case (Cons x names)
  show ?case
  proof (cases "x = n")
    case True
    with Cons.prems have "g n \<notin> g ` set names" by auto
    from foldl_update_keys_other [OF this] True show ?thesis
      by (auto simp: update_conv' split: option.splits)
  next
    case False
    with Cons.prems have n: "n \<in> set names" and d: "distinct (map g names)" and "g x \<noteq> g n"
      by auto
    with Cons.IH [OF d n] show ?thesis by (auto simp: update_conv' split: option.splits)
  qed
qed

lemma setNumbers_lookup:
  "n \<in> set [''lineWidth'', ''opacity'', ''fillOpacity'', ''strokeOpacity'', ''miterLimit'', ''fontSize''] \<Longrightarrow>
   map_of (setNumbers b z s) (if n = ''lineWidth'' \<and> b then ''textStrokeWidth'' else n) =
     (case map_of z n of
        Some v \<Rightarrow> Some (JNum (parseFloat v))
      | None \<Rightarrow> map_of s (if n = ''lineWidth'' \<and> b then ''textStrokeWidth'' else n))"
  unfolding setNumbers_def Let_def
  by (rule foldl_update_keys_lookup
        [where g = "\<lambda>n. if n = ''lineWidth'' \<and> b then ''textStrokeWidth'' else n"
           and c = "\<lambda>v. JNum (parseFloat v)" and h = "map_of z"])
     auto

lemma setStrings_lookup:
  "n \<in> set [''lineDashOffset'', ''lineCap'', ''lineJoin'', ''fontWeight'', ''fontFamily'',
        ''fontStyle'', ''textAlign'', ''textBaseline''] \<Longrightarrow>
   map_of (setStrings z s) n = (case map_of z n of Some v \<Rightarrow> Some (JStr v) | None \<Rightarrow> map_of s n)"
  unfolding setStrings_def
  by (rule foldl_update_keys_lookup [where g = "\<lambda>n. n" and c = JStr and h = "map_of z"]) auto

lemma if_update_same:
  "map_of (if c then AList.update k v z else z) k = (if c then Some v else map_of z k)"
  by (simp add: update_conv')

lemma if_update_other:
  "k' \<noteq> k \<Longrightarrow> map_of (if c then AList.update k v z else z) k' = map_of z k'"
  by (simp add: update_conv')

lemma normalizeText_textBaseline:
  "map_of (normalizeText z) ''textBaseline'' =
     Some (case map_of z ''textBaseline'' of
             None \<Rightarrow> ''bottom''
           | Some v \<Rightarrow> if v = [] \<or> v = ''auto'' \<or> v = ''alphabetic'' then ''bottom'' else v)"
proof -
  have ne: "''textBaseline'' \<noteq> ''textAlign''" by simp
  have "map_of (normalizeText z) ''textBaseline'' =
      (if (if map_of z ''textBaseline'' = None \<or> map_of z ''textBaseline'' = Some []
              \<or> map_of z ''textBaseline'' = Some ''auto''
           then Some ''alphabetic'' else map_of z ''textBaseline'') = Some ''alphabetic''
       then Some ''bottom''
       else (if map_of z ''textBaseline'' = None \<or> map_of z ''textBaseline'' = Some []
              \<or> map_of z ''textBaseline'' = Some ''auto''
           then Some ''alphabetic'' else map_of z ''textBaseline''))"
    unfolding normalizeText_def Let_def
    by (simp only: if_update_other [OF ne] if_update_same)
  then show ?thesis
    by (cases "map_of z ''textBaseline''") simp_all
qed

lemma normalizeText_textAlign:
  "map_of (normalizeText z) ''textAlign'' =
     (case map_of z ''textAlign'' of
        None \<Rightarrow> None
      | Some v \<Rightarrow> Some (if v = ''start'' then ''left'' else if v = ''end'' then ''right'' else v))"
proof -
  have ne: "''textAlign'' \<noteq> ''textBaseline''" by simp
  have "map_of (normalizeText z) ''textAlign'' =
      (if (if map_of z ''textAlign'' = Some ''start'' then Some ''left'' else map_of z ''textAlign'')
            = Some ''end''
       then Some ''right''
       else (if map_of z ''textAlign'' = Some ''start'' then Some ''left'' else map_of z ''textAlign''))"
    unfolding normalizeText_def Let_def
    by (simp only: if_update_other [OF ne] if_update_same)
  then show ?thesis
    by (cases "map_of z ''textAlign''") simp_all
qed

lemma merged_lookup:
  "(a, prop) \<in> set attributesMap \<Longrightarrow> distinct (map fst inline) \<Longrightarrow>
   map_of (if \<not> onlyInlineStyle then attributeStyle xmlNode (util_extend inherited inline)
           else util_extend inherited inline) prop =
     (case (if onlyInlineStyle then None else getAttribute xmlNode a) of
        Some v \<Rightarrow> Some v
      | None \<Rightarrow> (case map_of inline prop of Some v \<Rightarrow> Some v | None \<Rightarrow> map_of inherited prop))"
  by (simp add: inline_lookup util_extend_lookup map_of_rev_distinct split: option.splits)

lemma parseAttributes_resolution:
  "nodeType xmlNode = 1 \<and> (a, prop) \<in> set attributesMap \<longrightarrow>
   (let el' = fst (parseAttributes xmlNode el defs onlyInlineStyle w);
        isTextEl = (el_kind el = ZText);
        inherited = (case el_inheritedStyle el of None \<Rightarrow> [] | Some d \<Rightarrow> d);
        inline = fst (parseStyleAttribute xmlNode w);
        attribute = (if onlyInlineStyle then None else getAttribute xmlNode a);
        resolved =
          (case attribute of
             Some v \<Rightarrow> Some v
           | None \<Rightarrow> (case map_of inline prop of Some v \<Rightarrow> Some v | None \<Rightarrow> map_of inherited prop));
        baseline =
          (case resolved of
             None \<Rightarrow> ''bottom''
           | Some v \<Rightarrow> if v = [] \<or> v = ''auto'' \<or> v = ''alphabetic'' then ''bottom'' else v);
        align = (\<lambda>v. if v = ''start'' then ''left'' else if v = ''end'' then ''right'' else v);
        key = (if prop = ''fill'' \<and> isTextEl then ''textFill''
               else if prop = ''stroke'' \<and> isTextEl then ''textStroke''
               else if prop = ''lineWidth'' \<and> isTextEl then ''textStrokeWidth''
               else prop);
        before = map_of (el_style el) key;
        assigned = map_of (el_style el') key
    in (prop \<in> set [''fill'', ''stroke''] \<longrightarrow>
          assigned = (case resolved of Some v \<Rightarrow> Some (getPaint v defs) | None \<Rightarrow> before)) \<and>
       (prop \<in> set [''lineWidth'', ''opacity'', ''fillOpacity'', ''strokeOpacity'', ''miterLimit'',
                     ''fontSize''] \<longrightarrow>
          assigned = (case resolved of Some v \<Rightarrow> Some (JNum (parseFloat v)) | None \<Rightarrow> before)) \<and>
       (prop \<in> set [''lineDashOffset'', ''lineCap'', ''lineJoin'', ''fontWeight'', ''fontFamily'',
                     ''fontStyle''] \<longrightarrow>
          assigned = (case resolved of Some v \<Rightarrow> Some (JStr v) | None \<Rightarrow> before)) \<and>
       (prop = ''textAlign'' \<longrightarrow>
          assigned = (case resolved of Some v \<Rightarrow> Some (JStr (align v)) | None \<Rightarrow> before)) \<and>
       (prop = ''textBaseline'' \<longrightarrow> assigned = Some (JStr baseline)) \<and>
       (prop = ''lineDash'' \<longrightarrow>
          assigned =
            (case resolved of
               None \<Rightarrow> before
             | Some v \<Rightarrow>
                 if v = [] then before else Some (JList (map parseFloat (split (trim v)))))) \<and>
       (case el_inheritedStyle el' of
          None \<Rightarrow> False
        | Some stored \<Rightarrow>
            map_of stored prop =
              (if prop = ''textBaseline'' then Some baseline
               else if prop = ''textAlign'' then map_option align resolved
               else resolved)))"
proof (intro impI, elim conjE)
  assume nt: "nodeType xmlNode = 1" and ap: "(a, prop) \<in> set attributesMap"
  define isTextEl where "isTextEl = (el_kind el = ZText)"
  define inherited where "inherited = (case el_inheritedStyle el of None \<Rightarrow> [] | Some d \<Rightarrow> d)"
  define inline where "inline = fst (parseStyleAttribute xmlNode w)"
  define merged where "merged =
     (if \<not> onlyInlineStyle then attributeStyle xmlNode (util_extend inherited inline)
      else util_extend inherited inline)"
  define resolved where "resolved =
          (case (if onlyInlineStyle then None else getAttribute xmlNode a) of
             Some v \<Rightarrow> Some v
           | None \<Rightarrow> (case map_of inline prop of Some v \<Rightarrow> Some v | None \<Rightarrow> map_of inherited prop))"
  define baseline where "baseline =
          (case resolved of
             None \<Rightarrow> ''bottom''
           | Some v \<Rightarrow> if v = [] \<or> v = ''auto'' \<or> v = ''alphabetic'' then ''bottom'' else v)"
  define align where
    "align = (\<lambda>v. if v = ''start'' then ''left'' else if v = ''end'' then ''right'' else v)"
  define fillProp where "fillProp = (if isTextEl then ''textFill'' else ''fill'')"
  define strokeProp where "strokeProp = (if isTextEl then ''textStroke'' else ''stroke'')"
  define widthProp where "widthProp = (if isTextEl then ''textStrokeWidth'' else ''lineWidth'')"
  define key where "key =
              (if prop = ''fill'' \<and> isTextEl then ''textFill''
               else if prop = ''stroke'' \<and> isTextEl then ''textStroke''
               else if prop = ''lineWidth'' \<and> isTextEl then ''textStrokeWidth''
               else prop)"
  define el' where "el' = fst (parseAttributes xmlNode el defs onlyInlineStyle w)"
  obtain e wa where pt: "parseTransformAttribute xmlNode el w = (e, wa)" by force
  obtain il wb where ps: "parseStyleAttribute xmlNode wa = (il, wb)" by force
  have il: "il = inline"
    using parseStyleAttribute_indep [of xmlNode wa w] ps by (simp add: inline_def)
  have fr: "el_style e = el_style el" "el_kind e = el_kind el"
    using parseTransformAttribute_frame [of xmlNode el w] pt by simp_all
  have dist: "distinct (map fst inline)"
    unfolding inline_def by (rule parseStyleAttribute_distinct)
  have m: "map_of merged prop = resolved"
    unfolding merged_def resolved_def by (rule merged_lookup [OF ap dist])
  define s1 where "s1 = (case map_of merged ''fill'' of
                  None \<Rightarrow> el_style el
                | Some v \<Rightarrow> AList.update fillProp (getPaint v defs) (el_style el))"
  define s2 where "s2 = (case map_of merged ''stroke'' of
                  None \<Rightarrow> s1
                | Some v \<Rightarrow> AList.update strokeProp (getPaint v defs) s1)"
  define s3 where "s3 = setNumbers isTextEl merged s2"
  define s4 where "s4 = setStrings (normalizeText merged) s3"
  define s5 where "s5 = (case map_of (normalizeText merged) ''lineDash'' of
                  None \<Rightarrow> s4
                | Some v \<Rightarrow>
                    if v = [] then s4
                    else AList.update ''lineDash'' (JList (map parseFloat (split (trim v)))) s4)"
  have st: "el_style el' = s5" and ih: "el_inheritedStyle el' = Some (normalizeText merged)"
    using nt fr
    unfolding el'_def s5_def s4_def s3_def s2_def s1_def fillProp_def strokeProp_def merged_def
      inherited_def isTextEl_def
    by (simp_all add: parseAttributes_def Let_def pt ps il cong: option.case_cong if_cong)
  have k5: "\<And>k. k \<noteq> ''lineDash'' \<Longrightarrow> map_of s5 k = map_of s4 k"
    unfolding s5_def by (simp add: update_conv' split: option.splits)
  have k4: "\<And>k. k \<notin> set [''lineDashOffset'', ''lineCap'', ''lineJoin'', ''fontWeight'',
        ''fontFamily'', ''fontStyle'', ''textAlign'', ''textBaseline''] \<Longrightarrow> map_of s4 k = map_of s3 k"
    unfolding s4_def by (rule setStrings_other)
  have k3: "\<And>k. k \<notin> set [''lineWidth'', ''textStrokeWidth'', ''opacity'', ''fillOpacity'',
        ''strokeOpacity'', ''miterLimit'', ''fontSize''] \<Longrightarrow> map_of s3 k = map_of s2 k"
    unfolding s3_def by (rule setNumbers_other)
  have k2: "\<And>k. k \<noteq> strokeProp \<Longrightarrow> map_of s2 k = map_of s1 k"
    unfolding s2_def by (simp add: update_conv' split: option.splits)
  have k1: "\<And>k. k \<noteq> fillProp \<Longrightarrow> map_of s1 k = map_of (el_style el) k"
    unfolding s1_def by (simp add: update_conv' split: option.splits)
  have fp: "fillProp = ''textFill'' \<or> fillProp = ''fill''"
    and sp: "strokeProp = ''textStroke'' \<or> strokeProp = ''stroke''"
    and wp: "widthProp = ''textStrokeWidth'' \<or> widthProp = ''lineWidth''"
    unfolding fillProp_def strokeProp_def widthProp_def by simp_all
  have ne: "fillProp \<noteq> strokeProp"
    unfolding fillProp_def strokeProp_def by simp
  text \<open>fill and stroke\<close>
  have f1: "map_of s1 fillProp =
      (case map_of merged ''fill'' of
         Some v \<Rightarrow> Some (getPaint v defs) | None \<Rightarrow> map_of (el_style el) fillProp)"
    unfolding s1_def by (simp add: update_conv' split: option.splits)
  have g2: "map_of s2 strokeProp =
      (case map_of merged ''stroke'' of
         Some v \<Rightarrow> Some (getPaint v defs) | None \<Rightarrow> map_of (el_style el) strokeProp)"
    unfolding s2_def using ne k1 [of strokeProp] by (simp add: update_conv' split: option.splits)
  have f5: "map_of s5 fillProp = map_of s1 fillProp"
    using fp ne by (auto simp: k5 k4 k3 k2)
  have g5: "map_of s5 strokeProp = map_of s2 strokeProp"
    using sp by (auto simp: k5 k4 k3)
  have cFill: "prop = ''fill'' \<Longrightarrow> map_of s5 key =
      (case resolved of Some v \<Rightarrow> Some (getPaint v defs) | None \<Rightarrow> map_of (el_style el) key)"
  proof -
    assume p: "prop = ''fill''"
    then have "key = fillProp" unfolding key_def fillProp_def by simp
    then show ?thesis using f5 f1 m p by (simp cong: option.case_cong)
  qed
  have cStroke: "prop = ''stroke'' \<Longrightarrow> map_of s5 key =
      (case resolved of Some v \<Rightarrow> Some (getPaint v defs) | None \<Rightarrow> map_of (el_style el) key)"
  proof -
    assume p: "prop = ''stroke''"
    then have "key = strokeProp" unfolding key_def strokeProp_def by simp
    then show ?thesis using g5 g2 m p by (simp cong: option.case_cong)
  qed
  text \<open>numbers\<close>
  have cNum: "prop \<in> set [''lineWidth'', ''opacity'', ''fillOpacity'', ''strokeOpacity'',
        ''miterLimit'', ''fontSize''] \<Longrightarrow> map_of s5 key =
      (case resolved of Some v \<Rightarrow> Some (JNum (parseFloat v)) | None \<Rightarrow> map_of (el_style el) key)"
  proof -
    assume p: "prop \<in> set [''lineWidth'', ''opacity'', ''fillOpacity'', ''strokeOpacity'',
        ''miterLimit'', ''fontSize'']"
    then have ky: "key = (if prop = ''lineWidth'' \<and> isTextEl then ''textStrokeWidth'' else prop)"
      unfolding key_def by auto
    have a: "map_of s3 key =
        (case map_of merged prop of
           Some v \<Rightarrow> Some (JNum (parseFloat v)) | None \<Rightarrow> map_of s2 key)"
      unfolding s3_def ky by (rule setNumbers_lookup [OF p])
    have b: "key \<noteq> ''lineDash''"
      "key \<notin> set [''lineDashOffset'', ''lineCap'', ''lineJoin'', ''fontWeight'',
        ''fontFamily'', ''fontStyle'', ''textAlign'', ''textBaseline'']"
      "key \<noteq> ''textFill''" "key \<noteq> ''fill''" "key \<noteq> ''textStroke''" "key \<noteq> ''stroke''"
      using p unfolding ky by auto
    from b fp sp have c: "key \<noteq> fillProp" "key \<noteq> strokeProp" by auto
    show ?thesis
      using a m by (simp add: k5 [OF b(1)] k4 [OF b(2)] k2 [OF c(2)] k1 [OF c(1)] cong: option.case_cong)
  qed
  text \<open>strings\<close>
  have other: "key = prop \<and> map_of s3 prop = map_of (el_style el) prop"
    if p: "prop \<in> set [''lineDashOffset'', ''lineCap'', ''lineJoin'', ''fontWeight'',
        ''fontFamily'', ''fontStyle'', ''textAlign'', ''textBaseline'', ''lineDash'']"
  proof -
    from p have ky: "key = prop" unfolding key_def by auto
    have b: "prop \<notin> set [''lineWidth'', ''textStrokeWidth'', ''opacity'', ''fillOpacity'',
        ''strokeOpacity'', ''miterLimit'', ''fontSize'']"
      "prop \<noteq> ''textFill''" "prop \<noteq> ''fill''" "prop \<noteq> ''textStroke''" "prop \<noteq> ''stroke''"
      using p by auto
    from b fp sp have c: "prop \<noteq> fillProp" "prop \<noteq> strokeProp" by auto
    show ?thesis
      using ky by (simp add: k3 [OF b(1)] k2 [OF c(2)] k1 [OF c(1)])
  qed
  have cStr: "prop \<in> set [''lineDashOffset'', ''lineCap'', ''lineJoin'', ''fontWeight'',
        ''fontFamily'', ''fontStyle''] \<Longrightarrow> map_of s5 key =
      (case resolved of Some v \<Rightarrow> Some (JStr v) | None \<Rightarrow> map_of (el_style el) key)"
  proof -
    assume p: "prop \<in> set [''lineDashOffset'', ''lineCap'', ''lineJoin'', ''fontWeight'',
        ''fontFamily'', ''fontStyle'']"
    then have q: "prop \<in> set [''lineDashOffset'', ''lineCap'', ''lineJoin'', ''fontWeight'',
        ''fontFamily'', ''fontStyle'', ''textAlign'', ''textBaseline'', ''lineDash'']"
      and r: "prop \<in> set [''lineDashOffset'', ''lineCap'', ''lineJoin'', ''fontWeight'',
        ''fontFamily'', ''fontStyle'', ''textAlign'', ''textBaseline'']"
      and d: "prop \<noteq> ''lineDash''" "prop \<noteq> ''textBaseline''" "prop \<noteq> ''textAlign''"
      by auto
    have "map_of s4 prop =
        (case map_of (normalizeText merged) prop of
           Some v \<Rightarrow> Some (JStr v) | None \<Rightarrow> map_of s3 prop)"
      unfolding s4_def by (rule setStrings_lookup [OF r])
    then show ?thesis
      using other [OF q] m
      by (simp add: k5 [OF d(1)] normalizeText_other [OF d(2) d(3)] cong: option.case_cong)
  qed
  have cAlign: "prop = ''textAlign'' \<Longrightarrow> map_of s5 key =
      (case resolved of Some v \<Rightarrow> Some (JStr (align v)) | None \<Rightarrow> map_of (el_style el) key)"
  proof -
    assume p: "prop = ''textAlign''"
    have "map_of s4 ''textAlign'' =
        (case map_of (normalizeText merged) ''textAlign'' of
           Some v \<Rightarrow> Some (JStr v) | None \<Rightarrow> map_of s3 ''textAlign'')"
      unfolding s4_def by (rule setStrings_lookup) simp
    moreover have "map_of s5 ''textAlign'' = map_of s4 ''textAlign''" by (rule k5) simp
    ultimately show ?thesis
      using other m p unfolding align_def
      by (simp add: normalizeText_textAlign cong: option.case_cong split: option.splits)
  qed
  have cBase: "prop = ''textBaseline'' \<Longrightarrow> map_of s5 key = Some (JStr baseline)"
  proof -
    assume p: "prop = ''textBaseline''"
    have "map_of s4 ''textBaseline'' =
        (case map_of (normalizeText merged) ''textBaseline'' of
           Some v \<Rightarrow> Some (JStr v) | None \<Rightarrow> map_of s3 ''textBaseline'')"
      unfolding s4_def by (rule setStrings_lookup) simp
    moreover have "map_of s5 ''textBaseline'' = map_of s4 ''textBaseline''" by (rule k5) simp
    ultimately show ?thesis
      using other m p unfolding baseline_def
      by (simp add: normalizeText_textBaseline cong: option.case_cong)
  qed
  have cDash: "prop = ''lineDash'' \<Longrightarrow> map_of s5 key =
            (case resolved of
               None \<Rightarrow> map_of (el_style el) key
             | Some v \<Rightarrow>
                 if v = [] then map_of (el_style el) key
                 else Some (JList (map parseFloat (split (trim v)))))"
  proof -
    assume p: "prop = ''lineDash''"
    have n: "map_of (normalizeText merged) ''lineDash'' = resolved"
      using m p by (simp add: normalizeText_other)
    have "map_of s4 ''lineDash'' = map_of s3 ''lineDash''" by (rule k4) simp
    then show ?thesis
      using other p unfolding s5_def n
      by (simp add: update_conv' cong: option.case_cong split: option.splits)
  qed
  have cInh: "map_of (normalizeText merged) prop =
              (if prop = ''textBaseline'' then Some baseline
               else if prop = ''textAlign'' then map_option align resolved
               else resolved)"
  proof (cases "prop = ''textBaseline''")
    case True
    then show ?thesis
      using m unfolding baseline_def by (simp add: normalizeText_textBaseline)
  next
    case nb: False
    show ?thesis
    proof (cases "prop = ''textAlign''")
      case True
      then show ?thesis
        using m unfolding align_def by (simp add: normalizeText_textAlign split: option.splits)
    next
      case False
      with nb show ?thesis using m by (simp add: normalizeText_other)
    qed
  qed
  have concl:
    "(prop \<in> set [''fill'', ''stroke''] \<longrightarrow>
          map_of (el_style el') key =
            (case resolved of Some v \<Rightarrow> Some (getPaint v defs) | None \<Rightarrow> map_of (el_style el) key)) \<and>
       (prop \<in> set [''lineWidth'', ''opacity'', ''fillOpacity'', ''strokeOpacity'', ''miterLimit'',
                     ''fontSize''] \<longrightarrow>
          map_of (el_style el') key =
            (case resolved of Some v \<Rightarrow> Some (JNum (parseFloat v)) | None \<Rightarrow> map_of (el_style el) key)) \<and>
       (prop \<in> set [''lineDashOffset'', ''lineCap'', ''lineJoin'', ''fontWeight'', ''fontFamily'',
                     ''fontStyle''] \<longrightarrow>
          map_of (el_style el') key =
            (case resolved of Some v \<Rightarrow> Some (JStr v) | None \<Rightarrow> map_of (el_style el) key)) \<and>
       (prop = ''textAlign'' \<longrightarrow>
          map_of (el_style el') key =
            (case resolved of Some v \<Rightarrow> Some (JStr (align v)) | None \<Rightarrow> map_of (el_style el) key)) \<and>
       (prop = ''textBaseline'' \<longrightarrow> map_of (el_style el') key = Some (JStr baseline)) \<and>
       (prop = ''lineDash'' \<longrightarrow>
          map_of (el_style el') key =
            (case resolved of
               None \<Rightarrow> map_of (el_style el) key
             | Some v \<Rightarrow>
                 if v = [] then map_of (el_style el) key
                 else Some (JList (map parseFloat (split (trim v)))))) \<and>
       (case el_inheritedStyle el' of
          None \<Rightarrow> False
        | Some stored \<Rightarrow>
            map_of stored prop =
              (if prop = ''textBaseline'' then Some baseline
               else if prop = ''textAlign'' then map_option align resolved
               else resolved))"
  proof (intro conjI impI)
    assume "prop \<in> set [''fill'', ''stroke'']"
    then have "prop = ''fill'' \<or> prop = ''stroke''" by simp
    then show "map_of (el_style el') key =
            (case resolved of Some v \<Rightarrow> Some (getPaint v defs) | None \<Rightarrow> map_of (el_style el) key)"
      using cFill cStroke st by metis
  next
    show "case el_inheritedStyle el' of
          None \<Rightarrow> False
        | Some stored \<Rightarrow>
            map_of stored prop =
              (if prop = ''textBaseline'' then Some baseline
               else if prop = ''textAlign'' then map_option align resolved
               else resolved)"
      unfolding ih using cInh by simp
  qed (simp_all only: st cNum cStr cAlign cBase cDash)
  show "let el' = fst (parseAttributes xmlNode el defs onlyInlineStyle w);
        isTextEl = (el_kind el = ZText);
        inherited = (case el_inheritedStyle el of None \<Rightarrow> [] | Some d \<Rightarrow> d);
        inline = fst (parseStyleAttribute xmlNode w);
        attribute = (if onlyInlineStyle then None else getAttribute xmlNode a);
        resolved =
          (case attribute of
             Some v \<Rightarrow> Some v
           | None \<Rightarrow> (case map_of inline prop of Some v \<Rightarrow> Some v | None \<Rightarrow> map_of inherited prop));
        baseline =
          (case resolved of
             None \<Rightarrow> ''bottom''
           | Some v \<Rightarrow> if v = [] \<or> v = ''auto'' \<or> v = ''alphabetic'' then ''bottom'' else v);
        align = (\<lambda>v. if v = ''start'' then ''left'' else if v = ''end'' then ''right'' else v);
        key = (if prop = ''fill'' \<and> isTextEl then ''textFill''
               else if prop = ''stroke'' \<and> isTextEl then ''textStroke''
               else if prop = ''lineWidth'' \<and> isTextEl then ''textStrokeWidth''
               else prop);
        before = map_of (el_style el) key;
        assigned = map_of (el_style el') key
    in (prop \<in> set [''fill'', ''stroke''] \<longrightarrow>
          assigned = (case resolved of Some v \<Rightarrow> Some (getPaint v defs) | None \<Rightarrow> before)) \<and>
       (prop \<in> set [''lineWidth'', ''opacity'', ''fillOpacity'', ''strokeOpacity'', ''miterLimit'',
                     ''fontSize''] \<longrightarrow>
          assigned = (case resolved of Some v \<Rightarrow> Some (JNum (parseFloat v)) | None \<Rightarrow> before)) \<and>
       (prop \<in> set [''lineDashOffset'', ''lineCap'', ''lineJoin'', ''fontWeight'', ''fontFamily'',
                     ''fontStyle''] \<longrightarrow>
          assigned = (case resolved of Some v \<Rightarrow> Some (JStr v) | None \<Rightarrow> before)) \<and>
       (prop = ''textAlign'' \<longrightarrow>
          assigned = (case resolved of Some v \<Rightarrow> Some (JStr (align v)) | None \<Rightarrow> before)) \<and>
       (prop = ''textBaseline'' \<longrightarrow> assigned = Some (JStr baseline)) \<and>
       (prop = ''lineDash'' \<longrightarrow>
          assigned =
            (case resolved of
               None \<Rightarrow> before
             | Some v \<Rightarrow>
                 if v = [] then before else Some (JList (map parseFloat (split (trim v)))))) \<and>
       (case el_inheritedStyle el' of
          None \<Rightarrow> False
        | Some stored \<Rightarrow>
            map_of stored prop =
              (if prop = ''textBaseline'' then Some baseline
               else if prop = ''textAlign'' then map_option align resolved
               else resolved))"
    unfolding Let_def
    using concl
    unfolding el'_def key_def baseline_def align_def resolved_def inline_def inherited_def isTextEl_def
    by (rule back_subst [where P = "\<lambda>x. x"]) (rule refl)
qed

text \<open>
  C1 (as the code has it). Take an element and a property of the allow-list. On every
  element but the root the value that \<^verbatim>\<open>parseAttributes\<close> resolves is the presentation
  attribute when the element has it, else the inline \<^verbatim>\<open>style\<close> declaration when there
  is one, else the inherited value: a presentation attribute overrides an inline
  declaration of the same property. On the root element, which is parsed with
  \<^verbatim>\<open>onlyInlineStyle\<close>, the presentation attributes are not read: the inline declaration
  comes first, then the inherited value. The resolved value is what the element's style
  is assigned: \<^verbatim>\<open>fill\<close> and \<^verbatim>\<open>stroke\<close> through \<^verbatim>\<open>getPaint\<close>, the six numeric
  properties as numbers, the others as strings, the alignment and the baseline under
  their normalised names, the dash array as a list of numbers; a property with no
  resolved value keeps what the style had (the baseline is always assigned). On a text
  element \<^verbatim>\<open>fill\<close>, \<^verbatim>\<open>stroke\<close> and \<^verbatim>\<open>lineWidth\<close> are assigned to \<^verbatim>\<open>textFill\<close>,
  \<^verbatim>\<open>textStroke\<close> and \<^verbatim>\<open>textStrokeWidth\<close>. The resolved record, with the alignment and
  the baseline normalised, is stored as \<^verbatim>\<open>__inheritedStyle\<close>.
\<close>

theorem parseAttributes_precedence:
  "nodeType xmlNode = 1 \<and> (a, prop) \<in> set attributesMap \<longrightarrow>
   (let el' = fst (parseAttributes xmlNode el defs onlyInlineStyle w);
        isTextEl = (el_kind el = ZText);
        inherited = (case el_inheritedStyle el of None \<Rightarrow> [] | Some d \<Rightarrow> d);
        inline = fst (parseStyleAttribute xmlNode w);
        attribute = (if onlyInlineStyle then None else getAttribute xmlNode a);
        resolved =
          (case attribute of
             Some v \<Rightarrow> Some v
           | None \<Rightarrow> (case map_of inline prop of Some v \<Rightarrow> Some v | None \<Rightarrow> map_of inherited prop));
        baseline =
          (case resolved of
             None \<Rightarrow> ''bottom''
           | Some v \<Rightarrow> if v = [] \<or> v = ''auto'' \<or> v = ''alphabetic'' then ''bottom'' else v);
        align = (\<lambda>v. if v = ''start'' then ''left'' else if v = ''end'' then ''right'' else v);
        key = (if prop = ''fill'' \<and> isTextEl then ''textFill''
               else if prop = ''stroke'' \<and> isTextEl then ''textStroke''
               else if prop = ''lineWidth'' \<and> isTextEl then ''textStrokeWidth''
               else prop);
        before = map_of (el_style el) key;
        assigned = map_of (el_style el') key
    in (prop \<in> set [''fill'', ''stroke''] \<longrightarrow>
          assigned = (case resolved of Some v \<Rightarrow> Some (getPaint v defs) | None \<Rightarrow> before)) \<and>
       (prop \<in> set [''lineWidth'', ''opacity'', ''fillOpacity'', ''strokeOpacity'', ''miterLimit'',
                     ''fontSize''] \<longrightarrow>
          assigned = (case resolved of Some v \<Rightarrow> Some (JNum (parseFloat v)) | None \<Rightarrow> before)) \<and>
       (prop \<in> set [''lineDashOffset'', ''lineCap'', ''lineJoin'', ''fontWeight'', ''fontFamily'',
                     ''fontStyle''] \<longrightarrow>
          assigned = (case resolved of Some v \<Rightarrow> Some (JStr v) | None \<Rightarrow> before)) \<and>
       (prop = ''textAlign'' \<longrightarrow>
          assigned = (case resolved of Some v \<Rightarrow> Some (JStr (align v)) | None \<Rightarrow> before)) \<and>
       (prop = ''textBaseline'' \<longrightarrow> assigned = Some (JStr baseline)) \<and>
       (prop = ''lineDash'' \<longrightarrow>
          assigned =
            (case resolved of
               None \<Rightarrow> before
             | Some v \<Rightarrow>
                 if v = [] then before else Some (JList (map parseFloat (split (trim v)))))) \<and>
       (case el_inheritedStyle el' of
          None \<Rightarrow> False
        | Some stored \<Rightarrow>
            map_of stored prop =
              (if prop = ''textBaseline'' then Some baseline
               else if prop = ''textAlign'' then map_option align resolved
               else resolved)))"
  by (rule parseAttributes_resolution)

lemma getPaint_no_paren: "CHR ''('' \<notin> set str \<Longrightarrow> getPaint str d = JStr str"
  by (cases d) (simp_all add: getPaint_def urlMatch_no_paren)

lemma colour_paint:
  "getPaint ''blue'' d = JStr ''blue''"
  "getPaint ''red'' d = JStr ''red''"
  by (rule getPaint_no_paren, simp)+

lemma rect_red_blue:
  "nodeType (Element ''rect'' [(''style'', ''fill:red''), (''fill'', ''blue'')] []) = 1"
  "(''fill'', ''fill'') \<in> set attributesMap"
  "getAttribute (Element ''rect'' [(''style'', ''fill:red''), (''fill'', ''blue'')] []) ''fill'' = Some ''blue''"
  "el_kind (newEl Rect) = Rect"
  "el_style (newEl Rect) = []"
  by (simp_all add: attributesMap_def getAttribute_def newEl_def)

lemma rect_red_blue_inline:
  "fst (parseStyleAttribute (Element ''rect'' [(''style'', ''fill:red''), (''fill'', ''blue'')] [])
     \<lparr>styleRegex_lastIndex = 0, console_warn = []\<rparr>) = [(''fill'', ''red'')]"
  by (simp add: parseStyleAttribute_def styleLoop.simps styleRegex_exec_def styleAt_def
        isStyleKey_def isStyleValue_def attributesMap_def getAttribute_def isSpace_def)

lemma svg_red_blue:
  "nodeType (Element ''svg'' [(''style'', ''fill:red''), (''fill'', ''blue'')] []) = 1"
  "getAttribute (Element ''svg'' [(''style'', ''fill:red''), (''fill'', ''blue'')] []) ''fill'' = Some ''blue''"
  "el_kind (newEl Group) = Group"
  "el_style (newEl Group) = []"
  "el_inheritedStyle (newEl Group) = None"
  "fst (parseStyleAttribute (Element ''svg'' [(''style'', ''fill:red''), (''fill'', ''blue'')] [])
     \<lparr>styleRegex_lastIndex = 0, console_warn = []\<rparr>) = [(''fill'', ''red'')]"
  by (simp_all add: parseStyleAttribute_def styleLoop.simps styleRegex_exec_def styleAt_def
        isStyleKey_def isStyleValue_def attributesMap_def getAttribute_def isSpace_def newEl_def)

lemma rect_width:
  "nodeType (Element ''rect'' [(''style'', ''stroke-width:2''), (''stroke-width'', ''3'')] []) = 1"
  "(''stroke-width'', ''lineWidth'') \<in> set attributesMap"
  "getAttribute (Element ''rect'' [(''style'', ''stroke-width:2''), (''stroke-width'', ''3'')] [])
     ''stroke-width'' = Some ''3''"
  "parseFloat ''3'' = Num 3"
  by (simp_all add: attributesMap_def getAttribute_def parseFloat_def parseFloatOpt_def
        strDecimalLiteral_def signPart_def exponentPart_def isSpace_def isDigit_def
        digitsToNat_def digitVal_def Let_def)

theorem parseAttributes_precedence_witness:
  "nodeType (Element ''rect'' [(''style'', ''fill:red''), (''fill'', ''blue'')] []) = 1 \<and>
   (''fill'', ''fill'') \<in> set attributesMap \<and>
   map_of (el_style (fst (parseAttributes
       (Element ''rect'' [(''style'', ''fill:red''), (''fill'', ''blue'')] []) (newEl Rect)
       (Some emptyObject) False
       \<lparr>styleRegex_lastIndex = 0, console_warn = []\<rparr>))) ''fill'' = Some (JStr ''blue'') \<and>
   map_of (el_style (fst (parseAttributes
       (Element ''svg'' [(''style'', ''fill:red''), (''fill'', ''blue'')] []) (newEl Group)
       None True
       \<lparr>styleRegex_lastIndex = 0, console_warn = []\<rparr>))) ''fill'' = Some (JStr ''red'') \<and>
   map_of (el_style (fst (parseAttributes
       (Element ''rect'' [(''style'', ''stroke-width:2''), (''stroke-width'', ''3'')] []) (newEl Rect)
       (Some emptyObject) False
       \<lparr>styleRegex_lastIndex = 0, console_warn = []\<rparr>))) ''lineWidth'' = Some (JNum (Num 3))"
proof -
  let ?x = "Element ''rect'' [(''style'', ''fill:red''), (''fill'', ''blue'')] []"
  let ?s = "Element ''svg'' [(''style'', ''fill:red''), (''fill'', ''blue'')] []"
  let ?y = "Element ''rect'' [(''style'', ''stroke-width:2''), (''stroke-width'', ''3'')] []"
  let ?w = "\<lparr>styleRegex_lastIndex = 0, console_warn = []\<rparr>"
  have h: "nodeType ?x = 1 \<and> (''fill'', ''fill'') \<in> set attributesMap"
    by (simp add: rect_red_blue)
  from parseAttributes_precedence [of ?x "''fill''" "''fill''" "newEl Rect" "Some emptyObject" False ?w]
  have a: "map_of (el_style (fst (parseAttributes ?x (newEl Rect) (Some emptyObject) False ?w))) ''fill'' =
      Some (JStr ''blue'')"
    by (simp add: Let_def rect_red_blue colour_paint)
  from parseAttributes_precedence [of ?s "''fill''" "''fill''" "newEl Group" None True ?w]
  have b: "map_of (el_style (fst (parseAttributes ?s (newEl Group) None True ?w))) ''fill'' =
      Some (JStr ''red'')"
    by (simp add: Let_def rect_red_blue(2) svg_red_blue colour_paint)
  from parseAttributes_precedence [of ?y "''stroke-width''" "''lineWidth''" "newEl Rect"
      "Some emptyObject" False ?w]
  have c: "map_of (el_style (fst (parseAttributes ?y (newEl Rect) (Some emptyObject) False ?w)))
      ''lineWidth'' = Some (JNum (Num 3))"
    by (simp add: Let_def rect_red_blue(4) rect_width)
  from h a b c show ?thesis by simp
qed

text \<open>
  The claim as written fails: with \<^verbatim>\<open>style="fill:red"\<close> and \<^verbatim>\<open>fill="blue"\<close> on one
  element the inline declaration is \<^verbatim>\<open>red\<close> and the fill assigned is \<^verbatim>\<open>blue\<close>.
\<close>

theorem parseAttributes_precedence_counterexample:
  "fst (parseStyleAttribute (Element ''rect'' [(''style'', ''fill:red''), (''fill'', ''blue'')] [])
     \<lparr>styleRegex_lastIndex = 0, console_warn = []\<rparr>) = [(''fill'', ''red'')] \<and>
   getAttribute (Element ''rect'' [(''style'', ''fill:red''), (''fill'', ''blue'')] []) ''fill'' = Some ''blue'' \<and>
   map_of (el_style (fst (parseAttributes
       (Element ''rect'' [(''style'', ''fill:red''), (''fill'', ''blue'')] []) (newEl Rect)
       (Some emptyObject) False
       \<lparr>styleRegex_lastIndex = 0, console_warn = []\<rparr>))) ''fill'' = Some (JStr ''blue'') \<and>
   map_of (el_style (fst (parseAttributes
       (Element ''rect'' [(''style'', ''fill:red''), (''fill'', ''blue'')] []) (newEl Rect)
       (Some emptyObject) False
       \<lparr>styleRegex_lastIndex = 0, console_warn = []\<rparr>))) ''fill'' \<noteq> Some (JStr ''red'')"
proof -
  let ?x = "Element ''rect'' [(''style'', ''fill:red''), (''fill'', ''blue'')] []"
  let ?w = "\<lparr>styleRegex_lastIndex = 0, console_warn = []\<rparr>"
  from parseAttributes_resolution [of ?x "''fill''" "''fill''" "newEl Rect" "Some emptyObject" False ?w]
  have "map_of (el_style (fst (parseAttributes ?x (newEl Rect) (Some emptyObject) False ?w))) ''fill'' =
      Some (JStr ''blue'')"
    by (simp add: Let_def rect_red_blue colour_paint)
  then show ?thesis by (simp add: rect_red_blue rect_red_blue_inline)
qed

subsection \<open>The text cursor\<close>

lemma parseAttributes_frame:
  "el_kind (fst (parseAttributes n e d b w)) = el_kind e \<and>
   el_position (fst (parseAttributes n e d b w)) = el_position e \<and>
   el_scale (fst (parseAttributes n e d b w)) = el_scale e \<and>
   el_shape (fst (parseAttributes n e d b w)) = el_shape e"
proof -
  obtain e1 wa where pt: "parseTransformAttribute n e w = (e1, wa)" by force
  obtain il wb where ps: "parseStyleAttribute n wa = (il, wb)" by force
  from parseTransformAttribute_frame [of n e w] pt
  have "el_kind e1 = el_kind e" "el_position e1 = el_position e" "el_scale e1 = el_scale e"
    "el_shape e1 = el_shape e" by simp_all
  then show ?thesis
    by (cases "nodeType n = 1") (simp_all add: parseAttributes_def Let_def pt ps)
qed

lemma parseAttributes_not_element:
  "nodeType n \<noteq> 1 \<Longrightarrow> snd (parseAttributes n e d b w) = w"
  by (simp add: parseAttributes_def Let_def)

lemma inheritStyle_frame:
  "el_kind (inheritStyle pg e) = el_kind e \<and> el_position (inheritStyle pg e) = el_position e \<and>
   el_scale (inheritStyle pg e) = el_scale e \<and> el_shape (inheritStyle pg e) = el_shape e \<and>
   el_style (inheritStyle pg e) = el_style e"
  by (simp add: inheritStyle_def split: option.splits)

lemma clampFontSize_frame:
  "el_kind (clampFontSize e) = el_kind e \<and> el_position (clampFontSize e) = el_position e"
  by (simp add: clampFontSize_def Let_def split_beta split: option.splits jsval.splits)

lemma parseText_text_node:
  assumes "nodeType n = 3" and "el_kind gp = Group"
  shows "\<exists>run. parseText host n (Some (El gp cs clip)) (p, w) =
           (Inr (Some (El gp (cs @ [El run [] None]) clip)),
            p\<lparr>this_textX := jsplus (this_textX p) (JNum (Num (textWidth host run)))\<rparr>, w) \<and>
         el_kind run = ZText \<and> runX run = orZero (this_textX p)"
proof -
  let ?text = "(newEl ZText)
                   \<lparr>el_style := [(''text'', JStr (textContent n)), (''transformText'', JBool True)],
                    el_position := Some (orZero (this_textX p), orZero (this_textY p))\<rparr>"
  obtain t1 w1 where pa:
    "parseAttributes n (inheritStyle (Some (El gp cs clip)) ?text) (Some (this_defs p)) False w = (t1, w1)"
    by force
  have "nodeType n \<noteq> 1" using assms(1) by simp
  from parseAttributes_not_element [OF this] pa have w1: "w1 = w"
    by (metis snd_conv)
  from parseAttributes_frame [of n "inheritStyle (Some (El gp cs clip)) ?text" "Some (this_defs p)" False w]
    pa inheritStyle_frame [of "Some (El gp cs clip)" ?text]
  have k: "el_kind t1 = ZText" and ps: "el_position t1 = Some (orZero (this_textX p), orZero (this_textY p))"
    by (simp_all add: newEl_def)
  let ?run = "clampFontSize t1"
  have "parseText host n (Some (El gp cs clip)) (p, w) =
           (Inr (Some (El gp (cs @ [El ?run [] None]) clip)),
            p\<lparr>this_textX := jsplus (this_textX p) (JNum (Num (textWidth host ?run)))\<rparr>, w)"
    using assms pa w1 by (simp add: parseText_def Let_def add_def)
  moreover have "el_kind ?run = ZText" using k clampFontSize_frame [of t1] by simp
  moreover have "runX ?run = orZero (this_textX p)"
    using ps clampFontSize_frame [of t1] by (simp add: runX_def)
  ultimately show ?thesis by blast
qed


lemma toLowerCase_names:
  "toLowerCase ''tspan'' = ''tspan''" "toLowerCase ''text'' = ''text''"
  by (simp_all add: toLowerCase_def)

lemma nodeParsers_lookup:
  "nodeParsers ''tspan'' = Some nodeParsers_tspan" "nodeParsers ''text'' = Some nodeParsers_text"
  by (simp_all add: nodeParsers_def)

lemma tspan_run:
  assumes nd: "\<not> this_isDefine p" and it: "this_isText p" and g: "el_kind pp = Group"
    and nx: "getAttribute (Element ''tspan'' a [Text s]) ''x'' = None"
  shows "\<exists>gr run p' w'.
           parseNode host (Element ''tspan'' a [Text s]) (Some (El pp cs clip)) (p, w) =
             (Inr (Some (El pp (cs @ [El gr [El run [] None] None]) clip)), p', w') \<and>
           el_kind gr = Group \<and> el_kind run = ZText \<and>
           runX run = orZero (jsplus (this_textX p) (attrOrZero (Element ''tspan'' a [Text s]) ''dx'')) \<and>
           this_textX p' =
             jsplus (jsplus (this_textX p) (attrOrZero (Element ''tspan'' a [Text s]) ''dx''))
                    (JNum (Num (textWidth host run))) \<and>
           this_isDefine p' = this_isDefine p \<and> this_isText p' = this_isText p"
proof -
  let ?t = "Element ''tspan'' a [Text s]"
  let ?G = "Some (El pp cs clip)"
  define p1 where "p1 = (case getAttribute ?t ''y'' of
                  None \<Rightarrow> p | Some y \<Rightarrow> p\<lparr>this_textY := JNum (parseFloat y)\<rparr>)"
  define p2 where "p2 = p1\<lparr>this_textX := jsplus (this_textX p1) (attrOrZero ?t ''dx''),
                           this_textY := jsplus (this_textY p1) (attrOrZero ?t ''dy'')\<rparr>"
  have p1: "this_textX p1 = this_textX p" "this_isDefine p1 = this_isDefine p"
    "this_isText p1 = this_isText p"
    by (simp_all add: p1_def split: option.splits)
  obtain gr w1 where pa:
    "parseAttributes ?t (inheritStyle ?G (newEl Group)) (Some (this_defs p1)) False w = (gr, w1)"
    by force
  from parseAttributes_frame [of ?t "inheritStyle ?G (newEl Group)" "Some (this_defs p1)" False w]
    pa inheritStyle_frame [of ?G "newEl Group"]
  have kg: "el_kind gr = Group" by (simp add: newEl_def)
  have np: "nodeParsers_tspan ?t ?G p w = (gr, p2, w1)"
    using nx pa by (simp add: nodeParsers_tspan_def p1_def p2_def Let_def)
  have en: "enterNode host ?t ?G (p, w) = (Inr (Some (El gr [] None)), p2, w1)"
    using nd np g by (simp add: enterNode_def lookupParser_def attach_def toLowerCase_names nodeParsers_lookup add_def Let_def)
  from parseText_text_node [of "Text s" gr host "[]" None p2 w1] kg
  obtain run where pt: "parseText host (Text s) (Some (El gr [] None)) (p2, w1) =
           (Inr (Some (El gr [El run [] None] None)),
            p2\<lparr>this_textX := jsplus (this_textX p2) (JNum (Num (textWidth host run)))\<rparr>, w1)"
    and kr: "el_kind run = ZText" and rx: "runX run = orZero (this_textX p2)"
    by auto
  let ?p3 = "p2\<lparr>this_textX := jsplus (this_textX p2) (JNum (Num (textWidth host run)))\<rparr>"
  have it2: "this_isText p2" using it p1 by (simp add: p2_def)
  have ch: "parseChildren host [Text s] (Some (El gr [] None)) (p2, w1) =
      (Inr (Some (El gr [El run [] None] None)), ?p3, w1)"
    using pt it2 by simp
  have lv: "leaveNode ?t ?G (Some (El gr [El run [] None] None)) (?p3, w1) =
      (Inr (Some (El pp (cs @ [El gr [El run [] None] None]) clip)), ?p3, w1)"
    using g by (simp add: leaveNode_def toLowerCase_names add_def Let_def)
  have "parseNode host ?t ?G (p, w) =
      (Inr (Some (El pp (cs @ [El gr [El run [] None] None]) clip)), ?p3, w1)"
    by (subst parseNode.simps) (simp add: en it2 pt lv)
  moreover have "this_textX ?p3 =
      jsplus (jsplus (this_textX p) (attrOrZero ?t ''dx'')) (JNum (Num (textWidth host run)))"
    using p1 by (simp add: p2_def)
  moreover have "runX run = orZero (jsplus (this_textX p) (attrOrZero ?t ''dx''))"
    using rx p1 by (simp add: p2_def)
  moreover have "this_isDefine ?p3 = this_isDefine p" "this_isText ?p3 = this_isText p"
    using p1 by (simp_all add: p2_def)
  ultimately show ?thesis using kg kr by blast
qed


lemma text_two_tspans:
  assumes nd: "\<not> this_isDefine p" and g: "el_kind pp = Group"
    and x1: "getAttribute (Element ''tspan'' a1 [Text s1]) ''x'' = None"
    and x2: "getAttribute (Element ''tspan'' a2 [Text s2]) ''x'' = None"
  shows "\<exists>run1 run2.
           runsOfResult (parseNode host
               (Element ''text'' ta [Element ''tspan'' a1 [Text s1], Element ''tspan'' a2 [Text s2]])
               (Some (El pp cs clip)) (p, w)) =
             textRuns (El pp cs clip) @ [run1, run2] \<and>
           runX run1 =
             orZero (jsplus (JNum (jadd (attrFloat (Element ''text'' ta []) ''x'')
                                        (attrFloat (Element ''text'' ta []) ''dx'')))
                            (attrOrZero (Element ''tspan'' a1 []) ''dx'')) \<and>
           runX run2 =
             orZero (jsplus
                (jsplus (jsplus (JNum (jadd (attrFloat (Element ''text'' ta []) ''x'')
                                            (attrFloat (Element ''text'' ta []) ''dx'')))
                                (attrOrZero (Element ''tspan'' a1 []) ''dx''))
                        (JNum (Num (textWidth host run1))))
                (attrOrZero (Element ''tspan'' a2 []) ''dx''))"
proof -
  let ?t1 = "Element ''tspan'' a1 [Text s1]"
  let ?t2 = "Element ''tspan'' a2 [Text s2]"
  let ?T = "Element ''text'' ta [?t1, ?t2]"
  let ?G = "Some (El pp cs clip)"
  let ?c0 = "JNum (jadd (attrFloat (Element ''text'' ta []) ''x'') (attrFloat (Element ''text'' ta []) ''dx''))"
  let ?d1 = "attrOrZero (Element ''tspan'' a1 []) ''dx''"
  let ?d2 = "attrOrZero (Element ''tspan'' a2 []) ''dx''"
  have af: "\<And>k. attrFloat ?T k = attrFloat (Element ''text'' ta []) k"
    by (simp add: attrFloat_def getAttribute_def)
  have ao: "\<And>a s k. attrOrZero (Element ''tspan'' a [Text s]) k = attrOrZero (Element ''tspan'' a []) k"
    by (simp add: attrOrZero_def getAttribute_def)
  define q0 where "q0 = (p\<lparr>this_isText := True\<rparr>)
      \<lparr>this_textX := ?c0,
       this_textY := JNum (jadd (attrFloat ?T ''y'') (attrFloat ?T ''dy''))\<rparr>"
  obtain tg w1 where pa:
    "parseAttributes ?T (inheritStyle ?G (newEl Group)) (Some (this_defs q0)) False w = (tg, w1)"
    by force
  from parseAttributes_frame [of ?T "inheritStyle ?G (newEl Group)" "Some (this_defs q0)" False w]
    pa inheritStyle_frame [of ?G "newEl Group"]
  have kt: "el_kind tg = Group" by (simp add: newEl_def)
  have np: "nodeParsers_text ?T ?G (p\<lparr>this_isText := True\<rparr>) w = (tg, q0, w1)"
    using pa by (simp add: nodeParsers_text_def q0_def Let_def af)
  have en: "enterNode host ?T ?G (p, w) = (Inr (Some (El tg [] None)), q0, w1)"
    using nd np g by (simp add: enterNode_def lookupParser_def attach_def toLowerCase_names nodeParsers_lookup add_def Let_def)
  have q0: "\<not> this_isDefine q0" "this_isText q0" "this_textX q0 = ?c0"
    using nd by (simp_all add: q0_def)
  from tspan_run [OF q0(1) q0(2) kt x1, of host "[]" None w1]
  obtain g1 run1 q1 w2 where
    n1: "parseNode host ?t1 (Some (El tg [] None)) (q0, w1) =
           (Inr (Some (El tg [El g1 [El run1 [] None] None] None)), q1, w2)"
    and k1: "el_kind g1 = Group" "el_kind run1 = ZText"
    and r1: "runX run1 = orZero (jsplus ?c0 ?d1)"
    and c1: "this_textX q1 = jsplus (jsplus ?c0 ?d1) (JNum (Num (textWidth host run1)))"
    and f1: "\<not> this_isDefine q1" "this_isText q1"
    using q0 by (auto simp: ao)
  from tspan_run [OF f1(1) f1(2) kt x2, of host "[El g1 [El run1 [] None] None]" None w2]
  obtain g2 run2 q2 w3 where
    n2: "parseNode host ?t2 (Some (El tg [El g1 [El run1 [] None] None] None)) (q1, w2) =
           (Inr (Some (El tg [El g1 [El run1 [] None] None, El g2 [El run2 [] None] None] None)), q2, w3)"
    and k2: "el_kind g2 = Group" "el_kind run2 = ZText"
    and r2: "runX run2 = orZero (jsplus (jsplus (jsplus ?c0 ?d1) (JNum (Num (textWidth host run1)))) ?d2)"
    using c1 by (auto simp: ao)
  let ?Tel = "El tg [El g1 [El run1 [] None] None, El g2 [El run2 [] None] None] None"
  have ch: "parseChildren host [?t1, ?t2] (Some (El tg [] None)) (q0, w1) = (Inr (Some ?Tel), q2, w3)"
    by (simp add: n1 n2)
  have "\<exists>q3. leaveNode ?T ?G (Some ?Tel) (q2, w3) = (Inr (Some (El pp (cs @ [?Tel]) clip)), q3, w3)"
    using g by (simp add: leaveNode_def toLowerCase_names add_def Let_def)
  then obtain q3 where
    lv: "leaveNode ?T ?G (Some ?Tel) (q2, w3) = (Inr (Some (El pp (cs @ [?Tel]) clip)), q3, w3)" ..
  have res: "parseNode host ?T ?G (p, w) = (Inr (Some (El pp (cs @ [?Tel]) clip)), q3, w3)"
    by (subst parseNode.simps) (simp add: en n1 n2 lv)
  have "runsOfResult (parseNode host ?T ?G (p, w)) = textRuns (El pp cs clip) @ [run1, run2]"
    using g kt k1 k2 by (simp add: res runsOfResult_def)
  with r1 r2 show ?thesis by blast
qed


lemma orZero_num: "orZero (JNum (Num r)) = JNum (Num r)"
  by (simp add: orZero_def truthyNum_def)

text \<open>
  C5 (as the code has it). Take a \<^verbatim>\<open>text\<close> element outside define mode, in a parent
  group, whose children are two \<^verbatim>\<open>tspan\<close> elements with one text node each. When the
  \<^verbatim>\<open>tspan\<close> elements carry no \<^verbatim>\<open>x\<close> and no (or an empty) \<^verbatim>\<open>dx\<close> attribute and the
  cursor set by the \<^verbatim>\<open>text\<close> element is a finite number \<open>r\<close>, two text runs are
  added, the first starts at \<open>r\<close> and the second at \<open>r\<close> plus the measured width of
  the first.
\<close>

theorem text_cursor_advances:
  "(let t1 = Element ''tspan'' a1 [Text s1];
        t2 = Element ''tspan'' a2 [Text s2];
        txt = Element ''text'' ta [t1, t2]
    in \<not> this_isDefine p \<and> el_kind pp = Group \<and>
       getAttribute t1 ''x'' = None \<and> getAttribute t2 ''x'' = None \<and>
       (getAttribute t1 ''dx'' = None \<or> getAttribute t1 ''dx'' = Some []) \<and>
       (getAttribute t2 ''dx'' = None \<or> getAttribute t2 ''dx'' = Some []) \<and>
       jadd (attrFloat txt ''x'') (attrFloat txt ''dx'') = Num r
       \<longrightarrow>
       (\<exists>run1 run2.
          runsOfResult (parseNode host txt (Some (El pp cs clip)) (p, w)) =
            textRuns (El pp cs clip) @ [run1, run2] \<and>
          runX run1 = JNum (Num r) \<and>
          runX run2 = JNum (Num (r + textWidth host run1))))"
  unfolding Let_def
proof (intro impI, elim conjE)
  assume nd: "\<not> this_isDefine p" and g: "el_kind pp = Group"
    and x1: "getAttribute (Element ''tspan'' a1 [Text s1]) ''x'' = None"
    and x2: "getAttribute (Element ''tspan'' a2 [Text s2]) ''x'' = None"
    and d1: "getAttribute (Element ''tspan'' a1 [Text s1]) ''dx'' = None \<or>
             getAttribute (Element ''tspan'' a1 [Text s1]) ''dx'' = Some []"
    and d2: "getAttribute (Element ''tspan'' a2 [Text s2]) ''dx'' = None \<or>
             getAttribute (Element ''tspan'' a2 [Text s2]) ''dx'' = Some []"
    and c0: "jadd (attrFloat (Element ''text'' ta
                      [Element ''tspan'' a1 [Text s1], Element ''tspan'' a2 [Text s2]]) ''x'')
                  (attrFloat (Element ''text'' ta
                      [Element ''tspan'' a1 [Text s1], Element ''tspan'' a2 [Text s2]]) ''dx'') = Num r"
  from d1 have e1: "attrOrZero (Element ''tspan'' a1 []) ''dx'' = JNum (Num 0)"
    by (auto simp: attrOrZero_def getAttribute_def)
  from d2 have e2: "attrOrZero (Element ''tspan'' a2 []) ''dx'' = JNum (Num 0)"
    by (auto simp: attrOrZero_def getAttribute_def)
  from c0 have c: "jadd (attrFloat (Element ''text'' ta []) ''x'')
                        (attrFloat (Element ''text'' ta []) ''dx'') = Num r"
    by (simp add: attrFloat_def getAttribute_def)
  from text_two_tspans [OF nd g x1 x2, of host ta cs clip w]
  show "\<exists>run1 run2.
      runsOfResult (parseNode host
          (Element ''text'' ta [Element ''tspan'' a1 [Text s1], Element ''tspan'' a2 [Text s2]])
          (Some (El pp cs clip)) (p, w)) =
        textRuns (El pp cs clip) @ [run1, run2] \<and>
      runX run1 = JNum (Num r) \<and>
      runX run2 = JNum (Num (r + textWidth host run1))"
    by (simp add: e1 e2 c jsplus_def orZero_num)
qed

lemma text_example_attrs:
  "attrFloat (Element ''text'' [(''x'', ''10'')] []) ''x'' = Num 10"
  "attrFloat (Element ''text'' [(''x'', ''10'')] []) ''dx'' = Num 0"
  "attrFloat (Element ''text'' [(''x'', ''abc'')] []) ''x'' = NaN"
  "attrFloat (Element ''text'' [(''x'', ''abc'')] []) ''dx'' = Num 0"
  "attrOrZero (Element ''tspan'' [] []) ''dx'' = JNum (Num 0)"
  "attrOrZero (Element ''tspan'' [(''dx'', ''5'')] []) ''dx'' = JStr ''5''"
  "getAttribute (Element ''tspan'' [] [Text s]) ''x'' = None"
  "getAttribute (Element ''tspan'' [(''dx'', ''5'')] [Text s]) ''x'' = None"
  "\<not> this_isDefine SVGParser_new"
  "el_kind (newEl Group) = Group"
  by (simp_all add: attrFloat_def attrOrZero_def SVGParser_new_def newEl_def eval_defs)

theorem text_cursor_advances_witness:
  "\<not> this_isDefine SVGParser_new \<and> el_kind (newEl Group) = Group \<and>
   getAttribute (Element ''tspan'' [] [Text ''ab'']) ''x'' = None \<and>
   getAttribute (Element ''tspan'' [] [Text ''ab'']) ''dx'' = None \<and>
   jadd (attrFloat (Element ''text'' [(''x'', ''10'')] []) ''x'')
        (attrFloat (Element ''text'' [(''x'', ''10'')] []) ''dx'') = Num 10 \<and>
   (\<exists>run1 run2.
      runsOfResult (parseNode
          \<lparr>textWidth = (\<lambda>e. 30), getMember = (\<lambda>obj name. Undefined), putMember = (\<lambda>obj name. OwnProperty)\<rparr>
          (Element ''text'' [(''x'', ''10'')]
             [Element ''tspan'' [] [Text ''ab''], Element ''tspan'' [] [Text ''cd'']])
          (Some (El (newEl Group) [] None))
          (SVGParser_new, \<lparr>styleRegex_lastIndex = 0, console_warn = []\<rparr>)) = [run1, run2] \<and>
      runX run1 = JNum (Num 10) \<and>
      runX run2 = JNum (Num 40))"
proof -
  have a: "attrFloat (Element ''text'' [(''x'', ''10'')]
             [Element ''tspan'' [] [Text ''ab''], Element ''tspan'' [] [Text ''cd'']]) ''x'' = Num 10"
    "attrFloat (Element ''text'' [(''x'', ''10'')]
             [Element ''tspan'' [] [Text ''ab''], Element ''tspan'' [] [Text ''cd'']]) ''dx'' = Num 0"
    "getAttribute (Element ''tspan'' [] [Text ''ab'']) ''dx'' = None"
    "getAttribute (Element ''tspan'' [] [Text ''cd'']) ''dx'' = None"
    by (simp_all add: attrFloat_def eval_defs)
  from text_cursor_advances [of "[]" "''ab''" "[]" "''cd''" "[(''x'', ''10'')]" SVGParser_new
      "newEl Group" 10 "\<lparr>textWidth = (\<lambda>e. 30), getMember = (\<lambda>obj name. Undefined), putMember = (\<lambda>obj name. OwnProperty)\<rparr>" "[]" None "\<lparr>styleRegex_lastIndex = 0, console_warn = []\<rparr>"]
  show ?thesis
    by (simp add: Let_def a text_example_attrs)
qed

text \<open>
  The claim as written fails in two ways. With \<^verbatim>\<open>dx="5"\<close> on the second \<^verbatim>\<open>tspan\<close>
  (which has no \<^verbatim>\<open>x\<close> and no \<^verbatim>\<open>y\<close>) the second run does not start at 10 + 30: its
  position is the cursor 40 with the string \<^verbatim>\<open>5\<close> appended. With \<^verbatim>\<open>x="abc"\<close> on the
  \<^verbatim>\<open>text\<close> element the cursor is \<open>NaN\<close> and both runs start at 0.
\<close>

theorem text_cursor_advances_counterexample:
  "map runX (runsOfResult (parseNode
          \<lparr>textWidth = (\<lambda>e. 30), getMember = (\<lambda>obj name. Undefined), putMember = (\<lambda>obj name. OwnProperty)\<rparr>
       (Element ''text'' [(''x'', ''10'')]
          [Element ''tspan'' [] [Text ''ab''], Element ''tspan'' [(''dx'', ''5'')] [Text ''cd'']])
       (Some (El (newEl Group) [] None))
       (SVGParser_new, \<lparr>styleRegex_lastIndex = 0, console_warn = []\<rparr>))) =
     [JNum (Num 10), JConcat (JNum (Num 40)) (JStr ''5'')] \<and>
   JConcat (JNum (Num 40)) (JStr ''5'') \<noteq> JNum (Num (10 + 30)) \<and>
   map runX (runsOfResult (parseNode
          \<lparr>textWidth = (\<lambda>e. 30), getMember = (\<lambda>obj name. Undefined), putMember = (\<lambda>obj name. OwnProperty)\<rparr>
       (Element ''text'' [(''x'', ''abc'')]
          [Element ''tspan'' [] [Text ''ab''], Element ''tspan'' [] [Text ''cd'']])
       (Some (El (newEl Group) [] None))
       (SVGParser_new, \<lparr>styleRegex_lastIndex = 0, console_warn = []\<rparr>))) =
     [JNum (Num 0), JNum (Num 0)] \<and>
   JNum (Num 0) \<noteq> JNum (Num (0 + 30))"
proof -
  let ?w = "\<lparr>styleRegex_lastIndex = 0, console_warn = []\<rparr>"
  from text_two_tspans [of SVGParser_new "newEl Group" "[]" "''ab''" "[(''dx'', ''5'')]" "''cd''"
      "\<lparr>textWidth = (\<lambda>e. 30), getMember = (\<lambda>obj name. Undefined), putMember = (\<lambda>obj name. OwnProperty)\<rparr>" "[(''x'', ''10'')]" "[]" None ?w]
  have a: "map runX (runsOfResult (parseNode
          \<lparr>textWidth = (\<lambda>e. 30), getMember = (\<lambda>obj name. Undefined), putMember = (\<lambda>obj name. OwnProperty)\<rparr>
       (Element ''text'' [(''x'', ''10'')]
          [Element ''tspan'' [] [Text ''ab''], Element ''tspan'' [(''dx'', ''5'')] [Text ''cd'']])
       (Some (El (newEl Group) [] None)) (SVGParser_new, ?w))) =
     [JNum (Num 10), JConcat (JNum (Num 40)) (JStr ''5'')]"
    by (auto simp: text_example_attrs jsplus_def orZero_def truthyNum_def)
  from text_two_tspans [of SVGParser_new "newEl Group" "[]" "''ab''" "[]" "''cd''"
      "\<lparr>textWidth = (\<lambda>e. 30), getMember = (\<lambda>obj name. Undefined), putMember = (\<lambda>obj name. OwnProperty)\<rparr>" "[(''x'', ''abc'')]" "[]" None ?w]
  have b: "map runX (runsOfResult (parseNode
          \<lparr>textWidth = (\<lambda>e. 30), getMember = (\<lambda>obj name. Undefined), putMember = (\<lambda>obj name. OwnProperty)\<rparr>
       (Element ''text'' [(''x'', ''abc'')]
          [Element ''tspan'' [] [Text ''ab''], Element ''tspan'' [] [Text ''cd'']])
       (Some (El (newEl Group) [] None)) (SVGParser_new, ?w))) =
     [JNum (Num 0), JNum (Num 0)]"
    by (auto simp: text_example_attrs jsplus_def orZero_def truthyNum_def)
  from a b show ?thesis by simp
qed

subsection \<open>Calls do not share state\<close>

lemma transformStep_fst: "fst (transformStep op (m, c)) = fst (transformStep op (m, c'))"
  by (simp add: transformStep_def Let_def split_beta)

lemma transformLoop_fst: "fst (transformLoop ops c) = fst (transformLoop ops c')"
proof (induction ops)
  case Nil
  then show ?case by (simp add: transformLoop_def)
next
  case (Cons op ops)
  obtain m1 c1 where a: "transformLoop ops c = (m1, c1)" by force
  obtain m2 c2 where b: "transformLoop ops c' = (m2, c2)" by force
  from Cons a b have "m1 = m2" by simp
  then show ?case using transformStep_fst [of op m1 c1 c2] by (simp add: transformLoop_Cons a b)
qed

lemma parseTransformAttribute_indep:
  "fst (parseTransformAttribute n e w) = fst (parseTransformAttribute n e w')"
  using transformLoop_fst
  by (auto simp: parseTransformAttribute_def transformOf_def Let_def split_beta split: option.splits)

lemma parseAttributes_indep:
  "fst (parseAttributes n e d b w) = fst (parseAttributes n e d b w')"
proof -
  obtain e1 wa where pt: "parseTransformAttribute n e w = (e1, wa)" by force
  obtain e2 wa' where pt': "parseTransformAttribute n e w' = (e2, wa')" by force
  obtain il wb where ps: "parseStyleAttribute n wa = (il, wb)" by force
  obtain il' wb' where ps': "parseStyleAttribute n wa' = (il', wb')" by force
  from parseTransformAttribute_indep [of n e w w'] pt pt' have e: "e2 = e1" by simp
  from parseStyleAttribute_indep [of n wa wa'] ps ps' have i: "il' = il" by simp
  show ?thesis
    by (cases "nodeType n = 1") (simp_all add: parseAttributes_def Let_def pt pt' ps ps' e i)
qed


lemma nodeParser_cases:
  assumes "nodeParsers name = Some f"
  shows "f \<in> {nodeParsers_g, nodeParsers_rect, nodeParsers_circle, nodeParsers_line,
               nodeParsers_ellipse, nodeParsers_polygon, nodeParsers_polyline, nodeParsers_image,
               nodeParsers_text, nodeParsers_tspan, nodeParsers_path}"
proof -
  from assms have "(name, f) \<in> set
       [(''g'', nodeParsers_g),
        (''rect'', nodeParsers_rect),
        (''circle'', nodeParsers_circle),
        (''line'', nodeParsers_line),
        (''ellipse'', nodeParsers_ellipse),
        (''polygon'', nodeParsers_polygon),
        (''polyline'', nodeParsers_polyline),
        (''image'', nodeParsers_image),
        (''text'', nodeParsers_text),
        (''tspan'', nodeParsers_tspan),
        (''path'', nodeParsers_path)]"
    unfolding nodeParsers_def by (rule map_of_SomeD)
  then show ?thesis by auto
qed

lemma parseAttributes_pair:
  "\<exists>w1 w1'. parseAttributes n e d b w = (fst (parseAttributes n e d b w), w1) \<and>
            parseAttributes n e d b w' = (fst (parseAttributes n e d b w), w1')"
  using parseAttributes_indep [of n e d b w w']
  by (metis prod.collapse)

lemma nodeParser_indep:
  assumes "nodeParsers name = Some f"
  shows "noWorld (f n pg p w) = noWorld (f n pg p w')"
proof -
  have a: "\<And>e d b. fst (parseAttributes n e d b w') = fst (parseAttributes n e d b w)"
    by (rule parseAttributes_indep)
  from nodeParser_cases [OF assms] show ?thesis
    by (elim insertE emptyE)
       (simp_all add: noWorld_def nodeParsers_g_def nodeParsers_rect_def nodeParsers_circle_def
          nodeParsers_line_def nodeParsers_ellipse_def nodeParsers_polygon_def
          nodeParsers_polyline_def nodeParsers_image_def nodeParsers_text_def
          nodeParsers_tspan_def nodeParsers_path_def Let_def split_beta a)
qed

lemma register_indep:
  "noWorld (register host n d (p, w)) = noWorld (register host n d (p, w'))"
  by (simp add: register_def noWorld_def split: option.splits sum.splits)

lemma attach_indep:
  "noWorld (attach pg e (p, w)) = noWorld (attach pg e (p, w'))"
  by (simp add: attach_def noWorld_def split: sum.splits)

lemma enterNode_indep: "noWorld (enterNode host n pg (p, w)) = noWorld (enterNode host n pg (p, w'))"
proof -
  let ?name = "toLowerCase (nodeName n)"
  let ?p1 = "(if ?name = ''defs'' then p\<lparr>this_isDefine := True\<rparr>
                else if ?name = ''text'' then p\<lparr>this_isText := True\<rparr>
                else p)"
  show ?thesis
  proof (cases "this_isDefine ?p1")
    case True
    show ?thesis
    proof (cases "lookupParser defineParsers ?name")
      case (Own f)
      with True show ?thesis
        by (cases "f n") (simp_all add: enterNode_def Let_def register_indep, simp add: noWorld_def)
    next
      case Object_constructor
      with True show ?thesis by (simp add: enterNode_def Let_def register_indep)
    next
      case Object_prototype_itself
      with True show ?thesis by (simp add: enterNode_def Let_def noWorld_def)
    next
      case Missing
      with True show ?thesis by (simp add: enterNode_def Let_def noWorld_def)
    qed
  next
    case False
    show ?thesis
    proof (cases "lookupParser nodeParsers ?name")
      case (Own f)
      then have f: "nodeParsers ?name = Some f"
        by (simp add: lookupParser_def split: option.splits if_splits)
      obtain e pa wa where r: "f n pg ?p1 w = (e, pa, wa)" by (cases "f n pg ?p1 w") auto
      obtain e' pa' wa' where r': "f n pg ?p1 w' = (e', pa', wa')" by (cases "f n pg ?p1 w'") auto
      from nodeParser_indep [OF f, of n pg ?p1 w w'] r r' have "e' = e" "pa' = pa"
        by (simp_all add: noWorld_def)
      with False Own r r' show ?thesis
        by (simp add: enterNode_def Let_def attach_indep)
    next
      case Object_constructor
      with False show ?thesis by (simp add: enterNode_def Let_def attach_indep)
    next
      case Object_prototype_itself
      with False show ?thesis by (simp add: enterNode_def Let_def noWorld_def)
    next
      case Missing
      with False show ?thesis by (simp add: enterNode_def Let_def noWorld_def)
    qed
  qed
qed

lemma leaveNode_indep: "noWorld (leaveNode n pg el (p, w)) = noWorld (leaveNode n pg el (p, w'))"
  by (simp add: leaveNode_def noWorld_def Let_def split: option.splits)

lemma parseText_indep: "noWorld (parseText host n pg (p, w)) = noWorld (parseText host n pg (p, w'))"
proof -
  have a: "\<And>e d b. fst (parseAttributes n e d b w') = fst (parseAttributes n e d b w)"
    by (rule parseAttributes_indep)
  show ?thesis by (simp add: parseText_def noWorld_def Let_def split_beta a)
qed


lemma noWorld_eq:
  "noWorld (a, b, c) = noWorld (a', b', c') \<longleftrightarrow> a = a' \<and> b = b'"
  by (simp add: noWorld_def)

lemma parseNode_step_indep:
  assumes kids: "\<And>el p w w'. noWorld (parseChildren host (childNodes n) el (p, w)) =
                                noWorld (parseChildren host (childNodes n) el (p, w'))"
  shows "noWorld (parseNode host n pg (p, w)) = noWorld (parseNode host n pg (p, w'))"
proof -
  obtain r1 p1 w1 where e: "enterNode host n pg (p, w) = (r1, p1, w1)"
    by (cases "enterNode host n pg (p, w)") auto
  obtain r1' p1' w1' where e': "enterNode host n pg (p, w') = (r1', p1', w1')"
    by (cases "enterNode host n pg (p, w')") auto
  from enterNode_indep [of host n pg p w w'] e e' have eq1: "r1' = r1" "p1' = p1"
    by (simp_all add: noWorld_eq)
  show ?thesis
  proof (cases r1)
    case (Inl err)
    then show ?thesis
      by (subst (1 2) parseNode.simps) (simp add: e e' eq1 noWorld_eq)
  next
    case (Inr el)
    obtain r2 p2 w2 where c: "parseChildren host (childNodes n) el (p1, w1) = (r2, p2, w2)"
      by (cases "parseChildren host (childNodes n) el (p1, w1)") auto
    obtain r2' p2' w2' where c': "parseChildren host (childNodes n) el (p1, w1') = (r2', p2', w2')"
      by (cases "parseChildren host (childNodes n) el (p1, w1')") auto
    from kids [of el p1 w1 w1'] c c' have eq2: "r2' = r2" "p2' = p2"
      by (simp_all add: noWorld_eq)
    show ?thesis
    proof (cases r2)
      case (Inl err)
      with Inr show ?thesis
        by (subst (1 2) parseNode.simps) (simp add: e e' eq1 c c' eq2 noWorld_eq)
    next
      case (Inr el2)
      with \<open>r1 = Inr el\<close> leaveNode_indep [of n pg el2 p2 w2 w2'] show ?thesis
        by (subst (1 2) parseNode.simps) (simp add: e e' eq1 c c' eq2)
    qed
  qed
qed

lemma parseChildren_indep_aux:
  assumes "\<And>c pg p w w'. c \<in> set ns \<Longrightarrow>
             noWorld (parseNode host c pg (p, w)) = noWorld (parseNode host c pg (p, w'))"
  shows "noWorld (parseChildren host ns el (p, w)) = noWorld (parseChildren host ns el (p, w'))"
  using assms
proof (induction ns arbitrary: el p w w')
  case Nil
  then show ?case by (simp add: noWorld_def)
next
  case (Cons child rest)
  have rest: "\<And>el p w w'. noWorld (parseChildren host rest el (p, w)) =
                             noWorld (parseChildren host rest el (p, w'))"
    by (rule Cons.IH) (simp add: Cons.prems)
  show ?case
  proof (cases "nodeType child = 1")
    case True
    obtain r1 p1 w1 where a: "parseNode host child el (p, w) = (r1, p1, w1)"
      by (cases "parseNode host child el (p, w)") auto
    obtain r1' p1' w1' where a': "parseNode host child el (p, w') = (r1', p1', w1')"
      by (cases "parseNode host child el (p, w')") auto
    from Cons.prems [of child el p w w'] a a' have eq: "r1' = r1" "p1' = p1"
      by (simp_all add: noWorld_eq)
    show ?thesis
    proof (cases r1)
      case (Inl err)
      with True show ?thesis by (simp add: a a' eq noWorld_eq)
    next
      case (Inr el1)
      with True rest [of el1 p1 w1 w1'] show ?thesis by (simp add: a a' eq)
    qed
  next
    case False
    show ?thesis
    proof (cases "nodeType child = 3 \<and> this_isText p")
      case True
      obtain r1 p1 w1 where a: "parseText host child el (p, w) = (r1, p1, w1)"
        by (cases "parseText host child el (p, w)") auto
      obtain r1' p1' w1' where a': "parseText host child el (p, w') = (r1', p1', w1')"
        by (cases "parseText host child el (p, w')") auto
      from parseText_indep [of host child el p w w'] a a' have eq: "r1' = r1" "p1' = p1"
        by (simp_all add: noWorld_eq)
      show ?thesis
      proof (cases r1)
        case (Inl err)
        with True False show ?thesis by (simp add: a a' eq noWorld_eq)
      next
        case (Inr el1)
        with True False rest [of el1 p1 w1 w1'] show ?thesis by (simp add: a a' eq)
      qed
    next
      case nt: False
      with False rest [of el p w w'] show ?thesis by auto
    qed
  qed
qed

lemma parseNode_indep:
  "noWorld (parseNode host n pg (p, w)) = noWorld (parseNode host n pg (p, w'))"
proof (induction n arbitrary: pg p w w')
  case (Element name attrs kids)
  show ?case
  proof (rule parseNode_step_indep)
    fix el p w w'
    show "noWorld (parseChildren host (childNodes (Element name attrs kids)) el (p, w)) =
          noWorld (parseChildren host (childNodes (Element name attrs kids)) el (p, w'))"
      using Element.IH by (simp add: parseChildren_indep_aux)
  qed
qed (rule parseNode_step_indep, simp add: noWorld_def)+

lemma parseEach_indep:
  "noWorld (parseEach host ns r (p, w)) = noWorld (parseEach host ns r (p, w'))"
proof (induction ns arbitrary: r p w w')
  case Nil
  then show ?case by (simp add: noWorld_def)
next
  case (Cons child rest)
  obtain r1 p1 w1 where a: "parseNode host child r (p, w) = (r1, p1, w1)"
    by (cases "parseNode host child r (p, w)") auto
  obtain r1' p1' w1' where a': "parseNode host child r (p, w') = (r1', p1', w1')"
    by (cases "parseNode host child r (p, w')") auto
  from parseNode_indep [of host child r p w w'] a a' have eq: "r1' = r1" "p1' = p1"
    by (simp_all add: noWorld_eq)
  show ?case
  proof (cases r1)
    case (Inl err)
    then show ?thesis by (simp add: a a' eq noWorld_eq)
  next
    case (Inr r2)
    with Cons.IH [of r2 p1 w1 w1'] show ?thesis by (simp add: a a' eq)
  qed
qed

lemma parse_indep: "noWorld (parse host xml opt (p, w)) = noWorld (parse host xml opt (p, w'))"
proof (cases "parseXML xml")
  case (Inl e)
  then show ?thesis by (simp add: parse_def noWorld_def)
next
  case (Inr r)
  show ?thesis
  proof (cases r)
    case None
    with Inr show ?thesis by (simp add: parse_def noWorld_def)
  next
    case (Some svg)
    let ?opt = "case opt of None \<Rightarrow> noOption | Some opt \<Rightarrow> opt"
    obtain rootEl w1 where a: "parseAttributes svg (newEl Group) None True w = (rootEl, w1)" by force
    obtain rootEl' w1' where a': "parseAttributes svg (newEl Group) None True w' = (rootEl', w1')" by force
    from parseAttributes_indep [of svg "newEl Group" None True w w'] a a' have eq: "rootEl' = rootEl"
      by simp
    obtain r2 p2 w2 where b:
      "parseEach host (childNodes svg) (Some (El rootEl [] None)) (p, w1) = (r2, p2, w2)"
      by (cases "parseEach host (childNodes svg) (Some (El rootEl [] None)) (p, w1)") auto
    obtain r2' p2' w2' where b':
      "parseEach host (childNodes svg) (Some (El rootEl [] None)) (p, w1') = (r2', p2', w2')"
      by (cases "parseEach host (childNodes svg) (Some (El rootEl [] None)) (p, w1')") auto
    from parseEach_indep [of host "childNodes svg" "Some (El rootEl [] None)" p w1 w1'] b b'
    have eq2: "r2' = r2" "p2' = p2" by (simp_all add: noWorld_eq)
    from Inr Some show ?thesis
      by (cases r2) (simp_all add: parse_def Let_def a a' eq b b' eq2 noWorld_eq)
  qed
qed

lemma parseSVG_indep: "fst (parseSVG host xml opt w) = fst (parseSVG host xml opt w')"
  using parse_indep [of host xml opt SVGParser_new w w']
  by (simp add: parseSVG_def noWorld_def split_beta)

text \<open>
  C10. \<^verbatim>\<open>parseSVG\<close> runs \<^verbatim>\<open>parse\<close> on a new parser object: no definitions, both
  flags off, the text cursor undefined. Its result does not depend on the world it
  starts in (\<^verbatim>\<open>styleRegex.lastIndex\<close> is the one piece of state that lives on between
  calls, and it is reset before it is read), so two calls in a row with the same
  document and options give the same result.
\<close>

theorem parseSVG_fresh_parser:
  "parseSVG host xml opt w = (let (r, p, w1) = parse host xml opt (SVGParser_new, w) in (r, w1)) \<and>
   this_defs SVGParser_new = emptyObject \<and>
   defs_own (this_defs SVGParser_new) = [] \<and>
   this_isDefine SVGParser_new = False \<and>
   this_isText SVGParser_new = False \<and>
   this_textX SVGParser_new = Undefined \<and>
   this_textY SVGParser_new = Undefined \<and>
   fst (parseSVG host xml opt w) = fst (parseSVG host xml opt w') \<and>
   (let (r1, w1) = parseSVG host xml opt w;
        (r2, w2) = parseSVG host xml opt w1
    in r2 = r1)"
proof -
  have "fst (parseSVG host xml opt (snd (parseSVG host xml opt w))) = fst (parseSVG host xml opt w)"
    by (rule parseSVG_indep)
  then show ?thesis
    using parseSVG_indep [of host xml opt w w']
    by (simp add: parseSVG_def SVGParser_new_def emptyObject_def split_beta)
qed

end
